theory Spec2Isabelle
  imports Main
begin

section \<open>Data model\<close>

text \<open>
  The inspection workflow of the server: the task state machine
  (\<^verbatim>\<open>pkg/service/task.go\<close>), the inspection result store
  (\<^verbatim>\<open>pkg/service/inspectionresult.go\<close>) and the inspection act generator
  (\<^verbatim>\<open>pkg/service/inspectionact.go\<close>), over the entities declared in
  \<^verbatim>\<open>ent/schema\<close>.

  Go strings are byte strings. The Russian literals of the source are written as their
  UTF-8 bytes; every such constant says what the literal means.
\<close>

subsection \<open>Enumerations\<close>

text \<open>The \<^verbatim>\<open>status\<close> enum of the Task schema (\<^verbatim>\<open>Statuses\<close>), in the schema's order.\<close>

datatype status =
  StatusNew
  | StatusPending
  | StatusInProgress
  | StatusOnReview
  | StatusForRevision
  | StatusApproved
  | StatusCanceled

text \<open>
  The \<^verbatim>\<open>condition_status\<close> enum of the InspectionResult schema
  (\<^verbatim>\<open>ConditionStatuses\<close>): sound, satisfactory, unsatisfactory, emergency.
\<close>

datatype condition_status =
  ConditionSound
  | ConditionSatisfactory
  | ConditionUnsatisfactory
  | ConditionEmergency

text \<open>\<^verbatim>\<open>string(r.ConditionStatus)\<close>: the enum's stored value.\<close>

definition condition_label :: "condition_status \<Rightarrow> string" where
  "condition_label c = (case c of
     ConditionSound \<Rightarrow>
       [CHR 0xD0, CHR 0x98, CHR 0xD1, CHR 0x81, CHR 0xD0, CHR 0xBF, CHR 0xD1, CHR 0x80,
        CHR 0xD0, CHR 0xB0, CHR 0xD0, CHR 0xB2, CHR 0xD0, CHR 0xBD, CHR 0xD0, CHR 0xBE,
        CHR 0xD0, CHR 0xB5]
   | ConditionSatisfactory \<Rightarrow>
       [CHR 0xD0, CHR 0xA3, CHR 0xD0, CHR 0xB4, CHR 0xD0, CHR 0xBE, CHR 0xD0, CHR 0xB2,
        CHR 0xD0, CHR 0xBB, CHR 0xD0, CHR 0xB5, CHR 0xD1, CHR 0x82, CHR 0xD0, CHR 0xB2,
        CHR 0xD0, CHR 0xBE, CHR 0xD1, CHR 0x80, CHR 0xD0, CHR 0xB8, CHR 0xD1, CHR 0x82,
        CHR 0xD0, CHR 0xB5, CHR 0xD0, CHR 0xBB, CHR 0xD1, CHR 0x8C, CHR 0xD0, CHR 0xBD,
        CHR 0xD0, CHR 0xBE, CHR 0xD0, CHR 0xB5]
   | ConditionUnsatisfactory \<Rightarrow>
       [CHR 0xD0, CHR 0x9D, CHR 0xD0, CHR 0xB5, CHR 0xD1, CHR 0x83, CHR 0xD0, CHR 0xB4,
        CHR 0xD0, CHR 0xBE, CHR 0xD0, CHR 0xB2, CHR 0xD0, CHR 0xBB, CHR 0xD0, CHR 0xB5,
        CHR 0xD1, CHR 0x82, CHR 0xD0, CHR 0xB2, CHR 0xD0, CHR 0xBE, CHR 0xD1, CHR 0x80,
        CHR 0xD0, CHR 0xB8, CHR 0xD1, CHR 0x82, CHR 0xD0, CHR 0xB5, CHR 0xD0, CHR 0xBB,
        CHR 0xD1, CHR 0x8C, CHR 0xD0, CHR 0xBD, CHR 0xD0, CHR 0xBE, CHR 0xD0, CHR 0xB5]
   | ConditionEmergency \<Rightarrow>
       [CHR 0xD0, CHR 0x90, CHR 0xD0, CHR 0xB2, CHR 0xD0, CHR 0xB0, CHR 0xD1, CHR 0x80,
        CHR 0xD0, CHR 0xB8, CHR 0xD0, CHR 0xB9, CHR 0xD0, CHR 0xBD, CHR 0xD0, CHR 0xBE,
        CHR 0xD0, CHR 0xB5])"

subsection \<open>Time\<close>

text \<open>
  A \<^verbatim>\<open>time.Time\<close> as the wall-clock reading that \<^verbatim>\<open>Format\<close> prints. The
  zero value is January 1 of year 1, 00:00:00.
\<close>

record timestamp =
  ts_year :: nat
  ts_month :: nat
  ts_day :: nat
  ts_hour :: nat
  ts_minute :: nat
  ts_second :: nat
  ts_nsec :: nat

definition zero_time :: timestamp where
  "zero_time = \<lparr>ts_year = 1, ts_month = 1, ts_day = 1, ts_hour = 0, ts_minute = 0,
     ts_second = 0, ts_nsec = 0\<rparr>"

definition IsZero :: "timestamp \<Rightarrow> bool" where
  "IsZero t = (t = zero_time)"

text \<open>The calendar ranges every clock reading lies in.\<close>

definition valid_time :: "timestamp \<Rightarrow> bool" where
  "valid_time t =
     (1 \<le> ts_month t \<and> ts_month t \<le> 12 \<and> 1 \<le> ts_day t \<and> ts_day t \<le> 31
      \<and> ts_hour t < 24 \<and> ts_minute t < 60 \<and> ts_second t < 60 \<and> ts_nsec t < 1000000000)"

subsection \<open>Decimal printing\<close>

definition digit_char :: "nat \<Rightarrow> char" where
  "digit_char d = char_of (48 + d)"

text \<open>\<^verbatim>\<open>%d\<close> of a natural number: the decimal digits, most significant first.\<close>

fun digits10 :: "nat \<Rightarrow> string" where
  "digits10 n = (if n < 10 then [digit_char n] else digits10 (n div 10) @ [digit_char (n mod 10)])"

declare digits10.simps [simp del]

text \<open>\<^verbatim>\<open>fmt.Sprintf("%d", i)\<close> of a Go \<^verbatim>\<open>int\<close>.\<close>

definition show_int :: "int \<Rightarrow> string" where
  "show_int i = (if i < 0 then CHR ''-'' # digits10 (nat (- i)) else digits10 (nat i))"

text \<open>
  The zero-padded field of \<^verbatim>\<open>Format\<close> (\<^verbatim>\<open>appendInt\<close> with a width): at least
  \<open>w\<close> digits, more when the value needs them.
\<close>

definition zero_pad :: "nat \<Rightarrow> nat \<Rightarrow> string" where
  "zero_pad w n = replicate (w - length (digits10 n)) CHR ''0'' @ digits10 n"

text \<open>The layout \<^verbatim>\<open>"02.01.2006"\<close>.\<close>

definition format_date :: "timestamp \<Rightarrow> string" where
  "format_date t =
     zero_pad 2 (ts_day t) @ ''.'' @ zero_pad 2 (ts_month t) @ ''.'' @ zero_pad 4 (ts_year t)"

text \<open>The layout \<^verbatim>\<open>"02.01.2006 15:04"\<close>.\<close>

definition format_datetime :: "timestamp \<Rightarrow> string" where
  "format_datetime t =
     format_date t @ '' '' @ zero_pad 2 (ts_hour t) @ '':'' @ zero_pad 2 (ts_minute t)"

text \<open>The layout \<^verbatim>\<open>"20060102_150405"\<close> of the artifact's filename.\<close>

definition format_stamp :: "timestamp \<Rightarrow> string" where
  "format_stamp t =
     zero_pad 4 (ts_year t) @ zero_pad 2 (ts_month t) @ zero_pad 2 (ts_day t) @ ''_''
     @ zero_pad 2 (ts_hour t) @ zero_pad 2 (ts_minute t) @ zero_pad 2 (ts_second t)"

subsection \<open>Entities\<close>

text \<open>
  One record per entity of \<^verbatim>\<open>ent/schema\<close>, with the fields the workflow reads or
  writes. A row's primary key is the key of its table (for tables looked up by id only)
  or its \<open>id\<close> field (for tables that are filtered and listed).
\<close>

record task =
  task_building_id :: int
  task_checklist_id :: int
  task_inspector_id :: int
  task_title :: string
  task_status :: status
  task_scheduled_date :: timestamp
  task_updated_at :: timestamp

record user =
  user_first_name :: string
  user_last_name :: string
  user_email :: string

record building =
  building_address :: string
  building_construction_year :: int
  building_district_id :: int
  building_jkh_unit_id :: int

record checklist =
  checklist_title :: string
  checklist_inspection_type :: string

record checklist_element =
  ce_checklist_id :: int
  ce_element_id :: int
  ce_order_index :: int

record element_catalog =
  ec_name :: string
  ec_category :: string

text \<open>An optional string column reads as the empty string when it is NULL.\<close>

record inspection_result =
  res_id :: int
  res_task_id :: int
  res_checklist_element_id :: int
  res_condition_status :: condition_status
  res_comment :: string
  res_created_at :: timestamp
  res_updated_at :: timestamp

text \<open>
  \<open>act_approved_at\<close> is \<^const>\<open>zero_time\<close> and \<open>act_document_path\<close> is empty
  until they are set.
\<close>

record inspection_act =
  act_id :: int
  act_task_id :: int
  act_created_at :: timestamp
  act_approved_at :: timestamp
  act_status :: string
  act_conclusion :: string
  act_document_path :: string

subsection \<open>The rendered document\<close>

text \<open>
  The fixed captions that \<^verbatim>\<open>generatePDF\<close> prints in front of a value, named by
  their meaning.
\<close>

datatype caption =
  CapActNumber
  | CapActCreated
  | CapActStatus
  | CapApprovedDate
  | CapInspectionDate
  | CapInspector
  | CapInspectorEmail
  | CapAddress
  | CapConstructionYear
  | CapDistrict
  | CapJkhUnit
  | CapChecklistTitle
  | CapInspectionType

text \<open>One row of the results table: sequence number, element name, condition, comment.\<close>

record table_row =
  row_number :: string
  row_element :: string
  row_condition :: string
  row_comment :: string

text \<open>
  The document is the text that \<^verbatim>\<open>generatePDF\<close> draws, section by section; the
  bytes that \<^verbatim>\<open>pdf.Output\<close> writes are identified with it. Fonts, cell sizes and
  line breaks are left out.
\<close>

record pdf_document =
  doc_info :: "(caption \<times> string) list"
  doc_building :: "(caption \<times> string) list"
  doc_checklist :: "(caption \<times> string) list"
  doc_rows :: "table_row list"
  doc_conclusion :: string
  doc_sign_date :: string

subsection \<open>Errors and log lines\<close>

text \<open>
  The sentinel errors of the three services, and one constructor for each
  \<^verbatim>\<open>fmt.Errorf\<close> message the modelled functions return.
\<close>

datatype error =
  ErrTaskNotFound
  | ErrInvalidStatusTransition
  | ErrActNotFound
  | ErrResultNotFound
  | ErrTaskNotInProgress
  | ErrChecklistElementInvalid
  | ErrDatabase
  | ErrUpdateAct
  | ErrApproveAct
  | ErrFetchResults
  | ErrTaskEdgeNotLoaded
  | ErrLoadRegularFont
  | ErrLoadBoldFont
  | ErrGeneratePDF
  | ErrSavePDF
  | ErrFetchResult

text \<open>Each \<^verbatim>\<open>log.Printf\<close> of the modelled functions.\<close>

datatype log_line =
  LogMkdirFailed string
  | LogCreateActFailed int
  | LogActCreated int
  | LogApproveActFailed int
  | LogActApproved int
  | LogDBErrorCreatingAct
  | LogDeleteDraftFailed
  | LogFetchResultsFailed
  | LogGenerateApprovedFailed
  | LogSaveApprovedFailed
  | LogUpdatePathFailed
  | LogApprovedPDFGenerated int
  | LogReadExistingFailed
  | LogSavePDFFailed string
  | LogUpdateActPathFailed
  | LogDBErrorUpdatingResult
  | LogDBErrorCreatingResult

subsection \<open>The world: database, file system, log\<close>

text \<open>
  Tables that are filtered and listed are lists of rows in storage order (a new row is
  appended, an updated row stays in place); the \<open>seq\<close> fields are the next primary
  keys. \<open>files\<close> is the file system under the storage path.
\<close>

record world =
  tasks :: "int \<rightharpoonup> task"
  users :: "int \<rightharpoonup> user"
  buildings :: "int \<rightharpoonup> building"
  districts :: "int \<rightharpoonup> string"
  jkh_units :: "int \<rightharpoonup> string"
  checklists :: "int \<rightharpoonup> checklist"
  checklist_elements :: "int \<rightharpoonup> checklist_element"
  element_catalogs :: "int \<rightharpoonup> element_catalog"
  results :: "inspection_result list"
  result_seq :: int
  acts :: "inspection_act list"
  act_seq :: int
  files :: "string \<rightharpoonup> pdf_document"
  logs :: "log_line list"

text \<open>
  What one service call meets outside the program: for every database, file-system and
  rendering step whether it fails for a reason of its own (connection lost, disk full,
  font file missing), and the clock readings of the call. \<open>db_now\<close> is the reading
  the schema defaults (\<^verbatim>\<open>Default(time.Now)\<close>, \<^verbatim>\<open>UpdateDefault(time.Now)\<close>)
  take; the other three are the \<^verbatim>\<open>time.Now()\<close> calls of \<^verbatim>\<open>ApproveAct\<close> and
  \<^verbatim>\<open>generatePDF\<close>.
\<close>

record env =
  task_query_fault :: bool
  task_update_fault :: bool
  element_query_fault :: bool
  result_query_fault :: bool
  result_save_fault :: bool
  result_fetch_fault :: bool
  result_delete_fault :: bool
  act_query_fault :: bool
  act_update_fault :: bool
  act_create_fault :: bool
  act_path_update_fault :: bool
  results_query_fault :: bool
  read_file_fault :: bool
  write_file_fault :: bool
  remove_file_fault :: bool
  mkdir_fault :: bool
  font_regular_fault :: bool
  font_bold_fault :: bool
  pdf_output_fault :: bool
  db_now :: timestamp
  now_approve :: timestamp
  now_sign :: timestamp
  now_name :: timestamp

definition log_Printf :: "log_line \<Rightarrow> world \<Rightarrow> world" where
  "log_Printf l w = w\<lparr>logs := logs w @ [l]\<rparr>"

section \<open>The persistence layer and the file system\<close>

text \<open>
  Modelled from the spec: the generated ent client (package \<^verbatim>\<open>jkh/ent\<close>) is not
  among the sources. The spec (section 6) lists what the core consumes from
  persistence: CRUD on Task, InspectionResult and InspectionAct rows and the read-only
  checklist lookups. The primitives below are those calls as the services spell them,
  with the constraints that \<^verbatim>\<open>ent/schema\<close> declares (\<open>task_id\<close> of an act is
  unique). \<^verbatim>\<open>Only\<close> fails unless exactly one row matches; an update touches the columns
  it sets and the row with the given primary key.
\<close>

datatype ent_error =
  NotFoundError
  | NotSingularError
  | ConstraintError
  | DriverError

definition IsNotFound :: "ent_error \<Rightarrow> bool" where
  "IsNotFound err = (err = NotFoundError)"

definition Only :: "'a list \<Rightarrow> ent_error + 'a" where
  "Only rows = (case rows of
     [] \<Rightarrow> Inl NotFoundError
   | [r] \<Rightarrow> Inr r
   | _ \<Rightarrow> Inl NotSingularError)"

subsection \<open>Tasks and checklists\<close>

text \<open>\<^verbatim>\<open>Client.Task.Query().Where(task.IDEQ(id)).Only(ctx)\<close>\<close>

definition task_Query_Only :: "env \<Rightarrow> world \<Rightarrow> int \<Rightarrow> ent_error + task" where
  "task_Query_Only e w taskID =
     (if task_query_fault e then Inl DriverError
      else case tasks w taskID of None \<Rightarrow> Inl NotFoundError | Some t \<Rightarrow> Inr t)"

text \<open>\<^verbatim>\<open>Client.Task.UpdateOneID(id).SetStatus(newStatus).Exec(ctx)\<close>\<close>

definition task_UpdateOneID_SetStatus :: "env \<Rightarrow> world \<Rightarrow> int \<Rightarrow> status \<Rightarrow> ent_error + world" where
  "task_UpdateOneID_SetStatus e w taskID newStatus =
     (if task_update_fault e then Inl DriverError
      else case tasks w taskID of
        None \<Rightarrow> Inl NotFoundError
      | Some t \<Rightarrow>
          Inr (w\<lparr>tasks := (tasks w)(taskID \<mapsto> t\<lparr>task_status := newStatus, task_updated_at := db_now e\<rparr>)\<rparr>))"

text \<open>
  \<^verbatim>\<open>Client.ChecklistElement.Query().Where(IDEQ(elementID), ChecklistIDEQ(checklistID)).Exist(ctx)\<close>
\<close>

definition checklist_element_Exist :: "env \<Rightarrow> world \<Rightarrow> int \<Rightarrow> int \<Rightarrow> ent_error + bool" where
  "checklist_element_Exist e w elementID checklistID =
     (if element_query_fault e then Inl DriverError
      else case checklist_elements w elementID of
        None \<Rightarrow> Inr False
      | Some ce \<Rightarrow> Inr (ce_checklist_id ce = checklistID))"

subsection \<open>Inspection results\<close>

text \<open>A result with its \<^verbatim>\<open>ChecklistElement\<close> and \<^verbatim>\<open>ElementCatalog\<close> edges loaded.\<close>

record result_graph =
  rg_result :: inspection_result
  rg_element :: "checklist_element option"
  rg_catalog :: "element_catalog option"

definition load_result_edges :: "world \<Rightarrow> inspection_result \<Rightarrow> result_graph" where
  "load_result_edges w r =
     (let ce = checklist_elements w (res_checklist_element_id r)
      in \<lparr>rg_result = r, rg_element = ce,
          rg_catalog = Option.bind ce (\<lambda>c. element_catalogs w (ce_element_id c))\<rparr>)"

definition result_matches :: "int \<Rightarrow> int \<Rightarrow> inspection_result \<Rightarrow> bool" where
  "result_matches taskID elementID r =
     (res_task_id r = taskID \<and> res_checklist_element_id r = elementID)"

text \<open>
  \<^verbatim>\<open>Client.InspectionResult.Query().Where(TaskIDEQ(taskID), ChecklistElementIDEQ(elementID)).Only(ctx)\<close>
\<close>

definition result_Query_Only :: "env \<Rightarrow> world \<Rightarrow> int \<Rightarrow> int \<Rightarrow> ent_error + inspection_result" where
  "result_Query_Only e w taskID elementID =
     (if result_query_fault e then Inl DriverError
      else Only (filter (result_matches taskID elementID) (results w)))"

text \<open>The same query with the edges loaded, as the last step of the upsert runs it.\<close>

definition result_Query_WithElement_Only :: "env \<Rightarrow> world \<Rightarrow> int \<Rightarrow> int \<Rightarrow> ent_error + result_graph" where
  "result_Query_WithElement_Only e w taskID elementID =
     (if result_fetch_fault e then Inl DriverError
      else map_sum id (load_result_edges w)
        (Only (filter (result_matches taskID elementID) (results w))))"

text \<open>
  \<^verbatim>\<open>UpdateOne(existing).SetConditionStatus(c)\<close> with \<^verbatim>\<open>SetComment\<close> or
  \<^verbatim>\<open>ClearComment\<close>, then \<^verbatim>\<open>Save\<close>. The schema stamps \<open>updated_at\<close>.
\<close>

definition result_UpdateOne_Save ::
  "env \<Rightarrow> world \<Rightarrow> int \<Rightarrow> condition_status \<Rightarrow> string option \<Rightarrow> ent_error + world" where
  "result_UpdateOne_Save e w rid c comment =
     (if result_save_fault e then Inl DriverError
      else if \<not> (\<exists>r \<in> set (results w). res_id r = rid) then Inl NotFoundError
      else Inr (w\<lparr>results :=
        map (\<lambda>r. if res_id r = rid
               then r\<lparr>res_condition_status := c,
                      res_comment := (case comment of Some s \<Rightarrow> s | None \<Rightarrow> []),
                      res_updated_at := db_now e\<rparr>
               else r) (results w)\<rparr>))"

text \<open>
  \<^verbatim>\<open>Create().SetTaskID(..).SetChecklistElementID(..).SetConditionStatus(..)\<close>, with
  \<^verbatim>\<open>SetComment\<close> when a comment is given, then \<^verbatim>\<open>Save\<close>.
\<close>

definition result_Create_Save ::
  "env \<Rightarrow> world \<Rightarrow> int \<Rightarrow> int \<Rightarrow> condition_status \<Rightarrow> string option \<Rightarrow> ent_error + world" where
  "result_Create_Save e w taskID elementID c comment =
     (if result_save_fault e then Inl DriverError
      else Inr (w\<lparr>results := results w @
          [\<lparr>res_id = result_seq w, res_task_id = taskID, res_checklist_element_id = elementID,
            res_condition_status = c,
            res_comment = (case comment of Some s \<Rightarrow> s | None \<Rightarrow> []),
            res_created_at = db_now e, res_updated_at = db_now e\<rparr>],
        result_seq := result_seq w + 1\<rparr>))"

text \<open>
  \<^verbatim>\<open>Client.InspectionResult.Query().Where(TaskIDEQ(taskID)).WithChecklistElement(..).All(ctx)\<close>:
  the task's rows in storage order; the query has no \<^verbatim>\<open>Order\<close> clause.
\<close>

definition results_Query_All :: "env \<Rightarrow> world \<Rightarrow> int \<Rightarrow> ent_error + result_graph list" where
  "results_Query_All e w taskID =
     (if results_query_fault e then Inl DriverError
      else Inr (map (load_result_edges w) (filter (\<lambda>r. res_task_id r = taskID) (results w))))"

text \<open>\<^verbatim>\<open>Client.InspectionResult.Delete().Where(..).Exec(ctx)\<close>: the number of rows deleted.\<close>

definition result_Delete_Exec :: "env \<Rightarrow> world \<Rightarrow> int \<Rightarrow> int \<Rightarrow> ent_error + (nat \<times> world)" where
  "result_Delete_Exec e w taskID elementID =
     (if result_delete_fault e then Inl DriverError
      else Inr (length (filter (result_matches taskID elementID) (results w)),
                w\<lparr>results := filter (\<lambda>r. \<not> result_matches taskID elementID r) (results w)\<rparr>))"

subsection \<open>Inspection acts\<close>

text \<open>
  An act with the edges that \<^verbatim>\<open>WithTask(..)\<close> loads: the task, and the task's
  inspector, building (with district and unit) and checklist.
\<close>

record act_graph =
  ag_act :: inspection_act
  ag_task :: "task option"
  ag_inspector :: "user option"
  ag_building :: "building option"
  ag_district :: "string option"
  ag_jkh_unit :: "string option"
  ag_checklist :: "checklist option"

definition load_act_edges :: "world \<Rightarrow> inspection_act \<Rightarrow> act_graph" where
  "load_act_edges w a =
     (let t = tasks w (act_task_id a);
          b = Option.bind t (\<lambda>t. buildings w (task_building_id t))
      in \<lparr>ag_act = a, ag_task = t,
          ag_inspector = Option.bind t (\<lambda>t. users w (task_inspector_id t)),
          ag_building = b,
          ag_district = Option.bind b (\<lambda>b. districts w (building_district_id b)),
          ag_jkh_unit = Option.bind b (\<lambda>b. jkh_units w (building_jkh_unit_id b)),
          ag_checklist = Option.bind t (\<lambda>t. checklists w (task_checklist_id t))\<rparr>)"

text \<open>\<^verbatim>\<open>Client.InspectionAct.Query().Where(inspectionact.TaskIDEQ(taskID)).Only(ctx)\<close>\<close>

definition act_Query_Only :: "env \<Rightarrow> world \<Rightarrow> int \<Rightarrow> ent_error + inspection_act" where
  "act_Query_Only e w taskID =
     (if act_query_fault e then Inl DriverError
      else Only (filter (\<lambda>a. act_task_id a = taskID) (acts w)))"

text \<open>The same query with \<^verbatim>\<open>WithTask(..)\<close>.\<close>

definition act_Query_WithTask_Only :: "env \<Rightarrow> world \<Rightarrow> int \<Rightarrow> ent_error + act_graph" where
  "act_Query_WithTask_Only e w taskID =
     map_sum id (load_act_edges w) (act_Query_Only e w taskID)"

text \<open>
  \<^verbatim>\<open>Client.InspectionAct.UpdateOne(act)\<close> with its setters, then \<^verbatim>\<open>Save\<close>: the
  setters are the function \<open>f\<close>, the row is found by the primary key of \<open>act\<close>, and
  the updated row is returned.
\<close>

definition act_UpdateOne_Save ::
  "bool \<Rightarrow> world \<Rightarrow> int \<Rightarrow> (inspection_act \<Rightarrow> inspection_act) \<Rightarrow> ent_error + (inspection_act \<times> world)" where
  "act_UpdateOne_Save fault w aid f =
     (if fault then Inl DriverError
      else case find (\<lambda>a. act_id a = aid) (acts w) of
        None \<Rightarrow> Inl NotFoundError
      | Some a \<Rightarrow>
          Inr (f a, w\<lparr>acts := map (\<lambda>a. if act_id a = aid then f a else a) (acts w)\<rparr>))"

text \<open>
  \<^verbatim>\<open>Create().SetTaskID(..).SetStatus(..).SetConclusion(..).Save(ctx)\<close>. The schema
  stamps \<open>created_at\<close> and refuses a second act for the same task.
\<close>

definition act_Create_Save ::
  "env \<Rightarrow> world \<Rightarrow> int \<Rightarrow> string \<Rightarrow> string \<Rightarrow> ent_error + (inspection_act \<times> world)" where
  "act_Create_Save e w taskID st conclusion =
     (if act_create_fault e then Inl DriverError
      else if \<exists>a \<in> set (acts w). act_task_id a = taskID then Inl ConstraintError
      else
        let a = \<lparr>act_id = act_seq w, act_task_id = taskID, act_created_at = db_now e,
                 act_approved_at = zero_time, act_status = st, act_conclusion = conclusion,
                 act_document_path = []\<rparr>
        in Inr (a, w\<lparr>acts := acts w @ [a], act_seq := act_seq w + 1\<rparr>))"

subsection \<open>Files and paths\<close>

text \<open>\<^verbatim>\<open>os.ReadFile\<close>, \<^verbatim>\<open>os.WriteFile\<close>, \<^verbatim>\<open>os.Remove\<close>: \<open>None\<close> is the error.\<close>

definition os_ReadFile :: "env \<Rightarrow> world \<Rightarrow> string \<Rightarrow> pdf_document option" where
  "os_ReadFile e w path = (if read_file_fault e then None else files w path)"

definition os_WriteFile :: "env \<Rightarrow> world \<Rightarrow> string \<Rightarrow> pdf_document \<Rightarrow> world option" where
  "os_WriteFile e w path data =
     (if write_file_fault e then None else Some (w\<lparr>files := (files w)(path \<mapsto> data)\<rparr>))"

definition os_Remove :: "env \<Rightarrow> world \<Rightarrow> string \<Rightarrow> world option" where
  "os_Remove e w path =
     (if remove_file_fault e \<or> files w path = None then None
      else Some (w\<lparr>files := (files w)(path := None)\<rparr>))"

text \<open>
  \<^verbatim>\<open>filepath.Join\<close> of the storage path and a filename; \<^verbatim>\<open>Clean\<close> leaves such a
  path as it is.
\<close>

definition filepath_Join :: "string \<Rightarrow> string \<Rightarrow> string" where
  "filepath_Join dir name = dir @ ''/'' @ name"

text \<open>
  \<^verbatim>\<open>filepath.Base\<close>: the last element of the path, after trailing slashes are
  dropped.
\<close>

definition filepath_Base :: "string \<Rightarrow> string" where
  "filepath_Base path =
     (if path = [] then ''.''
      else
        let stripped = rev (dropWhile (\<lambda>c. c = CHR ''/'') (rev path));
            last_elem = rev (takeWhile (\<lambda>c. c \<noteq> CHR ''/'') (rev stripped))
        in if last_elem = [] then ''/'' else last_elem)"

section \<open>The inspection act generator\<close>

text \<open>The act status a new act gets (Russian for "created"): the drafted state.\<close>

definition status_created :: string where
  "status_created =
     [CHR 0xD1, CHR 0x81, CHR 0xD0, CHR 0xBE, CHR 0xD0, CHR 0xB7, CHR 0xD0, CHR 0xB4,
      CHR 0xD0, CHR 0xB0, CHR 0xD0, CHR 0xBD]"

text \<open>The act status after approval (Russian for "approved").\<close>

definition status_approved :: string where
  "status_approved =
     [CHR 0xD1, CHR 0x83, CHR 0xD1, CHR 0x82, CHR 0xD0, CHR 0xB2, CHR 0xD0, CHR 0xB5,
      CHR 0xD1, CHR 0x80, CHR 0xD0, CHR 0xB6, CHR 0xD0, CHR 0xB4, CHR 0xD1, CHR 0x91,
      CHR 0xD0, CHR 0xBD]"

text \<open>
  The conclusion that \<^verbatim>\<open>ApproveAct\<close> stores ("The inspection act has been approved
  by the coordinator.").
\<close>

definition approved_conclusion :: string where
  "approved_conclusion =
     [CHR 0xD0, CHR 0x90, CHR 0xD0, CHR 0xBA, CHR 0xD1, CHR 0x82, CHR 0x20, CHR 0xD0,
      CHR 0xBE, CHR 0xD1, CHR 0x81, CHR 0xD0, CHR 0xBC, CHR 0xD0, CHR 0xBE, CHR 0xD1,
      CHR 0x82, CHR 0xD1, CHR 0x80, CHR 0xD0, CHR 0xB0, CHR 0x20, CHR 0xD1, CHR 0x83,
      CHR 0xD1, CHR 0x82, CHR 0xD0, CHR 0xB2, CHR 0xD0, CHR 0xB5, CHR 0xD1, CHR 0x80,
      CHR 0xD0, CHR 0xB6, CHR 0xD0, CHR 0xB4, CHR 0xD1, CHR 0x91, CHR 0xD0, CHR 0xBD,
      CHR 0x20, CHR 0xD0, CHR 0xBA, CHR 0xD0, CHR 0xBE, CHR 0xD0, CHR 0xBE, CHR 0xD1,
      CHR 0x80, CHR 0xD0, CHR 0xB4, CHR 0xD0, CHR 0xB8, CHR 0xD0, CHR 0xBD, CHR 0xD0,
      CHR 0xB0, CHR 0xD1, CHR 0x82, CHR 0xD0, CHR 0xBE, CHR 0xD1, CHR 0x80, CHR 0xD0,
      CHR 0xBE, CHR 0xD0, CHR 0xBC, CHR 0x2E]"

text \<open>
  The conclusion that \<^verbatim>\<open>generatePDF\<close> prints for an act without one ("Inspection
  completed. The results are in the table above.").
\<close>

definition fallback_conclusion :: string where
  "fallback_conclusion =
     [CHR 0xD0, CHR 0x9E, CHR 0xD1, CHR 0x81, CHR 0xD0, CHR 0xBC, CHR 0xD0, CHR 0xBE,
      CHR 0xD1, CHR 0x82, CHR 0xD1, CHR 0x80, CHR 0x20, CHR 0xD0, CHR 0xB2, CHR 0xD1,
      CHR 0x8B, CHR 0xD0, CHR 0xBF, CHR 0xD0, CHR 0xBE, CHR 0xD0, CHR 0xBB, CHR 0xD0,
      CHR 0xBD, CHR 0xD0, CHR 0xB5, CHR 0xD0, CHR 0xBD, CHR 0x2E, CHR 0x20, CHR 0xD0,
      CHR 0xA0, CHR 0xD0, CHR 0xB5, CHR 0xD0, CHR 0xB7, CHR 0xD1, CHR 0x83, CHR 0xD0,
      CHR 0xBB, CHR 0xD1, CHR 0x8C, CHR 0xD1, CHR 0x82, CHR 0xD0, CHR 0xB0, CHR 0xD1,
      CHR 0x82, CHR 0xD1, CHR 0x8B, CHR 0x20, CHR 0xD0, CHR 0xBF, CHR 0xD1, CHR 0x80,
      CHR 0xD0, CHR 0xB5, CHR 0xD0, CHR 0xB4, CHR 0xD1, CHR 0x81, CHR 0xD1, CHR 0x82,
      CHR 0xD0, CHR 0xB0, CHR 0xD0, CHR 0xB2, CHR 0xD0, CHR 0xBB, CHR 0xD0, CHR 0xB5,
      CHR 0xD0, CHR 0xBD, CHR 0xD1, CHR 0x8B, CHR 0x20, CHR 0xD0, CHR 0xB2, CHR 0x20,
      CHR 0xD1, CHR 0x82, CHR 0xD0, CHR 0xB0, CHR 0xD0, CHR 0xB1, CHR 0xD0, CHR 0xBB,
      CHR 0xD0, CHR 0xB8, CHR 0xD1, CHR 0x86, CHR 0xD0, CHR 0xB5, CHR 0x20, CHR 0xD0,
      CHR 0xB2, CHR 0xD1, CHR 0x8B, CHR 0xD1, CHR 0x88, CHR 0xD0, CHR 0xB5, CHR 0x2E]"

record InspectionActService =
  StoragePath :: string

text \<open>\<^verbatim>\<open>NewInspectionActService\<close>: creates the storage directory, logging a failure.\<close>

definition NewInspectionActService :: "env \<Rightarrow> world \<Rightarrow> string \<Rightarrow> InspectionActService \<times> world" where
  "NewInspectionActService e w storagePath =
     (\<lparr>StoragePath = storagePath\<rparr>,
      if mkdir_fault e then log_Printf (LogMkdirFailed storagePath) w else w)"

subsection \<open>Rendering\<close>

text \<open>The metadata lines under the title.\<close>

definition info_section :: "act_graph \<Rightarrow> task \<Rightarrow> (caption \<times> string) list" where
  "info_section g t =
     [(CapActNumber, show_int (act_id (ag_act g))),
      (CapActCreated, format_datetime (act_created_at (ag_act g))),
      (CapActStatus, act_status (ag_act g))]
     @ (if \<not> IsZero (act_approved_at (ag_act g))
        then [(CapApprovedDate, format_datetime (act_approved_at (ag_act g)))] else [])
     @ [(CapInspectionDate, format_date (task_scheduled_date t))]
     @ (case ag_inspector g of
          None \<Rightarrow> []
        | Some ins \<Rightarrow>
            [(CapInspector, user_first_name ins @ '' '' @ user_last_name ins),
             (CapInspectorEmail, user_email ins)])"

definition building_section :: "act_graph \<Rightarrow> (caption \<times> string) list" where
  "building_section g =
     (case ag_building g of
        None \<Rightarrow> []
      | Some b \<Rightarrow>
          [(CapAddress, building_address b),
           (CapConstructionYear, show_int (building_construction_year b))]
          @ (case ag_district g of None \<Rightarrow> [] | Some d \<Rightarrow> [(CapDistrict, d)])
          @ (case ag_jkh_unit g of None \<Rightarrow> [] | Some u \<Rightarrow> [(CapJkhUnit, u)]))"

definition checklist_section :: "act_graph \<Rightarrow> (caption \<times> string) list" where
  "checklist_section g =
     (case ag_checklist g of
        None \<Rightarrow> []
      | Some cl \<Rightarrow>
          [(CapChecklistTitle, checklist_title cl),
           (CapInspectionType, checklist_inspection_type cl)])"

text \<open>
  The loop \<^verbatim>\<open>for i, r := range results\<close> of the results table: one row per element
  of the slice, in the slice's order, numbered from \<open>i + 1\<close>.
\<close>

fun result_rows :: "nat \<Rightarrow> result_graph list \<Rightarrow> table_row list" where
  "result_rows i [] = []"
| "result_rows i (r # rs) =
     \<lparr>row_number = show_int (int i + 1),
      row_element =
        (case rg_element r of
           None \<Rightarrow> []
         | Some ce \<Rightarrow> (case rg_catalog r of None \<Rightarrow> [] | Some cat \<Rightarrow> ec_name cat)),
      row_condition = condition_label (res_condition_status (rg_result r)),
      row_comment = res_comment (rg_result r)\<rparr>
     # result_rows (i + 1) rs"

text \<open>The artifact's filename: \<^verbatim>\<open>"act_%d_%s.pdf"\<close> of the task id and the time of rendering.\<close>

definition act_filename :: "int \<Rightarrow> timestamp \<Rightarrow> string" where
  "act_filename taskID t = ''act_'' @ show_int taskID @ ''_'' @ format_stamp t @ ''.pdf''"

definition generatePDF :: "env \<Rightarrow> act_graph \<Rightarrow> result_graph list \<Rightarrow> error + (pdf_document \<times> string)" where
  "generatePDF e act rs =
     (case ag_task act of
        None \<Rightarrow> Inl ErrTaskEdgeNotLoaded
      | Some t \<Rightarrow>
          if font_regular_fault e then Inl ErrLoadRegularFont
          else if font_bold_fault e then Inl ErrLoadBoldFont
          else
            let doc = \<lparr>doc_info = info_section act t,
                       doc_building = building_section act,
                       doc_checklist = checklist_section act,
                       doc_rows = result_rows 0 rs,
                       doc_conclusion =
                         (if act_conclusion (ag_act act) = [] then fallback_conclusion
                          else act_conclusion (ag_act act)),
                       doc_sign_date = format_date (now_sign e)\<rparr>
            in if pdf_output_fault e then Inl ErrGeneratePDF
               else Inr (doc, act_filename (act_task_id (ag_act act)) (now_name e)))"

subsection \<open>Creating, approving, fetching\<close>

definition CreateOrUpdateAct :: "env \<Rightarrow> world \<Rightarrow> int \<Rightarrow> string \<Rightarrow> (error + inspection_act) \<times> world" where
  "CreateOrUpdateAct e w taskID conclusion =
     (case act_Query_Only e w taskID of
        Inr act \<Rightarrow>
          (case act_UpdateOne_Save (act_update_fault e) w (act_id act)
                  (\<lambda>a. a\<lparr>act_conclusion := conclusion\<rparr>) of
             Inl err \<Rightarrow> (Inl ErrUpdateAct, w)
           | Inr (act', w') \<Rightarrow> (Inr act', w'))
      | Inl err \<Rightarrow>
          if \<not> IsNotFound err then (Inl ErrDatabase, w)
          else
            (case act_Create_Save e w taskID status_created conclusion of
               Inl err \<Rightarrow> (Inl ErrDatabase, log_Printf LogDBErrorCreatingAct w)
             | Inr (act', w') \<Rightarrow> (Inr act', w')))"

definition approve_fields :: "timestamp \<Rightarrow> inspection_act \<Rightarrow> inspection_act" where
  "approve_fields now a =
     a\<lparr>act_approved_at := now, act_status := status_approved,
       act_conclusion := approved_conclusion\<rparr>"

text \<open>
  Step 4 of \<^verbatim>\<open>ApproveAct\<close>: delete the old document, if the act records one. A
  failure is logged.
\<close>

definition remove_draft :: "env \<Rightarrow> world \<Rightarrow> act_graph \<Rightarrow> world" where
  "remove_draft e w1 act =
     (if act_document_path (ag_act act) \<noteq> []
      then (case os_Remove e w1 (act_document_path (ag_act act)) of
              None \<Rightarrow> log_Printf LogDeleteDraftFailed w1
            | Some w' \<Rightarrow> w')
      else w1)"

text \<open>
  Steps 5 to 7 of \<^verbatim>\<open>ApproveAct\<close>: load the results, render, save, record the path.
  Every failure is logged and the function returns \<^verbatim>\<open>nil\<close> all the same, so the
  result is the world alone.
\<close>

definition regenerate_approved ::
  "InspectionActService \<Rightarrow> env \<Rightarrow> world \<Rightarrow> act_graph \<Rightarrow> int \<Rightarrow> world" where
  "regenerate_approved s e w2 act taskID =
     (case results_Query_All e w2 taskID of
        Inl err \<Rightarrow> log_Printf LogFetchResultsFailed w2
      | Inr rs \<Rightarrow>
          (case generatePDF e act rs of
             Inl err \<Rightarrow> log_Printf LogGenerateApprovedFailed w2
           | Inr (pdfData, filename) \<Rightarrow>
               let fullPath = filepath_Join (StoragePath s) filename in
               (case os_WriteFile e w2 fullPath pdfData of
                  None \<Rightarrow> log_Printf LogSaveApprovedFailed w2
                | Some w3 \<Rightarrow>
                    let w4 = (case act_UpdateOne_Save (act_path_update_fault e) w3
                                     (act_id (ag_act act))
                                     (\<lambda>a. a\<lparr>act_document_path := fullPath\<rparr>) of
                                Inl err \<Rightarrow> log_Printf LogUpdatePathFailed w3
                              | Inr (_, w') \<Rightarrow> w')
                    in log_Printf (LogApprovedPDFGenerated taskID) w4)))"

definition ApproveAct :: "InspectionActService \<Rightarrow> env \<Rightarrow> world \<Rightarrow> int \<Rightarrow> (error + unit) \<times> world" where
  "ApproveAct s e w taskID =
     (case act_Query_WithTask_Only e w taskID of
        Inl err \<Rightarrow> (if IsNotFound err then (Inl ErrActNotFound, w) else (Inl ErrDatabase, w))
      | Inr act0 \<Rightarrow>
          let now = now_approve e in
          (case act_UpdateOne_Save (act_update_fault e) w (act_id (ag_act act0))
                  (approve_fields now) of
             Inl err \<Rightarrow> (Inl ErrApproveAct, w)
           | Inr (_, w1) \<Rightarrow>
               let act = act0\<lparr>ag_act := approve_fields now (ag_act act0)\<rparr>
               in (Inr (), regenerate_approved s e (remove_draft e w1 act) act taskID)))"

text \<open>
  Steps 3 to 6 of \<^verbatim>\<open>GeneratePDFForAct\<close>, when no stored document could be read:
  load the results, render, save, record the path. Here a failure to load, render or
  save is returned; only a failure to record the path is logged and passed over.
\<close>

definition render_and_store ::
  "InspectionActService \<Rightarrow> env \<Rightarrow> world \<Rightarrow> act_graph \<Rightarrow> int \<Rightarrow>
     (error + (pdf_document \<times> string)) \<times> world" where
  "render_and_store s e w1 act taskID =
     (case results_Query_All e w1 taskID of
        Inl err \<Rightarrow> (Inl ErrFetchResults, w1)
      | Inr rs \<Rightarrow>
          (case generatePDF e act rs of
             Inl err \<Rightarrow> (Inl err, w1)
           | Inr (pdfData, filename) \<Rightarrow>
               let fullPath = filepath_Join (StoragePath s) filename in
               (case os_WriteFile e w1 fullPath pdfData of
                  None \<Rightarrow> (Inl ErrSavePDF, log_Printf (LogSavePDFFailed fullPath) w1)
                | Some w2 \<Rightarrow>
                    let w3 = (case act_UpdateOne_Save (act_path_update_fault e) w2
                                     (act_id (ag_act act))
                                     (\<lambda>a. a\<lparr>act_document_path := fullPath\<rparr>) of
                                Inl err \<Rightarrow> log_Printf LogUpdateActPathFailed w2
                              | Inr (_, w') \<Rightarrow> w')
                    in (Inr (pdfData, filename), w3))))"

definition GeneratePDFForAct ::
  "InspectionActService \<Rightarrow> env \<Rightarrow> world \<Rightarrow> int \<Rightarrow> (error + (pdf_document \<times> string)) \<times> world" where
  "GeneratePDFForAct s e w taskID =
     (case act_Query_WithTask_Only e w taskID of
        Inl err \<Rightarrow> (if IsNotFound err then (Inl ErrActNotFound, w) else (Inl ErrDatabase, w))
      | Inr act \<Rightarrow>
          let cached = (if act_document_path (ag_act act) \<noteq> []
                        then os_ReadFile e w (act_document_path (ag_act act)) else None)
          in (case cached of
                Some data \<Rightarrow> (Inr (data, filepath_Base (act_document_path (ag_act act))), w)
              | None \<Rightarrow>
                  let w1 = (if act_document_path (ag_act act) \<noteq> []
                            then log_Printf LogReadExistingFailed w else w)
                  in render_and_store s e w1 act taskID))"

section \<open>The task state machine\<close>

text \<open>The map \<^verbatim>\<open>allowedTransitions\<close>; \<open>None\<close> is a key the map does not have.\<close>

definition allowedTransitions :: "status \<Rightarrow> status list option" where
  "allowedTransitions s = (case s of
     StatusNew \<Rightarrow> Some [StatusPending, StatusCanceled]
   | StatusPending \<Rightarrow> Some [StatusInProgress, StatusCanceled]
   | StatusInProgress \<Rightarrow> Some [StatusOnReview, StatusCanceled]
   | StatusOnReview \<Rightarrow> Some [StatusApproved, StatusForRevision]
   | StatusForRevision \<Rightarrow> Some [StatusOnReview, StatusCanceled]
   | StatusApproved \<Rightarrow> Some []
   | StatusCanceled \<Rightarrow> Some [])"

text \<open>The loop of \<^verbatim>\<open>isTransitionAllowed\<close> over the allowed targets.\<close>

fun status_in :: "status \<Rightarrow> status list \<Rightarrow> bool" where
  "status_in newStatus [] = False"
| "status_in newStatus (s # allowed) = (if s = newStatus then True else status_in newStatus allowed)"

definition isTransitionAllowed :: "status \<Rightarrow> status \<Rightarrow> bool" where
  "isTransitionAllowed currentStatus newStatus =
     (case allowedTransitions currentStatus of
        None \<Rightarrow> False
      | Some allowed \<Rightarrow> status_in newStatus allowed)"

text \<open>
  The conclusion a submitted task's act gets ("Inspection completed. Awaiting the
  coordinator's review.").
\<close>

definition submit_conclusion :: string where
  "submit_conclusion =
     [CHR 0xD0, CHR 0x9E, CHR 0xD1, CHR 0x81, CHR 0xD0, CHR 0xBC, CHR 0xD0, CHR 0xBE,
      CHR 0xD1, CHR 0x82, CHR 0xD1, CHR 0x80, CHR 0x20, CHR 0xD0, CHR 0xB2, CHR 0xD1,
      CHR 0x8B, CHR 0xD0, CHR 0xBF, CHR 0xD0, CHR 0xBE, CHR 0xD0, CHR 0xBB, CHR 0xD0,
      CHR 0xBD, CHR 0xD0, CHR 0xB5, CHR 0xD0, CHR 0xBD, CHR 0x2E, CHR 0x20, CHR 0xD0,
      CHR 0x9E, CHR 0xD0, CHR 0xB6, CHR 0xD0, CHR 0xB8, CHR 0xD0, CHR 0xB4, CHR 0xD0,
      CHR 0xB0, CHR 0xD0, CHR 0xB5, CHR 0xD1, CHR 0x82, CHR 0x20, CHR 0xD0, CHR 0xBF,
      CHR 0xD1, CHR 0x80, CHR 0xD0, CHR 0xBE, CHR 0xD0, CHR 0xB2, CHR 0xD0, CHR 0xB5,
      CHR 0xD1, CHR 0x80, CHR 0xD0, CHR 0xBA, CHR 0xD0, CHR 0xB8, CHR 0x20, CHR 0xD0,
      CHR 0xBA, CHR 0xD0, CHR 0xBE, CHR 0xD0, CHR 0xBE, CHR 0xD1, CHR 0x80, CHR 0xD0,
      CHR 0xB4, CHR 0xD0, CHR 0xB8, CHR 0xD0, CHR 0xBD, CHR 0xD0, CHR 0xB0, CHR 0xD1,
      CHR 0x82, CHR 0xD0, CHR 0xBE, CHR 0xD1, CHR 0x80, CHR 0xD0, CHR 0xBE, CHR 0xD0,
      CHR 0xBC, CHR 0x2E]"

text \<open>Step 4 of \<^verbatim>\<open>UpdateTaskStatus\<close>: the act draft for a task that enters review.\<close>

definition on_review_effect :: "env \<Rightarrow> world \<Rightarrow> int \<Rightarrow> world" where
  "on_review_effect e w taskID =
     (let (actService, w1) = NewInspectionActService e w ''storage/acts''
      in case CreateOrUpdateAct e w1 taskID submit_conclusion of
           (Inl err, w2) \<Rightarrow> log_Printf (LogCreateActFailed taskID) w2
         | (Inr act, w2) \<Rightarrow> log_Printf (LogActCreated taskID) w2)"

text \<open>Step 5: the approval of the act of a task that is approved.\<close>

definition approved_effect :: "env \<Rightarrow> world \<Rightarrow> int \<Rightarrow> world" where
  "approved_effect e w taskID =
     (let (actService, w1) = NewInspectionActService e w ''storage/acts''
      in case ApproveAct actService e w1 taskID of
           (Inl err, w2) \<Rightarrow> log_Printf (LogApproveActFailed taskID) w2
         | (Inr u, w2) \<Rightarrow> log_Printf (LogActApproved taskID) w2)"

definition UpdateTaskStatus :: "env \<Rightarrow> world \<Rightarrow> int \<Rightarrow> status \<Rightarrow> (error + unit) \<times> world" where
  "UpdateTaskStatus e w taskID newStatus =
     (case task_Query_Only e w taskID of
        Inl err \<Rightarrow> (if IsNotFound err then (Inl ErrTaskNotFound, w) else (Inl ErrDatabase, w))
      | Inr t \<Rightarrow>
          if \<not> isTransitionAllowed (task_status t) newStatus
          then (Inl ErrInvalidStatusTransition, w)
          else
            (case task_UpdateOneID_SetStatus e w taskID newStatus of
               Inl err \<Rightarrow> (Inl ErrDatabase, w)
             | Inr w1 \<Rightarrow>
                 let w2 = (if newStatus = StatusOnReview then on_review_effect e w1 taskID else w1);
                     w3 = (if newStatus = StatusApproved then approved_effect e w2 taskID else w2)
                 in (Inr (), w3)))"

text \<open>
  The handler \<^verbatim>\<open>SubmitTask\<close>: the HTTP status it answers with. \<open>None\<close> is a path
  parameter that \<^verbatim>\<open>parseID\<close> rejects.
\<close>

definition SubmitTask :: "env \<Rightarrow> world \<Rightarrow> int option \<Rightarrow> nat \<times> world" where
  "SubmitTask e w idParam =
     (case idParam of
        None \<Rightarrow> (400, w)
      | Some taskID \<Rightarrow>
          (case UpdateTaskStatus e w taskID StatusOnReview of
             (Inl err, w') \<Rightarrow>
               (if err = ErrTaskNotFound then 404
                else if err = ErrInvalidStatusTransition then 400
                else 500, w')
           | (Inr u, w') \<Rightarrow> (200, w')))"

section \<open>The inspection result store\<close>

record CreateInspectionResultRequest =
  ChecklistElementID :: int
  ConditionStatus :: condition_status
  Comment :: "string option"

record InspectionResultResponse =
  resp_TaskID :: int
  resp_ChecklistElementID :: int
  resp_ElementName :: string
  resp_ElementCategory :: string
  resp_OrderIndex :: int
  resp_ConditionStatus :: string
  resp_Comment :: string
  resp_CreatedAt :: timestamp
  resp_UpdatedAt :: timestamp

definition toInspectionResultResponse :: "result_graph \<Rightarrow> InspectionResultResponse" where
  "toInspectionResultResponse ir =
     \<lparr>resp_TaskID = res_task_id (rg_result ir),
      resp_ChecklistElementID = res_checklist_element_id (rg_result ir),
      resp_ElementName =
        (case rg_element ir of
           None \<Rightarrow> []
         | Some ce \<Rightarrow> (case rg_catalog ir of None \<Rightarrow> [] | Some cat \<Rightarrow> ec_name cat)),
      resp_ElementCategory =
        (case rg_element ir of
           None \<Rightarrow> []
         | Some ce \<Rightarrow> (case rg_catalog ir of None \<Rightarrow> [] | Some cat \<Rightarrow> ec_category cat)),
      resp_OrderIndex = (case rg_element ir of None \<Rightarrow> 0 | Some ce \<Rightarrow> ce_order_index ce),
      resp_ConditionStatus = condition_label (res_condition_status (rg_result ir)),
      resp_Comment = res_comment (rg_result ir),
      resp_CreatedAt = res_created_at (rg_result ir),
      resp_UpdatedAt = res_updated_at (rg_result ir)\<rparr>"

definition validateTaskAndElement :: "env \<Rightarrow> world \<Rightarrow> int \<Rightarrow> int \<Rightarrow> error + unit" where
  "validateTaskAndElement e w taskID checklistElementID =
     (case task_Query_Only e w taskID of
        Inl err \<Rightarrow> (if IsNotFound err then Inl ErrTaskNotFound else Inl ErrDatabase)
      | Inr t \<Rightarrow>
          if task_status t \<noteq> StatusInProgress then Inl ErrTaskNotInProgress
          else
            (case checklist_element_Exist e w checklistElementID (task_checklist_id t) of
               Inl err \<Rightarrow> Inl ErrChecklistElementInvalid
             | Inr exists \<Rightarrow> if \<not> exists then Inl ErrChecklistElementInvalid else Inr ()))"

definition CreateOrUpdateResult ::
  "env \<Rightarrow> world \<Rightarrow> int \<Rightarrow> CreateInspectionResultRequest \<Rightarrow> (error + InspectionResultResponse) \<times> world" where
  "CreateOrUpdateResult e w taskID req =
     (case validateTaskAndElement e w taskID (ChecklistElementID req) of
        Inl err \<Rightarrow> (Inl err, w)
      | Inr u \<Rightarrow>
          let saved =
            (case result_Query_Only e w taskID (ChecklistElementID req) of
               Inr existing \<Rightarrow>
                 (case result_UpdateOne_Save e w (res_id existing) (ConditionStatus req) (Comment req) of
                    Inl err \<Rightarrow> (Inl ErrDatabase, log_Printf LogDBErrorUpdatingResult w)
                  | Inr w' \<Rightarrow> (Inr (), w'))
             | Inl err \<Rightarrow>
                 if \<not> IsNotFound err then (Inl ErrDatabase, w)
                 else
                   (case result_Create_Save e w taskID (ChecklistElementID req)
                           (ConditionStatus req) (Comment req) of
                      Inl err \<Rightarrow> (Inl ErrDatabase, log_Printf LogDBErrorCreatingResult w)
                    | Inr w' \<Rightarrow> (Inr (), w')))
          in (case saved of
                (Inl err, w1) \<Rightarrow> (Inl err, w1)
              | (Inr u, w1) \<Rightarrow>
                  (case result_Query_WithElement_Only e w1 taskID (ChecklistElementID req) of
                     Inl err \<Rightarrow> (Inl ErrFetchResult, w1)
                   | Inr result \<Rightarrow> (Inr (toInspectionResultResponse result), w1))))"

definition DeleteResult :: "env \<Rightarrow> world \<Rightarrow> int \<Rightarrow> int \<Rightarrow> (error + unit) \<times> world" where
  "DeleteResult e w taskID checklistElementID =
     (case result_Delete_Exec e w taskID checklistElementID of
        Inl err \<Rightarrow> (Inl ErrDatabase, w)
      | Inr (deleted, w') \<Rightarrow> if deleted = 0 then (Inl ErrResultNotFound, w') else (Inr (), w'))"

section \<open>Reference definitions and sample data\<close>

text \<open>
  The transition table as the specification words it: for each of the seven states the
  set of allowed targets.
\<close>

definition spec_allowed_targets :: "status \<Rightarrow> status set" where
  "spec_allowed_targets s = (case s of
     StatusNew \<Rightarrow> {StatusPending, StatusCanceled}
   | StatusPending \<Rightarrow> {StatusInProgress, StatusCanceled}
   | StatusInProgress \<Rightarrow> {StatusOnReview, StatusCanceled}
   | StatusOnReview \<Rightarrow> {StatusApproved, StatusForRevision}
   | StatusForRevision \<Rightarrow> {StatusOnReview, StatusCanceled}
   | StatusApproved \<Rightarrow> {}
   | StatusCanceled \<Rightarrow> {})"

text \<open>Three clock readings: two within the same second, one a second later.\<close>

definition T0 :: timestamp where
  "T0 = \<lparr>ts_year = 2026, ts_month = 3, ts_day = 9, ts_hour = 14, ts_minute = 5,
     ts_second = 7, ts_nsec = 0\<rparr>"

definition T1 :: timestamp where
  "T1 = \<lparr>ts_year = 2026, ts_month = 3, ts_day = 9, ts_hour = 14, ts_minute = 5,
     ts_second = 7, ts_nsec = 500000000\<rparr>"

definition T2 :: timestamp where
  "T2 = \<lparr>ts_year = 2026, ts_month = 3, ts_day = 9, ts_hour = 14, ts_minute = 5,
     ts_second = 8, ts_nsec = 0\<rparr>"

text \<open>A call during which nothing outside the program fails.\<close>

definition E0 :: env where
  "E0 = \<lparr>task_query_fault = False, task_update_fault = False, element_query_fault = False,
     result_query_fault = False, result_save_fault = False, result_fetch_fault = False,
     result_delete_fault = False, act_query_fault = False, act_update_fault = False,
     act_create_fault = False, act_path_update_fault = False, results_query_fault = False,
     read_file_fault = False, write_file_fault = False, remove_file_fault = False,
     mkdir_fault = False, font_regular_fault = False, font_bold_fault = False,
     pdf_output_fault = False, db_now = T0, now_approve = T0, now_sign = T0, now_name = T0\<rparr>"

text \<open>
  A database with one task in progress, whose checklist 1 has the elements 10 (roof,
  first) and 11 (walls, second); element 20 belongs to another checklist.
\<close>

definition Task1 :: task where
  "Task1 = \<lparr>task_building_id = 1, task_checklist_id = 1, task_inspector_id = 1,
     task_title = ''Spring inspection'', task_status = StatusInProgress,
     task_scheduled_date = T0, task_updated_at = T0\<rparr>"

definition W0 :: world where
  "W0 = \<lparr>tasks = [1 \<mapsto> Task1],
     users = [1 \<mapsto> \<lparr>user_first_name = ''Ivan'', user_last_name = ''Petrov'',
                       user_email = ''ivan@example.org''\<rparr>],
     buildings = [1 \<mapsto> \<lparr>building_address = ''Lenina 1'', building_construction_year = 1975,
                           building_district_id = 1, building_jkh_unit_id = 1\<rparr>],
     districts = [1 \<mapsto> ''Central''],
     jkh_units = [1 \<mapsto> ''Unit 1''],
     checklists = [1 \<mapsto> \<lparr>checklist_title = ''Spring'', checklist_inspection_type = ''spring''\<rparr>],
     checklist_elements =
       [10 \<mapsto> \<lparr>ce_checklist_id = 1, ce_element_id = 100, ce_order_index = 1\<rparr>,
        11 \<mapsto> \<lparr>ce_checklist_id = 1, ce_element_id = 101, ce_order_index = 2\<rparr>,
        20 \<mapsto> \<lparr>ce_checklist_id = 2, ce_element_id = 100, ce_order_index = 1\<rparr>],
     element_catalogs =
       [100 \<mapsto> \<lparr>ec_name = ''Roof'', ec_category = ''Structure''\<rparr>,
        101 \<mapsto> \<lparr>ec_name = ''Walls'', ec_category = ''Structure''\<rparr>],
     results = [], result_seq = 1, acts = [], act_seq = 1,
     files = Map.empty, logs = []\<rparr>"

text \<open>A call during which the act table cannot be queried.\<close>

definition E1 :: env where
  "E1 = E0\<lparr>act_query_fault := True\<rparr>"

text \<open>Membership of an element in a checklist, as the data model has it.\<close>

definition element_in_checklist :: "world \<Rightarrow> int \<Rightarrow> int \<Rightarrow> bool" where
  "element_in_checklist w elementID checklistID =
     (case checklist_elements w elementID of
        None \<Rightarrow> False
      | Some ce \<Rightarrow> ce_checklist_id ce = checklistID)"

text \<open>The result rows of one (task, element) pair.\<close>

definition pair_results :: "world \<Rightarrow> int \<Rightarrow> int \<Rightarrow> inspection_result list" where
  "pair_results w taskID elementID = filter (result_matches taskID elementID) (results w)"

text \<open>A call during which the database answers every step of the upsert.\<close>

definition upsert_ready :: "env \<Rightarrow> bool" where
  "upsert_ready e =
     (\<not> task_query_fault e \<and> \<not> element_query_fault e \<and> \<not> result_query_fault e
      \<and> \<not> result_save_fault e \<and> \<not> result_fetch_fault e)"

text \<open>A row that holds the condition and the comment of a request.\<close>

definition upsert_values :: "CreateInspectionResultRequest \<Rightarrow> inspection_result \<Rightarrow> bool" where
  "upsert_values req r =
     (res_condition_status r = ConditionStatus req
      \<and> res_comment r = (case Comment req of None \<Rightarrow> [] | Some c \<Rightarrow> c))"

text \<open>
  The identity rule of the data model: at most one result row per (task, element) pair.
\<close>

definition results_unique :: "world \<Rightarrow> bool" where
  "results_unique w =
     (\<forall>r \<in> set (results w).
        length (pair_results w (res_task_id r) (res_checklist_element_id r)) \<le> 1)"

text \<open>
  Two requests for element 10 of the task's checklist, the second without a comment, and
  one for element 20 of another checklist.
\<close>

definition Req1 :: CreateInspectionResultRequest where
  "Req1 = \<lparr>ChecklistElementID = 10, ConditionStatus = ConditionSound,
     Comment = Some ''no defects''\<rparr>"

definition Req2 :: CreateInspectionResultRequest where
  "Req2 = \<lparr>ChecklistElementID = 10, ConditionStatus = ConditionEmergency, Comment = None\<rparr>"

definition Req3 :: CreateInspectionResultRequest where
  "Req3 = \<lparr>ChecklistElementID = 20, ConditionStatus = ConditionSound, Comment = None\<rparr>"

text \<open>The sample database with the task already submitted for review.\<close>

definition W_review :: world where
  "W_review = W0\<lparr>tasks := [1 \<mapsto> Task1\<lparr>task_status := StatusOnReview\<rparr>]\<rparr>"

text \<open>The act rows of one task.\<close>

definition task_acts :: "world \<Rightarrow> int \<Rightarrow> inspection_act list" where
  "task_acts w taskID = filter (\<lambda>a. act_task_id a = taskID) (acts w)"

text \<open>The row a first draft is stored as.\<close>

definition draft_act :: "env \<Rightarrow> world \<Rightarrow> int \<Rightarrow> string \<Rightarrow> inspection_act" where
  "draft_act e w taskID conclusion =
     \<lparr>act_id = act_seq w, act_task_id = taskID, act_created_at = db_now e,
      act_approved_at = zero_time, act_status = status_created, act_conclusion = conclusion,
      act_document_path = []\<rparr>"

text \<open>
  A drafted act of task 1 with a rendered document on disk, and the sample database
  holding it, the task being under review.
\<close>

definition Doc1 :: pdf_document where
  "Doc1 = \<lparr>doc_info = [(CapActNumber, ''1'')], doc_building = [], doc_checklist = [],
     doc_rows = [], doc_conclusion = ''draft'', doc_sign_date = ''08.03.2026''\<rparr>"

definition A1 :: inspection_act where
  "A1 = \<lparr>act_id = 1, act_task_id = 1, act_created_at = T0, act_approved_at = zero_time,
     act_status = status_created, act_conclusion = ''first draft'',
     act_document_path = ''storage/acts/act_1_20260308_101500.pdf''\<rparr>"

definition W_doc :: world where
  "W_doc = W_review\<lparr>acts := [A1], act_seq := 2,
     files := [''storage/acts/act_1_20260308_101500.pdf'' \<mapsto> Doc1]\<rparr>"

text \<open>An act row without its document pointer.\<close>

definition erase_path :: "inspection_act \<Rightarrow> inspection_act" where
  "erase_path a = a\<lparr>act_document_path := []\<rparr>"

text \<open>The results of one task as the rendering receives them: in storage order.\<close>

definition task_results :: "world \<Rightarrow> int \<Rightarrow> result_graph list" where
  "task_results w taskID =
     map (load_result_edges w) (filter (\<lambda>r. res_task_id r = taskID) (results w))"

text \<open>The database after step 2 of \<^verbatim>\<open>ApproveAct\<close> has stored the approval of act \<open>a0\<close>.\<close>

definition approved_world :: "env \<Rightarrow> world \<Rightarrow> inspection_act \<Rightarrow> world" where
  "approved_world e w a0 =
     w\<lparr>acts := map (\<lambda>a. if act_id a = act_id a0 then approve_fields (now_approve e) a else a)
        (acts w)\<rparr>"

text \<open>The act as step 3 of \<^verbatim>\<open>ApproveAct\<close> hands it to the rendering.\<close>

definition approved_graph :: "env \<Rightarrow> world \<Rightarrow> inspection_act \<Rightarrow> act_graph" where
  "approved_graph e w a0 =
     (load_act_edges w a0)\<lparr>ag_act := approve_fields (now_approve e) a0\<rparr>"

text \<open>The act service as the router and the task service construct it.\<close>

definition S0 :: InspectionActService where
  "S0 = \<lparr>StoragePath = ''storage/acts''\<rparr>"

text \<open>A call during which the results cannot be loaded.\<close>

definition E2 :: env where
  "E2 = E0\<lparr>results_query_fault := True\<rparr>"

text \<open>
  The drafted act of task 1 before any document was rendered, and the database holding
  it: first without results, then with two results recorded in the order walls, roof -
  the reverse of the checklist's order.
\<close>

definition A0 :: inspection_act where
  "A0 = A1\<lparr>act_document_path := []\<rparr>"

definition W_nodoc :: world where
  "W_nodoc = W_review\<lparr>acts := [A0], act_seq := 2\<rparr>"

definition R_walls :: inspection_result where
  "R_walls = \<lparr>res_id = 1, res_task_id = 1, res_checklist_element_id = 11,
     res_condition_status = ConditionSatisfactory, res_comment = ''hairline cracks'',
     res_created_at = T0, res_updated_at = T0\<rparr>"

definition R_roof :: inspection_result where
  "R_roof = \<lparr>res_id = 2, res_task_id = 1, res_checklist_element_id = 10,
     res_condition_status = ConditionSound, res_comment = [],
     res_created_at = T0, res_updated_at = T0\<rparr>"

definition W_rows :: world where
  "W_rows = W_nodoc\<lparr>results := [R_walls, R_roof], result_seq := 3\<rparr>"

text \<open>The document rendered for that act at the clock reading \<^const>\<open>T0\<close>, without results.\<close>

definition DocFresh :: pdf_document where
  "DocFresh = \<lparr>doc_info =
       [(CapActNumber, ''1''), (CapActCreated, ''09.03.2026 14:05''),
        (CapActStatus, status_created), (CapInspectionDate, ''09.03.2026''),
        (CapInspector, ''Ivan Petrov''), (CapInspectorEmail, ''ivan@example.org'')],
     doc_building =
       [(CapAddress, ''Lenina 1''), (CapConstructionYear, ''1975''),
        (CapDistrict, ''Central''), (CapJkhUnit, ''Unit 1'')],
     doc_checklist = [(CapChecklistTitle, ''Spring''), (CapInspectionType, ''spring'')],
     doc_rows = [], doc_conclusion = ''first draft'', doc_sign_date = ''09.03.2026''\<rparr>"

text \<open>A call during which the document cannot be written to disk.\<close>

definition E3 :: env where
  "E3 = E0\<lparr>write_file_fault := True\<rparr>"

text \<open>What the filename's layout keeps of a clock reading: everything down to the second.\<close>

definition stamp_fields :: "timestamp \<Rightarrow> nat \<times> nat \<times> nat \<times> nat \<times> nat \<times> nat" where
  "stamp_fields t =
     (ts_year t, ts_month t, ts_day t, ts_hour t, ts_minute t, ts_second t)"

text \<open>Reading a decimal string back, for the proof that printing loses nothing.\<close>

definition dec :: "string \<Rightarrow> nat" where
  "dec s = foldl (\<lambda>a c. 10 * a + (of_char c - 48)) 0 s"

text \<open>The filename of a successful rendering, \<open>None\<close> when the rendering fails.\<close>

definition rendered_filename :: "error + (pdf_document \<times> string) \<Rightarrow> string option" where
  "rendered_filename r = (case r of Inl err \<Rightarrow> None | Inr (doc, fn) \<Rightarrow> Some fn)"

text \<open>A call whose rendering reads the clock half a second after \<^const>\<open>T0\<close>, and one a second after.\<close>

definition E4 :: env where
  "E4 = E0\<lparr>now_name := T1\<rparr>"

definition E5 :: env where
  "E5 = E0\<lparr>now_name := T2\<rparr>"

text \<open>The order index of the checklist element a result belongs to.\<close>

definition result_order_index :: "result_graph \<Rightarrow> int" where
  "result_order_index r = (case rg_element r of None \<Rightarrow> 0 | Some ce \<Rightarrow> ce_order_index ce)"

text \<open>The table row of the result at position \<open>i\<close> (from 0) of the rendered list.\<close>

definition table_row_of :: "nat \<Rightarrow> result_graph \<Rightarrow> table_row" where
  "table_row_of i r =
     \<lparr>row_number = show_int (int i + 1),
      row_element =
        (case rg_element r of
           None \<Rightarrow> []
         | Some ce \<Rightarrow> (case rg_catalog r of None \<Rightarrow> [] | Some cat \<Rightarrow> ec_name cat)),
      row_condition = condition_label (res_condition_status (rg_result r)),
      row_comment = res_comment (rg_result r)\<rparr>"

text \<open>
  The results table as the specification words it: one row per recorded result of the
  task, in the order of the elements' order index within the checklist.
\<close>

definition spec_rows :: "world \<Rightarrow> int \<Rightarrow> table_row list" where
  "spec_rows w taskID = result_rows 0 (sort_key result_order_index (task_results w taskID))"

text \<open>The document rendered for the sample act once the two results are recorded.\<close>

definition DocRows :: pdf_document where
  "DocRows = DocFresh\<lparr>doc_rows :=
     [\<lparr>row_number = ''1'', row_element = ''Walls'',
       row_condition = condition_label ConditionSatisfactory,
       row_comment = ''hairline cracks''\<rparr>,
      \<lparr>row_number = ''2'', row_element = ''Roof'',
       row_condition = condition_label ConditionSound, row_comment = []\<rparr>]\<rparr>"

text \<open>
  A call during which the results can be loaded and the document can be rendered and
  written.
\<close>

definition render_ready :: "env \<Rightarrow> bool" where
  "render_ready e =
     (\<not> results_query_fault e \<and> \<not> font_regular_fault e \<and> \<not> font_bold_fault e
      \<and> \<not> pdf_output_fault e \<and> \<not> write_file_fault e)"

text \<open>
  The database with the drafted act, its old document on disk, and the two results; and
  the document that approving this act at \<^const>\<open>T0\<close> renders.
\<close>

definition W_doc_rows :: world where
  "W_doc_rows = W_doc\<lparr>results := [R_walls, R_roof], result_seq := 3\<rparr>"

definition DocApproved :: pdf_document where
  "DocApproved = \<lparr>doc_info =
       [(CapActNumber, ''1''), (CapActCreated, ''09.03.2026 14:05''),
        (CapActStatus, status_approved), (CapApprovedDate, ''09.03.2026 14:05''),
        (CapInspectionDate, ''09.03.2026''),
        (CapInspector, ''Ivan Petrov''), (CapInspectorEmail, ''ivan@example.org'')],
     doc_building =
       [(CapAddress, ''Lenina 1''), (CapConstructionYear, ''1975''),
        (CapDistrict, ''Central''), (CapJkhUnit, ''Unit 1'')],
     doc_checklist = [(CapChecklistTitle, ''Spring''), (CapInspectionType, ''spring'')],
     doc_rows =
       [\<lparr>row_number = ''1'', row_element = ''Walls'',
         row_condition = condition_label ConditionSatisfactory,
         row_comment = ''hairline cracks''\<rparr>,
        \<lparr>row_number = ''2'', row_element = ''Roof'',
         row_condition = condition_label ConditionSound, row_comment = []\<rparr>],
     doc_conclusion = approved_conclusion, doc_sign_date = ''09.03.2026''\<rparr>"

text \<open>The same database with the two results stored in checklist order.\<close>

definition W_sorted :: world where
  "W_sorted = W_nodoc\<lparr>results := [R_roof, R_walls], result_seq := 3\<rparr>"

section \<open>Properties of the task state machine\<close>

lemma status_in_set: "status_in s xs = (s \<in> set xs)"
  by (induction xs) auto

lemma isTransitionAllowed_table:
  "isTransitionAllowed cur new = (new \<in> spec_allowed_targets cur)"
  by (cases cur)
    (auto simp: isTransitionAllowed_def allowedTransitions_def spec_allowed_targets_def
      status_in_set)

lemma W0_tasks: "tasks W0 1 = Some Task1" "tasks W0 2 = None"
  by (simp_all add: W0_def)

lemma E0_task_faults: "\<not> task_query_fault E0" "\<not> task_update_fault E0"
  by (simp_all add: E0_def)

lemma W0_submit_succeeds: "fst (UpdateTaskStatus E0 W0 1 StatusOnReview) = Inr ()"
  by (simp add: UpdateTaskStatus_def task_Query_Only_def W0_tasks E0_task_faults Task1_def
      isTransitionAllowed_table spec_allowed_targets_def task_UpdateOneID_SetStatus_def Let_def)

text \<open>
  C1. \<^verbatim>\<open>UpdateTaskStatus\<close> succeeds only if the task exists and the target status is
  in the allowed-target set of the task's current status, as the seven-state table gives
  it. When the task does not exist it fails with the task-not-found error, and for every
  pair of a current status and a target outside the table it fails with the
  invalid-transition error; in both cases the world, and with it the task's status, is
  left as it was. (A lookup that the database itself fails is answered with the opaque
  database error, also without a change.)
\<close>

theorem UpdateTaskStatus_transition_guard:
  "(fst (UpdateTaskStatus e w taskID newStatus) = Inr () \<longrightarrow>
      (\<exists>t. tasks w taskID = Some t \<and> newStatus \<in> spec_allowed_targets (task_status t)))
   \<and> (\<not> task_query_fault e \<and> tasks w taskID = None \<longrightarrow>
        UpdateTaskStatus e w taskID newStatus = (Inl ErrTaskNotFound, w))
   \<and> (\<not> task_query_fault e \<and> tasks w taskID = Some t
        \<and> newStatus \<notin> spec_allowed_targets (task_status t) \<longrightarrow>
        UpdateTaskStatus e w taskID newStatus = (Inl ErrInvalidStatusTransition, w))
   \<and> (task_query_fault e \<longrightarrow> UpdateTaskStatus e w taskID newStatus = (Inl ErrDatabase, w))"
  by (auto simp: UpdateTaskStatus_def task_Query_Only_def IsNotFound_def
      isTransitionAllowed_table Let_def split: option.splits sum.splits if_splits)

theorem UpdateTaskStatus_transition_guard_witness:
  "fst (UpdateTaskStatus E0 W0 1 StatusOnReview) = Inr ()
   \<and> StatusOnReview \<in> spec_allowed_targets (task_status Task1)
   \<and> UpdateTaskStatus E0 W0 2 StatusPending = (Inl ErrTaskNotFound, W0)
   \<and> UpdateTaskStatus E0 W0 1 StatusApproved = (Inl ErrInvalidStatusTransition, W0)
   \<and> UpdateTaskStatus (E0\<lparr>task_query_fault := True\<rparr>) W0 1 StatusOnReview = (Inl ErrDatabase, W0)"
  using UpdateTaskStatus_transition_guard [of E0 W0 1 StatusOnReview]
    UpdateTaskStatus_transition_guard [of E0 W0 2 StatusPending]
    UpdateTaskStatus_transition_guard [of E0 W0 1 StatusApproved Task1]
    UpdateTaskStatus_transition_guard [of "E0\<lparr>task_query_fault := True\<rparr>" W0 1 StatusOnReview]
    W0_submit_succeeds
  by (simp add: W0_tasks E0_task_faults Task1_def spec_allowed_targets_def)

lemma tasks_log_Printf [simp]: "tasks (log_Printf l w) = tasks w"
  by (simp add: log_Printf_def)

lemma act_UpdateOne_Save_tasks:
  "act_UpdateOne_Save fault w aid f = Inr (a, w') \<Longrightarrow> tasks w' = tasks w"
  by (auto simp: act_UpdateOne_Save_def split: if_splits option.splits)

lemma act_Create_Save_tasks:
  "act_Create_Save e w taskID st c = Inr (a, w') \<Longrightarrow> tasks w' = tasks w"
  by (auto simp: act_Create_Save_def Let_def split: if_splits)

lemma os_Remove_tasks: "os_Remove e w p = Some w' \<Longrightarrow> tasks w' = tasks w"
  by (auto simp: os_Remove_def split: if_splits)

lemma os_WriteFile_tasks: "os_WriteFile e w p d = Some w' \<Longrightarrow> tasks w' = tasks w"
  by (auto simp: os_WriteFile_def split: if_splits)

lemma CreateOrUpdateAct_tasks [simp]:
  "tasks (snd (CreateOrUpdateAct e w taskID c)) = tasks w"
  by (auto simp: CreateOrUpdateAct_def split: sum.splits prod.splits
      dest: act_UpdateOne_Save_tasks act_Create_Save_tasks)

lemma remove_draft_tasks [simp]: "tasks (remove_draft e w act) = tasks w"
  by (auto simp: remove_draft_def split: option.splits dest!: os_Remove_tasks)

lemma regenerate_approved_tasks [simp]:
  "tasks (regenerate_approved s e w act taskID) = tasks w"
  by (auto simp: regenerate_approved_def Let_def split: sum.splits prod.splits option.splits
      dest!: act_UpdateOne_Save_tasks os_WriteFile_tasks)

lemma ApproveAct_tasks [simp]:
  "tasks (snd (ApproveAct s e w taskID)) = tasks w"
  by (auto simp: ApproveAct_def Let_def split: sum.splits prod.splits
      dest!: act_UpdateOne_Save_tasks)

lemma CreateOrUpdateAct_tasks_eq:
  "CreateOrUpdateAct e w taskID c = (r, w') \<Longrightarrow> tasks w' = tasks w"
  using CreateOrUpdateAct_tasks [of e w taskID c] by simp

lemma ApproveAct_tasks_eq:
  "ApproveAct s e w taskID = (r, w') \<Longrightarrow> tasks w' = tasks w"
  using ApproveAct_tasks [of s e w taskID] by simp

lemma on_review_effect_tasks [simp]: "tasks (on_review_effect e w taskID) = tasks w"
  by (auto simp: on_review_effect_def NewInspectionActService_def split: prod.splits sum.splits
      dest!: CreateOrUpdateAct_tasks_eq)

lemma approved_effect_tasks [simp]: "tasks (approved_effect e w taskID) = tasks w"
  by (auto simp: approved_effect_def NewInspectionActService_def split: prod.splits sum.splits
      dest!: ApproveAct_tasks_eq)

lemma UpdateTaskStatus_allowed:
  assumes "\<not> task_query_fault e" and "\<not> task_update_fault e"
    and "tasks w taskID = Some t"
    and "newStatus \<in> spec_allowed_targets (task_status t)"
  shows "UpdateTaskStatus e w taskID newStatus =
    (Inr (),
     let w1 = w\<lparr>tasks := (tasks w)(taskID \<mapsto>
                t\<lparr>task_status := newStatus, task_updated_at := db_now e\<rparr>)\<rparr>
     in if newStatus = StatusOnReview then on_review_effect e w1 taskID
        else if newStatus = StatusApproved then approved_effect e w1 taskID
        else w1)"
  using assms
  by (simp add: UpdateTaskStatus_def task_Query_Only_def isTransitionAllowed_table
      task_UpdateOneID_SetStatus_def Let_def)

text \<open>
  C2. For every permitted transition of an existing task (the task lookup and the
  status update themselves answered by the database), \<^verbatim>\<open>UpdateTaskStatus\<close> returns
  success whatever the side effect does; the task table afterwards holds the new status
  for this task and is otherwise as before; and the final world is the world with the
  status already persisted, passed through exactly one side effect chosen by the target:
  \<^verbatim>\<open>CreateOrUpdateAct\<close> with the default conclusion for \<open>OnReview\<close>,
  \<^verbatim>\<open>ApproveAct\<close> for \<open>Approved\<close>, none for any other target. A failing side
  effect only adds a log line.
\<close>

theorem UpdateTaskStatus_side_effect:
  assumes "\<not> task_query_fault e" and "\<not> task_update_fault e"
    and "tasks w taskID = Some t"
    and "newStatus \<in> spec_allowed_targets (task_status t)"
  shows "fst (UpdateTaskStatus e w taskID newStatus) = Inr ()
    \<and> tasks (snd (UpdateTaskStatus e w taskID newStatus)) =
        (tasks w)(taskID \<mapsto> t\<lparr>task_status := newStatus, task_updated_at := db_now e\<rparr>)
    \<and> snd (UpdateTaskStatus e w taskID newStatus) =
        (let w1 = w\<lparr>tasks := (tasks w)(taskID \<mapsto>
                   t\<lparr>task_status := newStatus, task_updated_at := db_now e\<rparr>)\<rparr>;
             w2 = snd (NewInspectionActService e w1 ''storage/acts'')
         in if newStatus = StatusOnReview then
              (case CreateOrUpdateAct e w2 taskID submit_conclusion of
                 (Inl err, w3) \<Rightarrow> log_Printf (LogCreateActFailed taskID) w3
               | (Inr act, w3) \<Rightarrow> log_Printf (LogActCreated taskID) w3)
            else if newStatus = StatusApproved then
              (case ApproveAct \<lparr>StoragePath = ''storage/acts''\<rparr> e w2 taskID of
                 (Inl err, w3) \<Rightarrow> log_Printf (LogApproveActFailed taskID) w3
               | (Inr u, w3) \<Rightarrow> log_Printf (LogActApproved taskID) w3)
            else w1)"
proof -
  note eq = UpdateTaskStatus_allowed [OF assms]
  have "fst (UpdateTaskStatus e w taskID newStatus) = Inr ()"
    by (simp add: eq)
  moreover have "tasks (snd (UpdateTaskStatus e w taskID newStatus)) =
        (tasks w)(taskID \<mapsto> t\<lparr>task_status := newStatus, task_updated_at := db_now e\<rparr>)"
    by (simp add: eq Let_def)
  moreover have "snd (UpdateTaskStatus e w taskID newStatus) =
        (let w1 = w\<lparr>tasks := (tasks w)(taskID \<mapsto>
                   t\<lparr>task_status := newStatus, task_updated_at := db_now e\<rparr>)\<rparr>;
             w2 = snd (NewInspectionActService e w1 ''storage/acts'')
         in if newStatus = StatusOnReview then
              (case CreateOrUpdateAct e w2 taskID submit_conclusion of
                 (Inl err, w3) \<Rightarrow> log_Printf (LogCreateActFailed taskID) w3
               | (Inr act, w3) \<Rightarrow> log_Printf (LogActCreated taskID) w3)
            else if newStatus = StatusApproved then
              (case ApproveAct \<lparr>StoragePath = ''storage/acts''\<rparr> e w2 taskID of
                 (Inl err, w3) \<Rightarrow> log_Printf (LogApproveActFailed taskID) w3
               | (Inr u, w3) \<Rightarrow> log_Printf (LogActApproved taskID) w3)
            else w1)"
    by (simp add: eq Let_def on_review_effect_def approved_effect_def
        NewInspectionActService_def)
  ultimately show ?thesis by blast
qed

lemma E1_faults:
  "\<not> task_query_fault E1" "\<not> task_update_fault E1" "act_query_fault E1" "\<not> mkdir_fault E1"
  by (simp_all add: E1_def E0_def)

lemma E1_draft_fails:
  "fst (CreateOrUpdateAct E1 w 1 submit_conclusion) = Inl ErrDatabase"
  by (simp add: CreateOrUpdateAct_def act_Query_Only_def E1_faults IsNotFound_def)

theorem UpdateTaskStatus_side_effect_witness:
  "\<not> task_query_fault E1 \<and> \<not> task_update_fault E1 \<and> tasks W0 1 = Some Task1
   \<and> StatusOnReview \<in> spec_allowed_targets (task_status Task1)
   \<and> fst (CreateOrUpdateAct E1
        (W0\<lparr>tasks := (tasks W0)(1 \<mapsto>
            Task1\<lparr>task_status := StatusOnReview, task_updated_at := db_now E1\<rparr>)\<rparr>)
        1 submit_conclusion) = Inl ErrDatabase
   \<and> fst (UpdateTaskStatus E1 W0 1 StatusOnReview) = Inr ()
   \<and> tasks (snd (UpdateTaskStatus E1 W0 1 StatusOnReview)) 1 =
        Some (Task1\<lparr>task_status := StatusOnReview, task_updated_at := db_now E1\<rparr>)"
proof -
  have allowed: "StatusOnReview \<in> spec_allowed_targets (task_status Task1)"
    by (simp add: Task1_def spec_allowed_targets_def)
  note th = UpdateTaskStatus_side_effect [OF E1_faults(1) E1_faults(2) W0_tasks(1) allowed]
  have ok: "fst (UpdateTaskStatus E1 W0 1 StatusOnReview) = Inr ()"
    using th by blast
  have "tasks (snd (UpdateTaskStatus E1 W0 1 StatusOnReview)) =
      (tasks W0)(1 \<mapsto> Task1\<lparr>task_status := StatusOnReview, task_updated_at := db_now E1\<rparr>)"
    using th by blast
  then have kept: "tasks (snd (UpdateTaskStatus E1 W0 1 StatusOnReview)) 1 =
      Some (Task1\<lparr>task_status := StatusOnReview, task_updated_at := db_now E1\<rparr>)"
    by simp
  show ?thesis
    using E1_faults(1) E1_faults(2) W0_tasks(1) allowed E1_draft_fails ok kept by blast
qed

section \<open>Properties of the inspection result store\<close>

lemma validate_characterisation:
  "validateTaskAndElement e w taskID elementID =
     (if task_query_fault e then Inl ErrDatabase
      else case tasks w taskID of
        None \<Rightarrow> Inl ErrTaskNotFound
      | Some t \<Rightarrow>
          if task_status t \<noteq> StatusInProgress then Inl ErrTaskNotInProgress
          else if element_query_fault e \<or> \<not> element_in_checklist w elementID (task_checklist_id t)
          then Inl ErrChecklistElementInvalid else Inr ())"
  by (simp add: validateTaskAndElement_def task_Query_Only_def IsNotFound_def
      checklist_element_Exist_def element_in_checklist_def split: option.splits)

text \<open>
  C3. The guards of \<^verbatim>\<open>CreateOrUpdateResult\<close> form a ladder. With the task lookup
  answered: an absent task gives the task-not-found error; a task in any status other
  than \<open>InProgress\<close> gives the task-not-in-progress error, whether or not the element
  belongs to the task's checklist; a task in progress with an element outside its
  checklist gives the element-invalid error. Whenever the validation fails, with
  whatever error, the call returns that error and the world, and with it the result
  table, is exactly as before.
\<close>

theorem CreateOrUpdateResult_guards:
  "(\<not> task_query_fault e \<and> tasks w taskID = None \<longrightarrow>
      CreateOrUpdateResult e w taskID req = (Inl ErrTaskNotFound, w))
   \<and> (\<not> task_query_fault e \<and> tasks w taskID = Some t \<and> task_status t \<noteq> StatusInProgress \<longrightarrow>
      CreateOrUpdateResult e w taskID req = (Inl ErrTaskNotInProgress, w))
   \<and> (\<not> task_query_fault e \<and> tasks w taskID = Some t \<and> task_status t = StatusInProgress
       \<and> \<not> element_in_checklist w (ChecklistElementID req) (task_checklist_id t) \<longrightarrow>
      CreateOrUpdateResult e w taskID req = (Inl ErrChecklistElementInvalid, w))
   \<and> (validateTaskAndElement e w taskID (ChecklistElementID req) = Inl err \<longrightarrow>
      CreateOrUpdateResult e w taskID req = (Inl err, w))"
  by (simp add: CreateOrUpdateResult_def validate_characterisation)

theorem CreateOrUpdateResult_guards_witness:
  "CreateOrUpdateResult E0 W0 2 Req1 = (Inl ErrTaskNotFound, W0)
   \<and> element_in_checklist W_review 10 1
   \<and> CreateOrUpdateResult E0 W_review 1 Req1 = (Inl ErrTaskNotInProgress, W_review)
   \<and> \<not> element_in_checklist W_review 20 1
   \<and> CreateOrUpdateResult E0 W_review 1 Req3 = (Inl ErrTaskNotInProgress, W_review)
   \<and> CreateOrUpdateResult E0 W0 1 Req3 = (Inl ErrChecklistElementInvalid, W0)"
  using CreateOrUpdateResult_guards [of E0 W0 2 Req1]
    CreateOrUpdateResult_guards [of E0 W_review 1 Req1 "Task1\<lparr>task_status := StatusOnReview\<rparr>"]
    CreateOrUpdateResult_guards [of E0 W_review 1 Req3 "Task1\<lparr>task_status := StatusOnReview\<rparr>"]
    CreateOrUpdateResult_guards [of E0 W0 1 Req3 Task1]
  by (simp add: E0_task_faults W0_tasks W_review_def element_in_checklist_def W0_def Task1_def
      Req3_def)

lemma filter_map_same:
  "(\<And>x. P (f x) = P x) \<Longrightarrow> filter P (map f xs) = map f (filter P xs)"
  by (induction xs) auto

lemma upsert_once:
  assumes "upsert_ready e" and "tasks w taskID = Some t" and "task_status t = StatusInProgress"
    and "element_in_checklist w (ChecklistElementID req) (task_checklist_id t)"
    and "length (pair_results w taskID (ChecklistElementID req)) \<le> 1"
  shows "\<exists>r. pair_results (snd (CreateOrUpdateResult e w taskID req)) taskID (ChecklistElementID req) = [r]
          \<and> upsert_values req r
          \<and> fst (CreateOrUpdateResult e w taskID req) = Inr (toInspectionResultResponse (load_result_edges w r))"
    and "tasks (snd (CreateOrUpdateResult e w taskID req)) = tasks w"
    and "checklist_elements (snd (CreateOrUpdateResult e w taskID req)) = checklist_elements w"
proof -
  let ?el = "ChecklistElementID req"
  let ?upd = "\<lambda>r. r\<lparr>res_condition_status := ConditionStatus req,
                      res_comment := (case Comment req of Some s \<Rightarrow> s | None \<Rightarrow> []),
                      res_updated_at := db_now e\<rparr>"
  have v: "validateTaskAndElement e w taskID ?el = Inr ()"
    using assms by (simp add: validate_characterisation upsert_ready_def)
  consider (none) "pair_results w taskID ?el = []"
    | (one) r0 where "pair_results w taskID ?el = [r0]"
    using assms(5) by (cases "pair_results w taskID ?el") (auto simp: Suc_le_eq)
  then have "(\<exists>r. pair_results (snd (CreateOrUpdateResult e w taskID req)) taskID ?el = [r]
          \<and> upsert_values req r
          \<and> fst (CreateOrUpdateResult e w taskID req) = Inr (toInspectionResultResponse (load_result_edges w r)))
       \<and> tasks (snd (CreateOrUpdateResult e w taskID req)) = tasks w
       \<and> checklist_elements (snd (CreateOrUpdateResult e w taskID req)) = checklist_elements w"
  proof cases
    case none
    then show ?thesis
      using assms(1) v
      by (simp add: CreateOrUpdateResult_def pair_results_def result_Query_Only_def Only_def
          IsNotFound_def result_Create_Save_def result_Query_WithElement_Only_def upsert_ready_def
          result_matches_def upsert_values_def load_result_edges_def Let_def)
  next
    case one
    have mem: "r0 \<in> set (results w)" and m0: "result_matches taskID ?el r0"
      using one filter_eq_ConsD [of "result_matches taskID ?el" "results w" r0 "[]"]
      by (auto simp: pair_results_def)
    have keep: "\<And>r. result_matches taskID ?el (if res_id r = res_id r0 then ?upd r else r)
        = result_matches taskID ?el r"
      by (simp add: result_matches_def)
    have f: "filter (result_matches taskID ?el)
        (map (\<lambda>r. if res_id r = res_id r0 then ?upd r else r) (results w)) = [?upd r0]"
      using filter_map_same [of "result_matches taskID ?el"
          "\<lambda>r. if res_id r = res_id r0 then ?upd r else r" "results w", OF keep] one
      by (simp add: pair_results_def)
    show ?thesis
      using assms(1) v one mem f
      by (auto simp: CreateOrUpdateResult_def pair_results_def result_Query_Only_def Only_def
          result_UpdateOne_Save_def result_Query_WithElement_Only_def upsert_ready_def
          upsert_values_def load_result_edges_def Let_def)
  qed
  then show "\<exists>r. pair_results (snd (CreateOrUpdateResult e w taskID req)) taskID (ChecklistElementID req) = [r]
          \<and> upsert_values req r
          \<and> fst (CreateOrUpdateResult e w taskID req) = Inr (toInspectionResultResponse (load_result_edges w r))"
    and "tasks (snd (CreateOrUpdateResult e w taskID req)) = tasks w"
    and "checklist_elements (snd (CreateOrUpdateResult e w taskID req)) = checklist_elements w"
    by blast+
qed


text \<open>
  C4. Upsert idempotence. For a task in progress and an element of its checklist, with the
  database answering both calls and at most one row stored for the pair beforehand (the
  identity rule of the data model, which every upsert and delete keeps), two calls of
  \<^verbatim>\<open>CreateOrUpdateResult\<close> for the same pair both succeed and leave exactly one row for
  the pair; the row and the second response carry the second call's condition and
  comment, the comment being empty when the second call gives none.
\<close>

theorem CreateOrUpdateResult_twice:
  assumes "upsert_ready e1" and "upsert_ready e2"
    and "tasks w taskID = Some t" and "task_status t = StatusInProgress"
    and "element_in_checklist w elementID (task_checklist_id t)"
    and "ChecklistElementID req1 = elementID" and "ChecklistElementID req2 = elementID"
    and "length (pair_results w taskID elementID) \<le> 1"
  shows "\<exists>r. pair_results
            (snd (CreateOrUpdateResult e2 (snd (CreateOrUpdateResult e1 w taskID req1)) taskID req2))
            taskID elementID = [r]
          \<and> res_condition_status r = ConditionStatus req2
          \<and> res_comment r = (case Comment req2 of None \<Rightarrow> [] | Some c \<Rightarrow> c)
          \<and> (\<exists>resp. fst (CreateOrUpdateResult e1 w taskID req1) = Inr resp)
          \<and> (\<exists>resp. fst (CreateOrUpdateResult e2 (snd (CreateOrUpdateResult e1 w taskID req1)) taskID req2)
                = Inr resp
              \<and> resp_ConditionStatus resp = condition_label (ConditionStatus req2)
              \<and> resp_Comment resp = (case Comment req2 of None \<Rightarrow> [] | Some c \<Rightarrow> c))"
proof -
  let ?w1 = "snd (CreateOrUpdateResult e1 w taskID req1)"
  have in1: "element_in_checklist w (ChecklistElementID req1) (task_checklist_id t)"
    and len1: "length (pair_results w taskID (ChecklistElementID req1)) \<le> 1"
    using assms by simp_all
  note first = upsert_once [OF assms(1) assms(3) assms(4) in1 len1]
  from first(1) obtain r1 where r1: "pair_results ?w1 taskID elementID = [r1]"
    and ok1: "fst (CreateOrUpdateResult e1 w taskID req1) = Inr (toInspectionResultResponse (load_result_edges w r1))"
    using assms(6) by auto
  have t1: "tasks ?w1 taskID = Some t"
    using first(2) assms(3) by simp
  have in2: "element_in_checklist ?w1 (ChecklistElementID req2) (task_checklist_id t)"
    using first(3) assms(5) assms(7) by (simp add: element_in_checklist_def)
  have len2: "length (pair_results ?w1 taskID (ChecklistElementID req2)) \<le> 1"
    using r1 assms(7) by simp
  from upsert_once(1) [OF assms(2) t1 assms(4) in2 len2]
  obtain r where r: "pair_results (snd (CreateOrUpdateResult e2 ?w1 taskID req2)) taskID elementID = [r]"
    and vals: "upsert_values req2 r"
    and ok2: "fst (CreateOrUpdateResult e2 ?w1 taskID req2) = Inr (toInspectionResultResponse (load_result_edges ?w1 r))"
    using assms(7) by auto
  have resp: "resp_ConditionStatus (toInspectionResultResponse (load_result_edges ?w1 r)) = condition_label (ConditionStatus req2)"
    "resp_Comment (toInspectionResultResponse (load_result_edges ?w1 r)) = (case Comment req2 of None \<Rightarrow> [] | Some c \<Rightarrow> c)"
    using vals by (simp_all add: toInspectionResultResponse_def load_result_edges_def upsert_values_def Let_def)
  show ?thesis
    using r vals ok1 ok2 resp by (auto simp: upsert_values_def)
qed

lemma W0_upsert_facts:
  "upsert_ready E0" "task_status Task1 = StatusInProgress"
  "element_in_checklist W0 10 (task_checklist_id Task1)"
  "ChecklistElementID Req1 = 10" "ChecklistElementID Req2 = 10"
  "length (pair_results W0 1 10) \<le> 1"
  by (simp_all add: upsert_ready_def E0_def Task1_def element_in_checklist_def W0_def Req1_def
      Req2_def pair_results_def)

theorem CreateOrUpdateResult_twice_witness:
  "upsert_ready E0 \<and> tasks W0 1 = Some Task1 \<and> task_status Task1 = StatusInProgress
   \<and> element_in_checklist W0 10 (task_checklist_id Task1)
   \<and> length (pair_results W0 1 10) \<le> 1
   \<and> (\<exists>r. pair_results (snd (CreateOrUpdateResult E0 (snd (CreateOrUpdateResult E0 W0 1 Req1)) 1 Req2)) 1 10 = [r]
         \<and> res_condition_status r = ConditionEmergency \<and> res_comment r = [])"
  using CreateOrUpdateResult_twice [of E0 E0 W0 1 Task1 10 Req1 Req2] W0_upsert_facts W0_tasks
  by (auto simp: Req2_def)

lemma results_unique_pair:
  "results_unique w \<Longrightarrow> length (pair_results w taskID elementID) \<le> 1"
proof (cases "pair_results w taskID elementID")
  case Nil
  then show ?thesis by simp
next
  case (Cons r rs)
  assume u: "results_unique w"
  have "r \<in> set (pair_results w taskID elementID)" using Cons by simp
  then have "r \<in> set (results w)" and "res_task_id r = taskID" and "res_checklist_element_id r = elementID"
    by (auto simp: pair_results_def result_matches_def)
  then show ?thesis using u by (auto simp: results_unique_def)
qed

section \<open>Properties of the inspection act generator\<close>

lemma filter_eq_Nil_bex: "filter P xs = [] \<Longrightarrow> \<not> (\<exists>x \<in> set xs. P x)"
  by (simp add: filter_empty_conv)

lemma find_distinct_id:
  assumes "distinct (map f xs)" and "x \<in> set xs"
  shows "find (\<lambda>y. f y = f x) xs = Some x"
  using assms
proof (induction xs)
  case Nil
  then show ?case by simp
next
  case (Cons y ys)
  then show ?case by (auto simp: image_iff)
qed

lemma map_distinct_id:
  assumes "distinct (map f xs)" and "x \<in> set xs"
  shows "map (\<lambda>y. if f y = f x then g y else y) xs = map (\<lambda>y. if y = x then g y else y) xs"
proof (rule map_cong [OF refl])
  fix y assume "y \<in> set xs"
  then have "f y = f x \<longleftrightarrow> y = x"
    using assms by (meson distinct_map inj_on_eq_iff)
  then show "(if f y = f x then g y else y) = (if y = x then g y else y)" by simp
qed

lemma single_filter_mem:
  assumes "filter P xs = [x]"
  shows "x \<in> set xs \<and> P x"
proof -
  have "x \<in> set (filter P xs)" using assms by simp
  then show ?thesis by simp
qed

lemma CreateOrUpdateAct_create:
  assumes "\<not> act_query_fault e" and "\<not> act_create_fault e" and "task_acts w taskID = []"
  shows "CreateOrUpdateAct e w taskID c =
      (Inr (draft_act e w taskID c),
       w\<lparr>acts := acts w @ [draft_act e w taskID c], act_seq := act_seq w + 1\<rparr>)"
  using assms filter_eq_Nil_bex [of "\<lambda>a. act_task_id a = taskID" "acts w"]
  by (simp add: CreateOrUpdateAct_def act_Query_Only_def task_acts_def Only_def IsNotFound_def
      act_Create_Save_def draft_act_def Let_def)

lemma CreateOrUpdateAct_update:
  assumes "\<not> act_query_fault e" and "\<not> act_update_fault e" and "task_acts w taskID = [a0]"
    and "distinct (map act_id (acts w))"
  shows "CreateOrUpdateAct e w taskID c =
      (Inr (a0\<lparr>act_conclusion := c\<rparr>),
       w\<lparr>acts := map (\<lambda>a. if a = a0 then a\<lparr>act_conclusion := c\<rparr> else a) (acts w)\<rparr>)"
proof -
  have mem: "a0 \<in> set (acts w)"
    using assms(3) single_filter_mem [of "\<lambda>a. act_task_id a = taskID" "acts w" a0]
    by (simp add: task_acts_def)
  show ?thesis
    using assms(1-3) find_distinct_id [OF assms(4) mem]
      map_distinct_id [OF assms(4) mem, of "\<lambda>a. a\<lparr>act_conclusion := c\<rparr>"]
    by (simp add: CreateOrUpdateAct_def act_Query_Only_def task_acts_def Only_def
        act_UpdateOne_Save_def)
qed

lemma CreateOrUpdateAct_acts_frame:
  assumes "acts w1 = acts w2" and "act_seq w1 = act_seq w2"
  shows "acts (snd (CreateOrUpdateAct e w1 taskID c)) = acts (snd (CreateOrUpdateAct e w2 taskID c))"
  using assms
  by (auto simp: CreateOrUpdateAct_def act_Query_Only_def act_UpdateOne_Save_def
      act_Create_Save_def Let_def log_Printf_def split: sum.splits option.splits)


lemma acts_on_review_effect:
  "acts (on_review_effect e w taskID) = acts (snd (CreateOrUpdateAct e w taskID submit_conclusion))"
proof -
  let ?w1 = "snd (NewInspectionActService e w ''storage/acts'')"
  have same: "acts ?w1 = acts w" "act_seq ?w1 = act_seq w"
    by (simp_all add: NewInspectionActService_def log_Printf_def)
  have "acts (on_review_effect e w taskID) =
      acts (snd (CreateOrUpdateAct e ?w1 taskID submit_conclusion))"
    by (simp add: on_review_effect_def log_Printf_def split: prod.splits sum.splits)
  then show ?thesis
    using CreateOrUpdateAct_acts_frame [OF same] by simp
qed

lemma task_acts_update:
  assumes "task_acts w taskID = [a0]"
  shows "task_acts (w\<lparr>acts := map (\<lambda>a. if a = a0 then a\<lparr>act_conclusion := c\<rparr> else a) (acts w)\<rparr>)
      taskID = [a0\<lparr>act_conclusion := c\<rparr>]"
proof -
  have "filter (\<lambda>a. act_task_id a = taskID)
      (map (\<lambda>a. if a = a0 then a\<lparr>act_conclusion := c\<rparr> else a) (acts w))
    = map (\<lambda>a. if a = a0 then a\<lparr>act_conclusion := c\<rparr> else a)
        (filter (\<lambda>a. act_task_id a = taskID) (acts w))"
    by (rule filter_map_same) simp
  then show ?thesis
    using assms by (simp add: task_acts_def)
qed

text \<open>
  C5. With the database answering: when the task has no act, \<^verbatim>\<open>CreateOrUpdateAct\<close>
  appends exactly one row, with the drafted status, the given conclusion and no document
  pointer, and that row is then the task's only act. When the task has its act (primary
  keys being distinct), it replaces that row by the same row with the new conclusion: the
  number of rows is unchanged, every other row and every other field of this row - the
  document pointer among them - is as before, and nothing else in the world changes. A
  permitted transition into \<open>OnReview\<close> leaves the act table exactly as this call with
  the default conclusion does.
\<close>

theorem CreateOrUpdateAct_single_row:
  "(\<not> act_query_fault e \<and> \<not> act_create_fault e \<and> task_acts w taskID = [] \<longrightarrow>
      CreateOrUpdateAct e w taskID c =
        (Inr (draft_act e w taskID c),
         w\<lparr>acts := acts w @ [draft_act e w taskID c], act_seq := act_seq w + 1\<rparr>)
      \<and> task_acts (snd (CreateOrUpdateAct e w taskID c)) taskID = [draft_act e w taskID c]
      \<and> act_status (draft_act e w taskID c) = status_created
      \<and> act_conclusion (draft_act e w taskID c) = c)
   \<and> (\<not> act_query_fault e \<and> \<not> act_update_fault e \<and> task_acts w taskID = [a0]
       \<and> distinct (map act_id (acts w)) \<longrightarrow>
      CreateOrUpdateAct e w taskID c =
        (Inr (a0\<lparr>act_conclusion := c\<rparr>),
         w\<lparr>acts := map (\<lambda>a. if a = a0 then a\<lparr>act_conclusion := c\<rparr> else a) (acts w)\<rparr>)
      \<and> task_acts (snd (CreateOrUpdateAct e w taskID c)) taskID = [a0\<lparr>act_conclusion := c\<rparr>]
      \<and> length (acts (snd (CreateOrUpdateAct e w taskID c))) = length (acts w)
      \<and> act_document_path (a0\<lparr>act_conclusion := c\<rparr>) = act_document_path a0)
   \<and> (\<not> task_query_fault e \<and> \<not> task_update_fault e \<and> tasks w taskID = Some t
       \<and> StatusOnReview \<in> spec_allowed_targets (task_status t) \<longrightarrow>
      acts (snd (UpdateTaskStatus e w taskID StatusOnReview)) =
        acts (snd (CreateOrUpdateAct e w taskID submit_conclusion)))"
proof (intro conjI impI)
  assume h: "\<not> act_query_fault e \<and> \<not> act_create_fault e \<and> task_acts w taskID = []"
  then have eq: "CreateOrUpdateAct e w taskID c =
        (Inr (draft_act e w taskID c),
         w\<lparr>acts := acts w @ [draft_act e w taskID c], act_seq := act_seq w + 1\<rparr>)"
    using CreateOrUpdateAct_create by blast
  show "CreateOrUpdateAct e w taskID c =
        (Inr (draft_act e w taskID c),
         w\<lparr>acts := acts w @ [draft_act e w taskID c], act_seq := act_seq w + 1\<rparr>)"
    by (rule eq)
  show "task_acts (snd (CreateOrUpdateAct e w taskID c)) taskID = [draft_act e w taskID c]"
    using h by (simp add: eq task_acts_def draft_act_def)
  show "act_status (draft_act e w taskID c) = status_created"
    by (simp add: draft_act_def)
  show "act_conclusion (draft_act e w taskID c) = c"
    by (simp add: draft_act_def)
next
  assume h: "\<not> act_query_fault e \<and> \<not> act_update_fault e \<and> task_acts w taskID = [a0]
       \<and> distinct (map act_id (acts w))"
  then have eq: "CreateOrUpdateAct e w taskID c =
        (Inr (a0\<lparr>act_conclusion := c\<rparr>),
         w\<lparr>acts := map (\<lambda>a. if a = a0 then a\<lparr>act_conclusion := c\<rparr> else a) (acts w)\<rparr>)"
    using CreateOrUpdateAct_update by blast
  show "CreateOrUpdateAct e w taskID c =
        (Inr (a0\<lparr>act_conclusion := c\<rparr>),
         w\<lparr>acts := map (\<lambda>a. if a = a0 then a\<lparr>act_conclusion := c\<rparr> else a) (acts w)\<rparr>)"
    by (rule eq)
  show "task_acts (snd (CreateOrUpdateAct e w taskID c)) taskID = [a0\<lparr>act_conclusion := c\<rparr>]"
    using h task_acts_update [of w taskID a0 c] by (simp add: eq)
  show "length (acts (snd (CreateOrUpdateAct e w taskID c))) = length (acts w)"
    by (simp add: eq)
  show "act_document_path (a0\<lparr>act_conclusion := c\<rparr>) = act_document_path a0"
    by simp
next
  assume h: "\<not> task_query_fault e \<and> \<not> task_update_fault e \<and> tasks w taskID = Some t
       \<and> StatusOnReview \<in> spec_allowed_targets (task_status t)"
  let ?w1 = "w\<lparr>tasks := (tasks w)(taskID \<mapsto>
      t\<lparr>task_status := StatusOnReview, task_updated_at := db_now e\<rparr>)\<rparr>"
  have "snd (UpdateTaskStatus e w taskID StatusOnReview) = on_review_effect e ?w1 taskID"
    using h UpdateTaskStatus_allowed [of e w taskID t StatusOnReview] by (simp add: Let_def)
  then have "acts (snd (UpdateTaskStatus e w taskID StatusOnReview)) =
      acts (snd (CreateOrUpdateAct e ?w1 taskID submit_conclusion))"
    by (simp add: acts_on_review_effect)
  also have "\<dots> = acts (snd (CreateOrUpdateAct e w taskID submit_conclusion))"
    by (rule CreateOrUpdateAct_acts_frame) simp_all
  finally show "acts (snd (UpdateTaskStatus e w taskID StatusOnReview)) =
      acts (snd (CreateOrUpdateAct e w taskID submit_conclusion))" .
qed

lemma E0_act_faults:
  "\<not> act_query_fault E0" "\<not> act_create_fault E0" "\<not> act_update_fault E0"
  "\<not> act_path_update_fault E0"
  by (simp_all add: E0_def)

lemma W_doc_acts: "task_acts W_doc 1 = [A1]" "acts W_doc = [A1]" "distinct (map act_id (acts W_doc))"
  by (simp_all add: W_doc_def W_review_def task_acts_def A1_def)

lemma W0_acts: "task_acts W0 1 = []" "acts W0 = []" "act_seq W0 = 1"
  by (simp_all add: W0_def task_acts_def)

theorem CreateOrUpdateAct_single_row_witness:
  "task_acts W0 1 = []
   \<and> task_acts (snd (CreateOrUpdateAct E0 W0 1 submit_conclusion)) 1 =
       [\<lparr>act_id = 1, act_task_id = 1, act_created_at = T0, act_approved_at = zero_time,
         act_status = status_created, act_conclusion = submit_conclusion,
         act_document_path = []\<rparr>]
   \<and> task_acts W_doc 1 = [A1] \<and> distinct (map act_id (acts W_doc))
   \<and> CreateOrUpdateAct E0 W_doc 1 submit_conclusion =
       (Inr (A1\<lparr>act_conclusion := submit_conclusion\<rparr>),
        W_doc\<lparr>acts := [A1\<lparr>act_conclusion := submit_conclusion\<rparr>]\<rparr>)
   \<and> act_document_path (A1\<lparr>act_conclusion := submit_conclusion\<rparr>) =
       ''storage/acts/act_1_20260308_101500.pdf''
   \<and> tasks W0 1 = Some Task1
   \<and> acts (snd (UpdateTaskStatus E0 W0 1 StatusOnReview)) =
       acts (snd (CreateOrUpdateAct E0 W0 1 submit_conclusion))"
proof -
  have allowed: "StatusOnReview \<in> spec_allowed_targets (task_status Task1)"
    by (simp add: Task1_def spec_allowed_targets_def)
  have "task_acts (snd (CreateOrUpdateAct E0 W0 1 submit_conclusion)) 1 =
      [draft_act E0 W0 1 submit_conclusion]"
    using CreateOrUpdateAct_single_row [of E0 W0 1 submit_conclusion] E0_act_faults W0_acts
    by blast
  then have first: "task_acts (snd (CreateOrUpdateAct E0 W0 1 submit_conclusion)) 1 =
       [\<lparr>act_id = 1, act_task_id = 1, act_created_at = T0, act_approved_at = zero_time,
         act_status = status_created, act_conclusion = submit_conclusion,
         act_document_path = []\<rparr>]"
    by (simp add: draft_act_def W0_acts E0_def)
  have "CreateOrUpdateAct E0 W_doc 1 submit_conclusion =
       (Inr (A1\<lparr>act_conclusion := submit_conclusion\<rparr>),
        W_doc\<lparr>acts := map (\<lambda>a. if a = A1 then a\<lparr>act_conclusion := submit_conclusion\<rparr> else a)
          (acts W_doc)\<rparr>)"
    using CreateOrUpdateAct_single_row [of E0 W_doc 1 submit_conclusion A1] E0_act_faults
      W_doc_acts by blast
  then have later: "CreateOrUpdateAct E0 W_doc 1 submit_conclusion =
       (Inr (A1\<lparr>act_conclusion := submit_conclusion\<rparr>),
        W_doc\<lparr>acts := [A1\<lparr>act_conclusion := submit_conclusion\<rparr>]\<rparr>)"
    by (simp add: W_doc_acts)
  have path: "act_document_path (A1\<lparr>act_conclusion := submit_conclusion\<rparr>) =
       ''storage/acts/act_1_20260308_101500.pdf''"
    by (simp add: A1_def)
  have link: "acts (snd (UpdateTaskStatus E0 W0 1 StatusOnReview)) =
       acts (snd (CreateOrUpdateAct E0 W0 1 submit_conclusion))"
    using CreateOrUpdateAct_single_row [of E0 W0 1 submit_conclusion _ Task1] E0_task_faults
      W0_tasks(1) allowed by blast
  show ?thesis
    using W0_acts(1) first W_doc_acts(1) W_doc_acts(3) later path W0_tasks(1) link by blast
qed

lemma task_filter_map_upd:
  assumes "\<And>a. act_task_id (f a) = act_task_id a"
  shows "filter (\<lambda>a. act_task_id a = tid) (map (\<lambda>a. if act_id a = i then f a else a) xs)
    = map (\<lambda>a. if act_id a = i then f a else a) (filter (\<lambda>a. act_task_id a = tid) xs)"
  by (rule filter_map_same) (simp add: assms)

lemma find_mem_Some: "x \<in> set xs \<Longrightarrow> P x \<Longrightarrow> \<exists>y. find P xs = Some y"
  by (cases "find P xs") (auto simp: find_None_iff)

lemma act_query_single:
  "\<not> act_query_fault e \<Longrightarrow> task_acts w taskID = [a0] \<Longrightarrow>
     act_Query_WithTask_Only e w taskID = Inr (load_act_edges w a0)"
  by (simp add: act_Query_WithTask_Only_def act_Query_Only_def task_acts_def Only_def)

lemma act_query_none:
  "\<not> act_query_fault e \<Longrightarrow> task_acts w taskID = [] \<Longrightarrow>
     act_Query_WithTask_Only e w taskID = Inl NotFoundError"
  by (simp add: act_Query_WithTask_Only_def act_Query_Only_def task_acts_def Only_def)

lemma act_UpdateOne_Save_ok:
  assumes "a0 \<in> set (acts w)"
  shows "\<exists>a. act_UpdateOne_Save False w (act_id a0) f =
     Inr (a, w\<lparr>acts := map (\<lambda>a. if act_id a = act_id a0 then f a else a) (acts w)\<rparr>)"
  using find_mem_Some [of a0 "acts w" "\<lambda>a. act_id a = act_id a0"] assms
  by (auto simp: act_UpdateOne_Save_def)

lemma ag_act_load [simp]: "ag_act (load_act_edges w a) = a"
  by (simp add: load_act_edges_def Let_def)


lemma erase_path_upd [simp]:
  "erase_path (if c then a\<lparr>act_document_path := p\<rparr> else a) = erase_path a"
  by (simp add: erase_path_def)

lemma act_UpdateOne_Save_path_acts:
  "act_UpdateOne_Save fault w aid (\<lambda>a. a\<lparr>act_document_path := p\<rparr>) = Inr (a', w') \<Longrightarrow>
     map erase_path (acts w') = map erase_path (acts w)"
  by (auto simp: act_UpdateOne_Save_def split: if_splits option.splits)

lemma os_Remove_acts: "os_Remove e w p = Some w' \<Longrightarrow> acts w' = acts w"
  by (auto simp: os_Remove_def split: if_splits)

lemma os_WriteFile_acts: "os_WriteFile e w p d = Some w' \<Longrightarrow> acts w' = acts w"
  by (auto simp: os_WriteFile_def split: if_splits)

lemma acts_log_Printf [simp]: "acts (log_Printf l w) = acts w"
  by (simp add: log_Printf_def)

lemma remove_draft_acts [simp]: "acts (remove_draft e w act) = acts w"
  by (auto simp: remove_draft_def split: option.splits dest!: os_Remove_acts)

lemma regenerate_approved_acts:
  "map erase_path (acts (regenerate_approved s e w act taskID)) = map erase_path (acts w)"
  by (auto simp: regenerate_approved_def Let_def split: sum.splits prod.splits option.splits
      dest!: act_UpdateOne_Save_path_acts os_WriteFile_acts)


lemma ApproveAct_not_found:
  "\<not> act_query_fault e \<Longrightarrow> task_acts w taskID = [] \<Longrightarrow>
     ApproveAct s e w taskID = (Inl ErrActNotFound, w)"
  by (simp add: ApproveAct_def act_query_none IsNotFound_def)

lemma ApproveAct_commit_eq:
  assumes "\<not> act_query_fault e" and "\<not> act_update_fault e" and "task_acts w taskID = [a0]"
  shows "ApproveAct s e w taskID =
     (Inr (), regenerate_approved s e
        (remove_draft e (approved_world e w a0) (approved_graph e w a0))
        (approved_graph e w a0) taskID)"
proof -
  have mem: "a0 \<in> set (acts w)"
    using assms(3) single_filter_mem [of "\<lambda>a. act_task_id a = taskID" "acts w" a0]
    by (simp add: task_acts_def)
  obtain a1 where upd: "act_UpdateOne_Save False w (act_id a0) (approve_fields (now_approve e)) =
     Inr (a1, approved_world e w a0)"
    using act_UpdateOne_Save_ok [OF mem] unfolding approved_world_def by blast
  show ?thesis
    using assms(2)
    by (simp add: ApproveAct_def act_query_single [OF assms(1) assms(3)] upd Let_def
        approved_graph_def)
qed

lemma task_acts_approved_world:
  assumes "task_acts w taskID = [a0]"
  shows "task_acts (approved_world e w a0) taskID = [approve_fields (now_approve e) a0]"
proof -
  have "\<And>a. act_task_id (approve_fields (now_approve e) a) = act_task_id a"
    by (simp add: approve_fields_def)
  from task_filter_map_upd [of "approve_fields (now_approve e)", OF this]
  show ?thesis using assms by (simp add: task_acts_def approved_world_def)
qed

lemma erase_path_task [simp]: "act_task_id (erase_path a) = act_task_id a"
  by (simp add: erase_path_def)

lemma task_acts_erased:
  assumes "map erase_path (acts w') = map erase_path (acts w)" and "task_acts w taskID = [a]"
  shows "\<exists>a'. task_acts w' taskID = [a'] \<and> erase_path a' = erase_path a"
proof -
  have "map erase_path (task_acts w' taskID) =
      filter (\<lambda>a. act_task_id a = taskID) (map erase_path (acts w'))"
    unfolding task_acts_def by (rule filter_map_same [symmetric]) simp
  also have "\<dots> = filter (\<lambda>a. act_task_id a = taskID) (map erase_path (acts w))"
    by (simp add: assms(1))
  also have "\<dots> = map erase_path (task_acts w taskID)"
    unfolding task_acts_def by (rule filter_map_same) simp
  finally have "map erase_path (task_acts w' taskID) = [erase_path a]"
    by (simp add: assms(2))
  then show ?thesis by (auto simp: map_eq_Cons_conv)
qed

lemma ApproveAct_commit:
  assumes "\<not> act_query_fault e" and "\<not> act_update_fault e" and "task_acts w taskID = [a0]"
  shows "fst (ApproveAct s e w taskID) = Inr ()
     \<and> (\<exists>a. task_acts (snd (ApproveAct s e w taskID)) taskID = [a]
           \<and> act_approved_at a = now_approve e \<and> act_status a = status_approved
           \<and> act_conclusion a = approved_conclusion \<and> act_id a = act_id a0
           \<and> act_created_at a = act_created_at a0)"
proof -
  note eq = ApproveAct_commit_eq [OF assms]
  let ?w' = "snd (ApproveAct s e w taskID)"
  have "map erase_path (acts ?w') = map erase_path (acts (approved_world e w a0))"
    by (simp add: eq regenerate_approved_acts)
  from task_acts_erased [OF this task_acts_approved_world [OF assms(3)]]
  obtain a where a: "task_acts ?w' taskID = [a]"
    and er: "erase_path a = erase_path (approve_fields (now_approve e) a0)"
    by blast
  have "act_approved_at (erase_path a) = now_approve e" "act_status (erase_path a) = status_approved"
    "act_conclusion (erase_path a) = approved_conclusion" "act_id (erase_path a) = act_id a0"
    "act_created_at (erase_path a) = act_created_at a0"
    unfolding er by (simp_all add: erase_path_def approve_fields_def)
  then have "act_approved_at a = now_approve e \<and> act_status a = status_approved
           \<and> act_conclusion a = approved_conclusion \<and> act_id a = act_id a0
           \<and> act_created_at a = act_created_at a0"
    by (simp add: erase_path_def)
  then show ?thesis using a by (simp add: eq)
qed


lemma results_Query_All_ok:
  "\<not> results_query_fault e \<Longrightarrow> results_Query_All e w taskID = Inr (task_results w taskID)"
  by (simp add: results_Query_All_def task_results_def)

lemma results_Query_All_fault:
  "results_query_fault e \<Longrightarrow> results_Query_All e w taskID = Inl DriverError"
  by (simp add: results_Query_All_def)

lemma task_results_cong:
  "results w' = results w \<Longrightarrow> checklist_elements w' = checklist_elements w \<Longrightarrow>
   element_catalogs w' = element_catalogs w \<Longrightarrow> task_results w' taskID = task_results w taskID"
  by (simp add: task_results_def load_result_edges_def cong: map_cong)

lemma task_results_remove_draft [simp]:
  "task_results (remove_draft e w act) taskID = task_results w taskID"
  by (rule task_results_cong)
    (auto simp: remove_draft_def os_Remove_def log_Printf_def split: option.splits if_splits)

lemma task_results_approved_world [simp]:
  "task_results (approved_world e w a0) taskID = task_results w taskID"
  by (rule task_results_cong) (simp_all add: approved_world_def)

lemma logs_log_Printf [simp]: "logs (log_Printf l w) = logs w @ [l]"
  by (simp add: log_Printf_def)

lemma regenerate_logs_fetch:
  "results_query_fault e \<Longrightarrow>
     logs (regenerate_approved s e w act taskID) = logs w @ [LogFetchResultsFailed]"
  by (simp add: regenerate_approved_def results_Query_All_fault)

lemma regenerate_logs_render:
  "\<not> results_query_fault e \<Longrightarrow> generatePDF e act (task_results w taskID) = Inl err \<Longrightarrow>
     logs (regenerate_approved s e w act taskID) = logs w @ [LogGenerateApprovedFailed]"
  by (simp add: regenerate_approved_def results_Query_All_ok)

lemma regenerate_logs_save:
  "\<not> results_query_fault e \<Longrightarrow> generatePDF e act (task_results w taskID) = Inr (doc, fn) \<Longrightarrow>
   write_file_fault e \<Longrightarrow>
     logs (regenerate_approved s e w act taskID) = logs w @ [LogSaveApprovedFailed]"
  by (simp add: regenerate_approved_def results_Query_All_ok os_WriteFile_def)

lemma regenerate_path_fault:
  "\<not> results_query_fault e \<Longrightarrow> generatePDF e act (task_results w taskID) = Inr (doc, fn) \<Longrightarrow>
   \<not> write_file_fault e \<Longrightarrow> act_path_update_fault e \<Longrightarrow>
     regenerate_approved s e w act taskID =
       w\<lparr>files := (files w)(filepath_Join (StoragePath s) fn \<mapsto> doc),
         logs := logs w @ [LogUpdatePathFailed, LogApprovedPDFGenerated taskID]\<rparr>"
  by (simp add: regenerate_approved_def results_Query_All_ok os_WriteFile_def
      act_UpdateOne_Save_def Let_def log_Printf_def)

lemma regenerate_approved_files:
  "files (regenerate_approved s e w act taskID) = files w
   \<or> (\<exists>doc fn. generatePDF e act (task_results w taskID) = Inr (doc, fn)
        \<and> files (regenerate_approved s e w act taskID) =
            (files w)(filepath_Join (StoragePath s) fn \<mapsto> doc))"
proof (cases "results_query_fault e")
  case True
  then show ?thesis
    by (simp add: regenerate_approved_def results_Query_All_fault log_Printf_def)
next
  case False
  show ?thesis
  proof (cases "generatePDF e act (task_results w taskID)")
    case (Inl err)
    then show ?thesis
      using False by (simp add: regenerate_approved_def results_Query_All_ok log_Printf_def)
  next
    case (Inr r)
    obtain doc fn where r: "r = (doc, fn)" by (cases r)
    show ?thesis
      using False Inr r
      by (simp add: regenerate_approved_def results_Query_All_ok log_Printf_def os_WriteFile_def
          act_UpdateOne_Save_def Let_def split: option.splits)
  qed
qed

lemma regenerate_approved_success:
  assumes "\<not> results_query_fault e" and "\<not> write_file_fault e" and "\<not> act_path_update_fault e"
    and "generatePDF e act (task_results w taskID) = Inr (doc, fn)"
    and "a \<in> set (acts w)" and "act_id a = act_id (ag_act act)"
  shows "regenerate_approved s e w act taskID =
     w\<lparr>files := (files w)(filepath_Join (StoragePath s) fn \<mapsto> doc),
       acts := map (\<lambda>a. if act_id a = act_id (ag_act act)
                        then a\<lparr>act_document_path := filepath_Join (StoragePath s) fn\<rparr> else a)
                (acts w),
       logs := logs w @ [LogApprovedPDFGenerated taskID]\<rparr>"
proof -
  have "\<exists>y. find (\<lambda>x. act_id x = act_id (ag_act act)) (acts w) = Some y"
    using assms(5,6) by (rule find_mem_Some)
  then show ?thesis
    using assms(1-4)
    by (auto simp: regenerate_approved_def results_Query_All_ok os_WriteFile_def
        act_UpdateOne_Save_def Let_def log_Printf_def)
qed


lemma files_log_Printf [simp]: "files (log_Printf l w) = files w"
  by (simp add: log_Printf_def)

lemma remove_draft_files:
  "act_document_path (ag_act act) \<noteq> [] \<Longrightarrow> \<not> remove_file_fault e \<Longrightarrow>
     files (remove_draft e w act) (act_document_path (ag_act act)) = None"
  by (simp add: remove_draft_def os_Remove_def)

lemma remove_draft_logs:
  "act_document_path (ag_act act) \<noteq> [] \<Longrightarrow>
   remove_file_fault e \<or> files w (act_document_path (ag_act act)) = None \<Longrightarrow>
     logs (remove_draft e w act) = logs w @ [LogDeleteDraftFailed]"
  by (auto simp: remove_draft_def os_Remove_def)

lemma approved_graph_act [simp]:
  "ag_act (approved_graph e w a0) = approve_fields (now_approve e) a0"
  by (simp add: approved_graph_def)

lemma approve_fields_path [simp]:
  "act_document_path (approve_fields now a) = act_document_path a"
  "act_id (approve_fields now a) = act_id a"
  by (simp_all add: approve_fields_def)

lemma ApproveAct_world:
  assumes "\<not> act_query_fault e" and "\<not> act_update_fault e" and "task_acts w taskID = [a0]"
  shows "snd (ApproveAct s e w taskID) =
     regenerate_approved s e (remove_draft e (approved_world e w a0) (approved_graph e w a0))
       (approved_graph e w a0) taskID"
  by (simp add: ApproveAct_commit_eq [OF assms])

lemma ApproveAct_old_file:
  assumes "\<not> act_query_fault e" and "\<not> act_update_fault e" and "task_acts w taskID = [a0]"
    and "act_document_path a0 \<noteq> []" and "\<not> remove_file_fault e"
  shows "files (snd (ApproveAct s e w taskID)) (act_document_path a0) = None
        \<or> (\<exists>doc fn. generatePDF e (approved_graph e w a0) (task_results w taskID) = Inr (doc, fn)
             \<and> act_document_path a0 = filepath_Join (StoragePath s) fn)"
proof -
  let ?g = "approved_graph e w a0"
  let ?w2 = "remove_draft e (approved_world e w a0) ?g"
  have p: "act_document_path (ag_act ?g) = act_document_path a0" by simp
  have gone: "files ?w2 (act_document_path a0) = None"
    using remove_draft_files [of ?g e "approved_world e w a0"] assms(4,5) p by simp
  have tr: "task_results ?w2 taskID = task_results w taskID" by simp
  consider (same) "files (regenerate_approved s e ?w2 ?g taskID) = files ?w2"
    | (new) doc fn where "generatePDF e ?g (task_results ?w2 taskID) = Inr (doc, fn)"
        "files (regenerate_approved s e ?w2 ?g taskID) =
            (files ?w2)(filepath_Join (StoragePath s) fn \<mapsto> doc)"
    using regenerate_approved_files [of s e ?w2 ?g taskID] by blast
  then show ?thesis
  proof cases
    case same
    then show ?thesis
      unfolding ApproveAct_world [OF assms(1-3)] using gone by simp
  next
    case new
    show ?thesis
    proof (cases "act_document_path a0 = filepath_Join (StoragePath s) fn")
      case True
      then show ?thesis using new(1) tr by metis
    next
      case False
      then show ?thesis
        unfolding ApproveAct_world [OF assms(1-3)] using new(2) gone by simp
    qed
  qed
qed


lemma ApproveAct_logs_fetch:
  assumes "\<not> act_query_fault e" and "\<not> act_update_fault e" and "task_acts w taskID = [a0]"
    and "results_query_fault e"
  shows "last (logs (snd (ApproveAct s e w taskID))) = LogFetchResultsFailed"
  unfolding ApproveAct_world [OF assms(1-3)]
  by (simp add: regenerate_logs_fetch [OF assms(4)])

lemma ApproveAct_logs_render:
  assumes "\<not> act_query_fault e" and "\<not> act_update_fault e" and "task_acts w taskID = [a0]"
    and "\<not> results_query_fault e"
    and "generatePDF e (approved_graph e w a0) (task_results w taskID) = Inl err"
  shows "last (logs (snd (ApproveAct s e w taskID))) = LogGenerateApprovedFailed"
proof -
  let ?g = "approved_graph e w a0"
  let ?w2 = "remove_draft e (approved_world e w a0) ?g"
  have gen: "generatePDF e ?g (task_results ?w2 taskID) = Inl err"
    using assms(5) by simp
  show ?thesis
    unfolding ApproveAct_world [OF assms(1-3)]
    by (simp add: regenerate_logs_render [OF assms(4) gen])
qed

lemma ApproveAct_logs_save:
  assumes "\<not> act_query_fault e" and "\<not> act_update_fault e" and "task_acts w taskID = [a0]"
    and "\<not> results_query_fault e"
    and "generatePDF e (approved_graph e w a0) (task_results w taskID) = Inr (doc, fn)"
    and "write_file_fault e"
  shows "last (logs (snd (ApproveAct s e w taskID))) = LogSaveApprovedFailed"
proof -
  let ?g = "approved_graph e w a0"
  let ?w2 = "remove_draft e (approved_world e w a0) ?g"
  have gen: "generatePDF e ?g (task_results ?w2 taskID) = Inr (doc, fn)"
    using assms(5) by simp
  show ?thesis
    unfolding ApproveAct_world [OF assms(1-3)]
    by (simp add: regenerate_logs_save [OF assms(4) gen assms(6)])
qed

lemma ApproveAct_path_fault:
  assumes "\<not> act_query_fault e" and "\<not> act_update_fault e" and "task_acts w taskID = [a0]"
    and "\<not> results_query_fault e"
    and "generatePDF e (approved_graph e w a0) (task_results w taskID) = Inr (doc, fn)"
    and "\<not> write_file_fault e" and "act_path_update_fault e"
  shows "LogUpdatePathFailed \<in> set (logs (snd (ApproveAct s e w taskID)))"
    and "files (snd (ApproveAct s e w taskID)) (filepath_Join (StoragePath s) fn) = Some doc"
proof -
  let ?g = "approved_graph e w a0"
  let ?w2 = "remove_draft e (approved_world e w a0) ?g"
  have gen: "generatePDF e ?g (task_results ?w2 taskID) = Inr (doc, fn)"
    using assms(5) by simp
  note eq = regenerate_path_fault [OF assms(4) gen assms(6) assms(7), of s]
  show "LogUpdatePathFailed \<in> set (logs (snd (ApproveAct s e w taskID)))"
    unfolding ApproveAct_world [OF assms(1-3)] eq by simp
  show "files (snd (ApproveAct s e w taskID)) (filepath_Join (StoragePath s) fn) = Some doc"
    unfolding ApproveAct_world [OF assms(1-3)] eq by simp
qed

lemma ApproveAct_regenerated:
  assumes "\<not> act_query_fault e" and "\<not> act_update_fault e" and "task_acts w taskID = [a0]"
    and "\<not> results_query_fault e"
    and "generatePDF e (approved_graph e w a0) (task_results w taskID) = Inr (doc, fn)"
    and "\<not> write_file_fault e" and "\<not> act_path_update_fault e"
  shows "files (snd (ApproveAct s e w taskID)) (filepath_Join (StoragePath s) fn) = Some doc"
    and "task_acts (snd (ApproveAct s e w taskID)) taskID =
       [(approve_fields (now_approve e) a0)\<lparr>act_document_path := filepath_Join (StoragePath s) fn\<rparr>]"
proof -
  let ?g = "approved_graph e w a0"
  let ?w1 = "approved_world e w a0"
  let ?w2 = "remove_draft e ?w1 ?g"
  let ?fp = "filepath_Join (StoragePath s) fn"
  let ?upd = "\<lambda>a. if act_id a = act_id a0 then a\<lparr>act_document_path := ?fp\<rparr> else a"
  have t1: "task_acts ?w1 taskID = [approve_fields (now_approve e) a0]"
    using assms(3) by (rule task_acts_approved_world)
  have "approve_fields (now_approve e) a0 \<in> set (acts ?w1)"
    using t1 single_filter_mem [of "\<lambda>a. act_task_id a = taskID" "acts ?w1"
        "approve_fields (now_approve e) a0"]
    by (simp add: task_acts_def)
  then have mem: "approve_fields (now_approve e) a0 \<in> set (acts ?w2)"
    by simp
  have gen: "generatePDF e ?g (task_results ?w2 taskID) = Inr (doc, fn)"
    using assms(5) by simp
  have idq: "act_id (approve_fields (now_approve e) a0) = act_id (ag_act ?g)"
    by simp
  have w': "snd (ApproveAct s e w taskID) =
     ?w2\<lparr>files := (files ?w2)(?fp \<mapsto> doc),
       acts := map (\<lambda>a. if act_id a = act_id (ag_act ?g)
                        then a\<lparr>act_document_path := ?fp\<rparr> else a) (acts ?w2),
       logs := logs ?w2 @ [LogApprovedPDFGenerated taskID]\<rparr>"
    unfolding ApproveAct_world [OF assms(1-3)]
    by (rule regenerate_approved_success [OF assms(4) assms(6) assms(7) gen mem idq])
  show "files (snd (ApproveAct s e w taskID)) ?fp = Some doc"
    unfolding w' by simp
  have acts': "acts (snd (ApproveAct s e w taskID)) = map ?upd (acts ?w1)"
    unfolding w' by simp
  have "filter (\<lambda>a. act_task_id a = taskID) (map ?upd (acts ?w1))
    = map ?upd (filter (\<lambda>a. act_task_id a = taskID) (acts ?w1))"
    by (rule task_filter_map_upd) simp
  then have "task_acts (snd (ApproveAct s e w taskID)) taskID = map ?upd (task_acts ?w1 taskID)"
    unfolding task_acts_def acts' .
  then show "task_acts (snd (ApproveAct s e w taskID)) taskID =
       [(approve_fields (now_approve e) a0)\<lparr>act_document_path := ?fp\<rparr>]"
    unfolding t1 by simp
qed

lemma generatePDF_success:
  assumes "ag_task act = Some t" and "\<not> font_regular_fault e" and "\<not> font_bold_fault e"
    and "\<not> pdf_output_fault e"
  shows "generatePDF e act rs =
     Inr (\<lparr>doc_info = info_section act t, doc_building = building_section act,
           doc_checklist = checklist_section act, doc_rows = result_rows 0 rs,
           doc_conclusion = (if act_conclusion (ag_act act) = [] then fallback_conclusion
                             else act_conclusion (ag_act act)),
           doc_sign_date = format_date (now_sign e)\<rparr>,
          act_filename (act_task_id (ag_act act)) (now_name e))"
  using assms by (simp add: generatePDF_def Let_def)

lemma approved_conclusion_nonempty: "approved_conclusion \<noteq> []"
  by (simp add: approved_conclusion_def)

lemma task_acts_task_id: "task_acts w taskID = [a0] \<Longrightarrow> act_task_id a0 = taskID"
  using single_filter_mem [of "\<lambda>a. act_task_id a = taskID" "acts w" a0]
  by (simp add: task_acts_def)

lemma ag_task_load: "ag_task (load_act_edges w a) = tasks w (act_task_id a)"
  by (simp add: load_act_edges_def Let_def)

lemma ApproveAct_regenerated_doc:
  assumes "\<not> act_query_fault e" and "\<not> act_update_fault e" and "task_acts w taskID = [a0]"
    and "render_ready e" and "\<not> act_path_update_fault e" and "tasks w taskID = Some t"
  shows "\<exists>doc. files (snd (ApproveAct s e w taskID))
              (filepath_Join (StoragePath s) (act_filename taskID (now_name e))) = Some doc
           \<and> doc_info doc = info_section (approved_graph e w a0) t
           \<and> doc_building doc = building_section (approved_graph e w a0)
           \<and> doc_checklist doc = checklist_section (approved_graph e w a0)
           \<and> doc_rows doc = result_rows 0 (task_results w taskID)
           \<and> doc_conclusion doc = approved_conclusion
           \<and> doc_sign_date doc = format_date (now_sign e)"
    and "task_acts (snd (ApproveAct s e w taskID)) taskID =
       [(approve_fields (now_approve e) a0)
          \<lparr>act_document_path :=
             filepath_Join (StoragePath s) (act_filename taskID (now_name e))\<rparr>]"
proof -
  let ?g = "approved_graph e w a0"
  let ?doc = "\<lparr>doc_info = info_section ?g t, doc_building = building_section ?g,
           doc_checklist = checklist_section ?g,
           doc_rows = result_rows 0 (task_results w taskID),
           doc_conclusion = approved_conclusion,
           doc_sign_date = format_date (now_sign e)\<rparr>"
  have tid: "act_task_id a0 = taskID"
    using assms(3) by (rule task_acts_task_id)
  have q: "\<not> results_query_fault e" and f1: "\<not> font_regular_fault e"
    and f2: "\<not> font_bold_fault e" and f3: "\<not> pdf_output_fault e"
    and wf: "\<not> write_file_fault e"
    using assms(4) by (simp_all add: render_ready_def)
  have gt: "ag_task ?g = Some t"
    using assms(6) by (simp add: approved_graph_def ag_task_load tid)
  have concl: "act_conclusion (ag_act ?g) = approved_conclusion"
    by (simp add: approve_fields_def)
  have gid: "act_task_id (ag_act ?g) = taskID"
    by (simp add: approve_fields_def tid)
  have gen: "generatePDF e ?g (task_results w taskID) =
      Inr (?doc, act_filename taskID (now_name e))"
    unfolding generatePDF_success [OF gt f1 f2 f3] concl gid
    by (simp add: approved_conclusion_nonempty)
  have stored: "files (snd (ApproveAct s e w taskID))
      (filepath_Join (StoragePath s) (act_filename taskID (now_name e))) = Some ?doc"
    by (rule ApproveAct_regenerated(1) [OF assms(1) assms(2) assms(3) q gen wf assms(5)])
  show "\<exists>doc. files (snd (ApproveAct s e w taskID))
              (filepath_Join (StoragePath s) (act_filename taskID (now_name e))) = Some doc
           \<and> doc_info doc = info_section (approved_graph e w a0) t
           \<and> doc_building doc = building_section (approved_graph e w a0)
           \<and> doc_checklist doc = checklist_section (approved_graph e w a0)
           \<and> doc_rows doc = result_rows 0 (task_results w taskID)
           \<and> doc_conclusion doc = approved_conclusion
           \<and> doc_sign_date doc = format_date (now_sign e)"
    using stored by (intro exI [of _ ?doc]) simp
  show "task_acts (snd (ApproveAct s e w taskID)) taskID =
       [(approve_fields (now_approve e) a0)
          \<lparr>act_document_path :=
             filepath_Join (StoragePath s) (act_filename taskID (now_name e))\<rparr>]"
    by (rule ApproveAct_regenerated(2) [OF assms(1) assms(2) assms(3) q gen wf assms(5)])
qed

text \<open>
  C6. \<^verbatim>\<open>ApproveAct\<close> fails with the act-not-found error, changing nothing, when the
  task has no act (the act query answered). When the task has its act and the approval
  update is stored, it returns success whatever happens afterwards, and the task's act
  row then carries the approval time of the call, the approved status and the fixed
  approval conclusion. After that commit it deletes the old document (when removal
  itself does not fail, the old path holds no file afterwards unless the new document
  was written to that very path) and regenerates: a failure to load the results, to
  render, or to save ends the regeneration with its log line as the last one; a failure
  to record the path is logged while the new file stays on disk; and when nothing fails
  the new document is on disk and the act row points to it. The regeneration does take
  place: when the results can be loaded and the document rendered and written, the file
  named after the task and the time of rendering holds a document made of the approved
  act (its information, building and checklist sections), one table row per result of
  the task, the approval conclusion and the date of signing, and the act row points to
  that file once the path update is stored.
\<close>

theorem ApproveAct_commits_then_regenerates:
  "(\<not> act_query_fault e \<and> task_acts w taskID = [] \<longrightarrow>
      ApproveAct s e w taskID = (Inl ErrActNotFound, w))
   \<and> (\<not> act_query_fault e \<and> \<not> act_update_fault e \<and> task_acts w taskID = [a0] \<longrightarrow>
      fst (ApproveAct s e w taskID) = Inr ()
      \<and> (\<exists>a. task_acts (snd (ApproveAct s e w taskID)) taskID = [a]
            \<and> act_approved_at a = now_approve e \<and> act_status a = status_approved
            \<and> act_conclusion a = approved_conclusion \<and> act_id a = act_id a0
            \<and> act_created_at a = act_created_at a0)
      \<and> (act_document_path a0 \<noteq> [] \<and> \<not> remove_file_fault e \<longrightarrow>
            files (snd (ApproveAct s e w taskID)) (act_document_path a0) = None
            \<or> (\<exists>doc fn. generatePDF e (approved_graph e w a0) (task_results w taskID) = Inr (doc, fn)
                 \<and> act_document_path a0 = filepath_Join (StoragePath s) fn))
      \<and> (results_query_fault e \<longrightarrow>
            last (logs (snd (ApproveAct s e w taskID))) = LogFetchResultsFailed)
      \<and> (\<not> results_query_fault e
          \<and> generatePDF e (approved_graph e w a0) (task_results w taskID) = Inl err \<longrightarrow>
            last (logs (snd (ApproveAct s e w taskID))) = LogGenerateApprovedFailed)
      \<and> (\<not> results_query_fault e
          \<and> generatePDF e (approved_graph e w a0) (task_results w taskID) = Inr (doc, fn) \<longrightarrow>
            (write_file_fault e \<longrightarrow>
               last (logs (snd (ApproveAct s e w taskID))) = LogSaveApprovedFailed)
            \<and> (\<not> write_file_fault e \<and> act_path_update_fault e \<longrightarrow>
               LogUpdatePathFailed \<in> set (logs (snd (ApproveAct s e w taskID)))
               \<and> files (snd (ApproveAct s e w taskID)) (filepath_Join (StoragePath s) fn) = Some doc)
            \<and> (\<not> write_file_fault e \<and> \<not> act_path_update_fault e \<longrightarrow>
               files (snd (ApproveAct s e w taskID)) (filepath_Join (StoragePath s) fn) = Some doc
               \<and> task_acts (snd (ApproveAct s e w taskID)) taskID =
                   [(approve_fields (now_approve e) a0)
                      \<lparr>act_document_path := filepath_Join (StoragePath s) fn\<rparr>]))
      \<and> (render_ready e \<and> \<not> act_path_update_fault e \<and> tasks w taskID = Some t \<longrightarrow>
            (\<exists>d. files (snd (ApproveAct s e w taskID))
                   (filepath_Join (StoragePath s) (act_filename taskID (now_name e))) = Some d
               \<and> doc_info d = info_section (approved_graph e w a0) t
               \<and> doc_building d = building_section (approved_graph e w a0)
               \<and> doc_checklist d = checklist_section (approved_graph e w a0)
               \<and> doc_rows d = result_rows 0 (task_results w taskID)
               \<and> doc_conclusion d = approved_conclusion
               \<and> doc_sign_date d = format_date (now_sign e))
            \<and> task_acts (snd (ApproveAct s e w taskID)) taskID =
                [(approve_fields (now_approve e) a0)
                   \<lparr>act_document_path :=
                      filepath_Join (StoragePath s) (act_filename taskID (now_name e))\<rparr>]))"
proof (intro conjI impI)
  assume "\<not> act_query_fault e \<and> task_acts w taskID = []"
  then show "ApproveAct s e w taskID = (Inl ErrActNotFound, w)"
    by (simp add: ApproveAct_not_found)
next
  assume h: "\<not> act_query_fault e \<and> \<not> act_update_fault e \<and> task_acts w taskID = [a0]"
  then have h1: "\<not> act_query_fault e" and h2: "\<not> act_update_fault e"
    and h3: "task_acts w taskID = [a0]" by simp_all
  show "fst (ApproveAct s e w taskID) = Inr ()"
    using ApproveAct_commit [OF h1 h2 h3, of s] by blast
  show "\<exists>a. task_acts (snd (ApproveAct s e w taskID)) taskID = [a]
            \<and> act_approved_at a = now_approve e \<and> act_status a = status_approved
            \<and> act_conclusion a = approved_conclusion \<and> act_id a = act_id a0
            \<and> act_created_at a = act_created_at a0"
    using ApproveAct_commit [OF h1 h2 h3, of s] by blast
  {
    assume "act_document_path a0 \<noteq> [] \<and> \<not> remove_file_fault e"
    then have p1: "act_document_path a0 \<noteq> []" and p2: "\<not> remove_file_fault e" by simp_all
    show "files (snd (ApproveAct s e w taskID)) (act_document_path a0) = None
            \<or> (\<exists>doc fn. generatePDF e (approved_graph e w a0) (task_results w taskID) = Inr (doc, fn)
                 \<and> act_document_path a0 = filepath_Join (StoragePath s) fn)"
      by (rule ApproveAct_old_file [OF h1 h2 h3 p1 p2])
  }
  {
    assume f: "results_query_fault e"
    show "last (logs (snd (ApproveAct s e w taskID))) = LogFetchResultsFailed"
      by (rule ApproveAct_logs_fetch [OF h1 h2 h3 f])
  }
  {
    assume "\<not> results_query_fault e
          \<and> generatePDF e (approved_graph e w a0) (task_results w taskID) = Inl err"
    then have q: "\<not> results_query_fault e"
      and g: "generatePDF e (approved_graph e w a0) (task_results w taskID) = Inl err"
      by simp_all
    show "last (logs (snd (ApproveAct s e w taskID))) = LogGenerateApprovedFailed"
      by (rule ApproveAct_logs_render [OF h1 h2 h3 q g])
  }
  {
    assume "\<not> results_query_fault e
          \<and> generatePDF e (approved_graph e w a0) (task_results w taskID) = Inr (doc, fn)"
    then have q: "\<not> results_query_fault e"
      and g: "generatePDF e (approved_graph e w a0) (task_results w taskID) = Inr (doc, fn)"
      by simp_all
    {
      assume wf: "write_file_fault e"
      show "last (logs (snd (ApproveAct s e w taskID))) = LogSaveApprovedFailed"
        by (rule ApproveAct_logs_save [OF h1 h2 h3 q g wf])
    }
    {
      assume "\<not> write_file_fault e \<and> act_path_update_fault e"
      then have wf: "\<not> write_file_fault e" and pf: "act_path_update_fault e" by simp_all
      show "LogUpdatePathFailed \<in> set (logs (snd (ApproveAct s e w taskID)))"
        by (rule ApproveAct_path_fault(1) [OF h1 h2 h3 q g wf pf])
      show "files (snd (ApproveAct s e w taskID)) (filepath_Join (StoragePath s) fn) = Some doc"
        by (rule ApproveAct_path_fault(2) [OF h1 h2 h3 q g wf pf])
    }
    {
      assume "\<not> write_file_fault e \<and> \<not> act_path_update_fault e"
      then have wf: "\<not> write_file_fault e" and pf: "\<not> act_path_update_fault e" by simp_all
      show "files (snd (ApproveAct s e w taskID)) (filepath_Join (StoragePath s) fn) = Some doc"
        by (rule ApproveAct_regenerated(1) [OF h1 h2 h3 q g wf pf])
      show "task_acts (snd (ApproveAct s e w taskID)) taskID =
                   [(approve_fields (now_approve e) a0)
                      \<lparr>act_document_path := filepath_Join (StoragePath s) fn\<rparr>]"
        by (rule ApproveAct_regenerated(2) [OF h1 h2 h3 q g wf pf])
    }
  }
  {
    assume "render_ready e \<and> \<not> act_path_update_fault e \<and> tasks w taskID = Some t"
    then have rr: "render_ready e" and pf: "\<not> act_path_update_fault e"
      and tk: "tasks w taskID = Some t" by simp_all
    show "\<exists>d. files (snd (ApproveAct s e w taskID))
                   (filepath_Join (StoragePath s) (act_filename taskID (now_name e))) = Some d
               \<and> doc_info d = info_section (approved_graph e w a0) t
               \<and> doc_building d = building_section (approved_graph e w a0)
               \<and> doc_checklist d = checklist_section (approved_graph e w a0)
               \<and> doc_rows d = result_rows 0 (task_results w taskID)
               \<and> doc_conclusion d = approved_conclusion
               \<and> doc_sign_date d = format_date (now_sign e)"
      by (rule ApproveAct_regenerated_doc(1) [OF h1 h2 h3 rr pf tk])
    show "task_acts (snd (ApproveAct s e w taskID)) taskID =
                [(approve_fields (now_approve e) a0)
                   \<lparr>act_document_path :=
                      filepath_Join (StoragePath s) (act_filename taskID (now_name e))\<rparr>]"
      by (rule ApproveAct_regenerated_doc(2) [OF h1 h2 h3 rr pf tk])
  }
qed

lemma E2_faults:
  "\<not> act_query_fault E2" "\<not> act_update_fault E2" "results_query_fault E2"
  "\<not> remove_file_fault E2" "now_approve E2 = T0"
  by (simp_all add: E2_def E0_def)

lemma W_doc_approved_failing_fetch:
  "snd (ApproveAct S0 E2 W_doc 1) =
     log_Printf LogFetchResultsFailed
       (remove_draft E2 (approved_world E2 W_doc A1) (approved_graph E2 W_doc A1))"
  unfolding ApproveAct_world [OF E2_faults(1) E2_faults(2) W_doc_acts(1)]
  by (simp add: regenerate_approved_def results_Query_All_fault [OF E2_faults(3)])

lemma GeneratePDFForAct_not_found:
  "\<not> act_query_fault e \<Longrightarrow> task_acts w taskID = [] \<Longrightarrow>
     GeneratePDFForAct s e w taskID = (Inl ErrActNotFound, w)"
  by (simp add: GeneratePDFForAct_def act_query_none IsNotFound_def)

lemma GeneratePDFForAct_hit:
  assumes "\<not> act_query_fault e" and "task_acts w taskID = [a0]"
    and "act_document_path a0 \<noteq> []" and "os_ReadFile e w (act_document_path a0) = Some data"
  shows "GeneratePDFForAct s e w taskID = (Inr (data, filepath_Base (act_document_path a0)), w)"
  using assms(3,4)
  by (simp add: GeneratePDFForAct_def act_query_single [OF assms(1) assms(2)])

lemma GeneratePDFForAct_miss:
  assumes "\<not> act_query_fault e" and "task_acts w taskID = [a0]"
    and "act_document_path a0 = [] \<or> os_ReadFile e w (act_document_path a0) = None"
  shows "GeneratePDFForAct s e w taskID =
     render_and_store s e
       (if act_document_path a0 \<noteq> [] then log_Printf LogReadExistingFailed w else w)
       (load_act_edges w a0) taskID"
  using assms(3)
  by (auto simp: GeneratePDFForAct_def act_query_single [OF assms(1) assms(2)] Let_def)

lemma render_and_store_fetch_fault:
  "results_query_fault e \<Longrightarrow> render_and_store s e w act taskID = (Inl ErrFetchResults, w)"
  by (simp add: render_and_store_def results_Query_All_fault)

lemma render_and_store_render_fault:
  "\<not> results_query_fault e \<Longrightarrow> generatePDF e act (task_results w taskID) = Inl err \<Longrightarrow>
     render_and_store s e w act taskID = (Inl err, w)"
  by (simp add: render_and_store_def results_Query_All_ok)

lemma render_and_store_save_fault:
  "\<not> results_query_fault e \<Longrightarrow> generatePDF e act (task_results w taskID) = Inr (doc, fn) \<Longrightarrow>
   write_file_fault e \<Longrightarrow>
     render_and_store s e w act taskID =
       (Inl ErrSavePDF, log_Printf (LogSavePDFFailed (filepath_Join (StoragePath s) fn)) w)"
  by (simp add: render_and_store_def results_Query_All_ok os_WriteFile_def)

lemma render_and_store_path_fault:
  "\<not> results_query_fault e \<Longrightarrow> generatePDF e act (task_results w taskID) = Inr (doc, fn) \<Longrightarrow>
   \<not> write_file_fault e \<Longrightarrow> act_path_update_fault e \<Longrightarrow>
     render_and_store s e w act taskID =
       (Inr (doc, fn),
        w\<lparr>files := (files w)(filepath_Join (StoragePath s) fn \<mapsto> doc),
          logs := logs w @ [LogUpdateActPathFailed]\<rparr>)"
  by (simp add: render_and_store_def results_Query_All_ok os_WriteFile_def
      act_UpdateOne_Save_def Let_def log_Printf_def)

lemma render_and_store_success:
  assumes "\<not> results_query_fault e" and "\<not> write_file_fault e" and "\<not> act_path_update_fault e"
    and "generatePDF e act (task_results w taskID) = Inr (doc, fn)"
    and "a \<in> set (acts w)" and "act_id a = act_id (ag_act act)"
  shows "render_and_store s e w act taskID =
     (Inr (doc, fn),
      w\<lparr>files := (files w)(filepath_Join (StoragePath s) fn \<mapsto> doc),
        acts := map (\<lambda>a. if act_id a = act_id (ag_act act)
                         then a\<lparr>act_document_path := filepath_Join (StoragePath s) fn\<rparr> else a)
                 (acts w)\<rparr>)"
proof -
  have "\<exists>y. find (\<lambda>x. act_id x = act_id (ag_act act)) (acts w) = Some y"
    using assms(5,6) by (rule find_mem_Some)
  then show ?thesis
    using assms(1-4)
    by (auto simp: render_and_store_def results_Query_All_ok os_WriteFile_def
        act_UpdateOne_Save_def Let_def)
qed

lemma task_results_log_Printf [simp]:
  "task_results (log_Printf l w) taskID = task_results w taskID"
  by (rule task_results_cong) (simp_all add: log_Printf_def)

lemma filepath_Join_nonempty [simp]: "filepath_Join d n \<noteq> []"
  by (simp add: filepath_Join_def)


lemma miss_world_frame [simp]:
  "acts (if c then log_Printf l w else w) = acts w"
  "files (if c then log_Printf l w else w) = files w"
  "task_results (if c then log_Printf l w else w) taskID = task_results w taskID"
  by simp_all

lemma GeneratePDFForAct_fetch_fault:
  assumes "\<not> act_query_fault e" and "task_acts w taskID = [a0]"
    and "act_document_path a0 = [] \<or> os_ReadFile e w (act_document_path a0) = None"
    and "results_query_fault e"
  shows "fst (GeneratePDFForAct s e w taskID) = Inl ErrFetchResults"
    and "acts (snd (GeneratePDFForAct s e w taskID)) = acts w"
    and "files (snd (GeneratePDFForAct s e w taskID)) = files w"
  unfolding GeneratePDFForAct_miss [OF assms(1-3)] render_and_store_fetch_fault [OF assms(4)]
  by simp_all

lemma GeneratePDFForAct_render_fault:
  assumes "\<not> act_query_fault e" and "task_acts w taskID = [a0]"
    and "act_document_path a0 = [] \<or> os_ReadFile e w (act_document_path a0) = None"
    and "\<not> results_query_fault e"
    and "generatePDF e (load_act_edges w a0) (task_results w taskID) = Inl err"
  shows "fst (GeneratePDFForAct s e w taskID) = Inl err"
    and "acts (snd (GeneratePDFForAct s e w taskID)) = acts w"
    and "files (snd (GeneratePDFForAct s e w taskID)) = files w"
proof -
  let ?w1 = "if act_document_path a0 \<noteq> [] then log_Printf LogReadExistingFailed w else w"
  have gen: "generatePDF e (load_act_edges w a0) (task_results ?w1 taskID) = Inl err"
    using assms(5) by simp
  note eq = render_and_store_render_fault [OF assms(4) gen, of s]
  show "fst (GeneratePDFForAct s e w taskID) = Inl err"
    unfolding GeneratePDFForAct_miss [OF assms(1-3)] eq by simp
  show "acts (snd (GeneratePDFForAct s e w taskID)) = acts w"
    unfolding GeneratePDFForAct_miss [OF assms(1-3)] eq by simp
  show "files (snd (GeneratePDFForAct s e w taskID)) = files w"
    unfolding GeneratePDFForAct_miss [OF assms(1-3)] eq by simp
qed

lemma GeneratePDFForAct_save_fault:
  assumes "\<not> act_query_fault e" and "task_acts w taskID = [a0]"
    and "act_document_path a0 = [] \<or> os_ReadFile e w (act_document_path a0) = None"
    and "\<not> results_query_fault e"
    and "generatePDF e (load_act_edges w a0) (task_results w taskID) = Inr (doc, fn)"
    and "write_file_fault e"
  shows "fst (GeneratePDFForAct s e w taskID) = Inl ErrSavePDF"
    and "acts (snd (GeneratePDFForAct s e w taskID)) = acts w"
    and "files (snd (GeneratePDFForAct s e w taskID)) = files w"
proof -
  let ?w1 = "if act_document_path a0 \<noteq> [] then log_Printf LogReadExistingFailed w else w"
  have gen: "generatePDF e (load_act_edges w a0) (task_results ?w1 taskID) = Inr (doc, fn)"
    using assms(5) by simp
  note eq = render_and_store_save_fault [OF assms(4) gen assms(6), of s]
  show "fst (GeneratePDFForAct s e w taskID) = Inl ErrSavePDF"
    unfolding GeneratePDFForAct_miss [OF assms(1-3)] eq by simp
  show "acts (snd (GeneratePDFForAct s e w taskID)) = acts w"
    unfolding GeneratePDFForAct_miss [OF assms(1-3)] eq by simp
  show "files (snd (GeneratePDFForAct s e w taskID)) = files w"
    unfolding GeneratePDFForAct_miss [OF assms(1-3)] eq by simp
qed

lemma GeneratePDFForAct_fresh:
  assumes "\<not> act_query_fault e" and "task_acts w taskID = [a0]"
    and "act_document_path a0 = [] \<or> os_ReadFile e w (act_document_path a0) = None"
    and "\<not> results_query_fault e"
    and "generatePDF e (load_act_edges w a0) (task_results w taskID) = Inr (doc, fn)"
    and "\<not> write_file_fault e"
  shows "fst (GeneratePDFForAct s e w taskID) = Inr (doc, fn)"
    and "files (snd (GeneratePDFForAct s e w taskID)) (filepath_Join (StoragePath s) fn) = Some doc"
proof -
  let ?w1 = "if act_document_path a0 \<noteq> [] then log_Printf LogReadExistingFailed w else w"
  let ?fp = "filepath_Join (StoragePath s) fn"
  have gen: "generatePDF e (load_act_edges w a0) (task_results ?w1 taskID) = Inr (doc, fn)"
    using assms(5) by simp
  have mem: "a0 \<in> set (acts ?w1)"
    using assms(2) single_filter_mem [of "\<lambda>a. act_task_id a = taskID" "acts w" a0]
    by (simp add: task_acts_def)
  have idq: "act_id a0 = act_id (ag_act (load_act_edges w a0))" by simp
  have "fst (render_and_store s e ?w1 (load_act_edges w a0) taskID) = Inr (doc, fn)
      \<and> files (snd (render_and_store s e ?w1 (load_act_edges w a0) taskID)) ?fp = Some doc"
  proof (cases "act_path_update_fault e")
    case True
    show ?thesis
      unfolding render_and_store_path_fault [OF assms(4) gen assms(6) True, of s] by simp
  next
    case False
    show ?thesis
      unfolding render_and_store_success [OF assms(4) assms(6) False gen mem idq, of s] by simp
  qed
  then show "fst (GeneratePDFForAct s e w taskID) = Inr (doc, fn)"
    and "files (snd (GeneratePDFForAct s e w taskID)) ?fp = Some doc"
    unfolding GeneratePDFForAct_miss [OF assms(1-3)] by simp_all
qed

lemma GeneratePDFForAct_pointer:
  assumes "\<not> act_query_fault e" and "task_acts w taskID = [a0]"
    and "act_document_path a0 = [] \<or> os_ReadFile e w (act_document_path a0) = None"
    and "\<not> results_query_fault e"
    and "generatePDF e (load_act_edges w a0) (task_results w taskID) = Inr (doc, fn)"
    and "\<not> write_file_fault e" and "\<not> act_path_update_fault e"
  shows "task_acts (snd (GeneratePDFForAct s e w taskID)) taskID =
      [a0\<lparr>act_document_path := filepath_Join (StoragePath s) fn\<rparr>]"
proof -
  let ?w1 = "if act_document_path a0 \<noteq> [] then log_Printf LogReadExistingFailed w else w"
  let ?fp = "filepath_Join (StoragePath s) fn"
  let ?upd = "\<lambda>a. if act_id a = act_id a0 then a\<lparr>act_document_path := ?fp\<rparr> else a"
  have gen: "generatePDF e (load_act_edges w a0) (task_results ?w1 taskID) = Inr (doc, fn)"
    using assms(5) by simp
  have mem: "a0 \<in> set (acts ?w1)"
    using assms(2) single_filter_mem [of "\<lambda>a. act_task_id a = taskID" "acts w" a0]
    by (simp add: task_acts_def)
  have idq: "act_id a0 = act_id (ag_act (load_act_edges w a0))" by simp
  have acts': "acts (snd (GeneratePDFForAct s e w taskID)) = map ?upd (acts w)"
    unfolding GeneratePDFForAct_miss [OF assms(1-3)]
      render_and_store_success [OF assms(4) assms(6) assms(7) gen mem idq, of s]
    by simp
  have "filter (\<lambda>a. act_task_id a = taskID) (map ?upd (acts w))
    = map ?upd (filter (\<lambda>a. act_task_id a = taskID) (acts w))"
    by (rule task_filter_map_upd) simp
  then have "task_acts (snd (GeneratePDFForAct s e w taskID)) taskID = map ?upd (task_acts w taskID)"
    unfolding task_acts_def acts' .
  then show ?thesis
    unfolding assms(2) by simp
qed

lemma GeneratePDFForAct_again:
  assumes "\<not> act_query_fault e" and "task_acts w taskID = [a0]"
    and "act_document_path a0 = [] \<or> os_ReadFile e w (act_document_path a0) = None"
    and "\<not> results_query_fault e"
    and "generatePDF e (load_act_edges w a0) (task_results w taskID) = Inr (doc, fn)"
    and "\<not> write_file_fault e" and "\<not> act_path_update_fault e"
    and "\<not> act_query_fault e2" and "\<not> read_file_fault e2"
  shows "GeneratePDFForAct s e2 (snd (GeneratePDFForAct s e w taskID)) taskID =
      (Inr (doc, filepath_Base (filepath_Join (StoragePath s) fn)),
       snd (GeneratePDFForAct s e w taskID))"
proof -
  let ?w' = "snd (GeneratePDFForAct s e w taskID)"
  let ?fp = "filepath_Join (StoragePath s) fn"
  note row = GeneratePDFForAct_pointer [OF assms(1-7), of s]
  note stored = GeneratePDFForAct_fresh(2) [OF assms(1-6), of s]
  have p: "act_document_path (a0\<lparr>act_document_path := ?fp\<rparr>) \<noteq> []" by simp
  have rd: "os_ReadFile e2 ?w' (act_document_path (a0\<lparr>act_document_path := ?fp\<rparr>)) = Some doc"
    using assms(9) stored by (simp add: os_ReadFile_def)
  show ?thesis
    using GeneratePDFForAct_hit [OF assms(8) row p rd, of s] by simp
qed


lemma digit_char_not_slash: "d < 10 \<Longrightarrow> digit_char d \<noteq> CHR ''/''"
proof
  assume d: "d < 10" and eq: "digit_char d = CHR ''/''"
  have "of_char (digit_char d) = (48 + d) mod 256"
    by (simp add: digit_char_def)
  then have "(of_char (digit_char d) :: nat) = 48 + d"
    using d by simp
  moreover have "(of_char (CHR ''/'') :: nat) = 47" by simp
  ultimately show False using eq by simp
qed

lemma digits10_no_slash: "CHR ''/'' \<notin> set (digits10 n)"
proof (induction n rule: digits10.induct)
  case (1 n)
  show ?case
  proof (cases "n < 10")
    case True
    then show ?thesis
      using digit_char_not_slash [of n] by (subst digits10.simps) auto
  next
    case False
    have "n mod 10 < 10" by simp
    then have "digit_char (n mod 10) \<noteq> CHR ''/''" by (rule digit_char_not_slash)
    then show ?thesis
      using False 1 by (subst digits10.simps) auto
  qed
qed

lemma zero_pad_no_slash: "CHR ''/'' \<notin> set (zero_pad k n)"
  by (auto simp: zero_pad_def digits10_no_slash)

lemma show_int_no_slash: "CHR ''/'' \<notin> set (show_int i)"
  by (simp add: show_int_def digits10_no_slash)

lemma act_filename_no_slash: "CHR ''/'' \<notin> set (act_filename taskID t)"
  by (simp add: act_filename_def format_stamp_def show_int_no_slash zero_pad_no_slash)

lemma act_filename_nonempty: "act_filename taskID t \<noteq> []"
  by (simp add: act_filename_def)

lemma filepath_Base_Join:
  assumes "fn \<noteq> []" and "CHR ''/'' \<notin> set fn"
  shows "filepath_Base (filepath_Join d fn) = fn"
proof -
  obtain y ys where r: "rev fn = y # ys"
    using assms(1) by (cases "rev fn") auto
  have "y \<in> set fn" using r by (metis list.set_intros(1) set_rev)
  then have y: "y \<noteq> CHR ''/''" using assms(2) by auto
  have all: "\<And>x. x \<in> set (rev fn) \<Longrightarrow> x \<noteq> CHR ''/''"
    using assms(2) by auto
  have rp: "rev (filepath_Join d fn) = rev fn @ CHR ''/'' # rev d"
    by (simp add: filepath_Join_def)
  have dw: "dropWhile (\<lambda>c. c = CHR ''/'') (rev fn @ CHR ''/'' # rev d) =
      rev fn @ CHR ''/'' # rev d"
    unfolding r using y by simp
  have tw: "takeWhile (\<lambda>c. c \<noteq> CHR ''/'') (rev fn @ CHR ''/'' # rev d) = rev fn"
    using takeWhile_append2 [of "rev fn" "\<lambda>c. c \<noteq> CHR ''/''" "CHR ''/'' # rev d"] all
    by simp
  show ?thesis
    using assms(1) by (simp add: filepath_Base_def dw Let_def rp tw)
qed

lemma generatePDF_filename:
  "generatePDF e act rs = Inr (doc, fn) \<Longrightarrow> fn = act_filename (act_task_id (ag_act act)) (now_name e)"
  by (auto simp: generatePDF_def Let_def split: option.splits if_splits)

lemma generatePDF_Base:
  assumes "generatePDF e act rs = Inr (doc, fn)"
  shows "filepath_Base (filepath_Join d fn) = fn"
  unfolding generatePDF_filename [OF assms]
  by (rule filepath_Base_Join [OF act_filename_nonempty act_filename_no_slash])

lemma GeneratePDFForAct_again_same:
  assumes "\<not> act_query_fault e" and "task_acts w taskID = [a0]"
    and "act_document_path a0 = [] \<or> os_ReadFile e w (act_document_path a0) = None"
    and "\<not> results_query_fault e"
    and "generatePDF e (load_act_edges w a0) (task_results w taskID) = Inr (doc, fn)"
    and "\<not> write_file_fault e" and "\<not> act_path_update_fault e"
    and "\<not> act_query_fault e2" and "\<not> read_file_fault e2"
  shows "GeneratePDFForAct s e2 (snd (GeneratePDFForAct s e w taskID)) taskID =
      (Inr (doc, fn), snd (GeneratePDFForAct s e w taskID))"
  using GeneratePDFForAct_again [OF assms, of s] generatePDF_Base [OF assms(5), of "StoragePath s"]
  by simp

lemma GeneratePDFForAct_fresh_doc:
  assumes "\<not> act_query_fault e" and "task_acts w taskID = [a0]"
    and "act_document_path a0 = [] \<or> os_ReadFile e w (act_document_path a0) = None"
    and "render_ready e" and "tasks w taskID = Some t"
  shows "\<exists>doc. fst (GeneratePDFForAct s e w taskID) =
              Inr (doc, act_filename taskID (now_name e))
           \<and> files (snd (GeneratePDFForAct s e w taskID))
                (filepath_Join (StoragePath s) (act_filename taskID (now_name e))) = Some doc
           \<and> doc_info doc = info_section (load_act_edges w a0) t
           \<and> doc_building doc = building_section (load_act_edges w a0)
           \<and> doc_checklist doc = checklist_section (load_act_edges w a0)
           \<and> doc_rows doc = result_rows 0 (task_results w taskID)
           \<and> doc_conclusion doc =
               (if act_conclusion a0 = [] then fallback_conclusion else act_conclusion a0)
           \<and> doc_sign_date doc = format_date (now_sign e)"
    and "\<not> act_path_update_fault e \<Longrightarrow>
       task_acts (snd (GeneratePDFForAct s e w taskID)) taskID =
         [a0\<lparr>act_document_path :=
              filepath_Join (StoragePath s) (act_filename taskID (now_name e))\<rparr>]"
proof -
  let ?g = "load_act_edges w a0"
  let ?doc = "\<lparr>doc_info = info_section ?g t, doc_building = building_section ?g,
           doc_checklist = checklist_section ?g,
           doc_rows = result_rows 0 (task_results w taskID),
           doc_conclusion =
             (if act_conclusion a0 = [] then fallback_conclusion else act_conclusion a0),
           doc_sign_date = format_date (now_sign e)\<rparr>"
  have tid: "act_task_id a0 = taskID"
    using assms(2) by (rule task_acts_task_id)
  have q: "\<not> results_query_fault e" and f1: "\<not> font_regular_fault e"
    and f2: "\<not> font_bold_fault e" and f3: "\<not> pdf_output_fault e"
    and wf: "\<not> write_file_fault e"
    using assms(4) by (simp_all add: render_ready_def)
  have gt: "ag_task ?g = Some t"
    using assms(5) by (simp add: ag_task_load tid)
  have gen: "generatePDF e ?g (task_results w taskID) =
      Inr (?doc, act_filename taskID (now_name e))"
    unfolding generatePDF_success [OF gt f1 f2 f3] by (simp add: tid)
  have r: "fst (GeneratePDFForAct s e w taskID) = Inr (?doc, act_filename taskID (now_name e))"
    by (rule GeneratePDFForAct_fresh(1) [OF assms(1) assms(2) assms(3) q gen wf])
  have st: "files (snd (GeneratePDFForAct s e w taskID))
      (filepath_Join (StoragePath s) (act_filename taskID (now_name e))) = Some ?doc"
    by (rule GeneratePDFForAct_fresh(2) [OF assms(1) assms(2) assms(3) q gen wf])
  show "\<exists>doc. fst (GeneratePDFForAct s e w taskID) =
              Inr (doc, act_filename taskID (now_name e))
           \<and> files (snd (GeneratePDFForAct s e w taskID))
                (filepath_Join (StoragePath s) (act_filename taskID (now_name e))) = Some doc
           \<and> doc_info doc = info_section (load_act_edges w a0) t
           \<and> doc_building doc = building_section (load_act_edges w a0)
           \<and> doc_checklist doc = checklist_section (load_act_edges w a0)
           \<and> doc_rows doc = result_rows 0 (task_results w taskID)
           \<and> doc_conclusion doc =
               (if act_conclusion a0 = [] then fallback_conclusion else act_conclusion a0)
           \<and> doc_sign_date doc = format_date (now_sign e)"
    using r st by (intro exI [of _ ?doc]) simp
  show "task_acts (snd (GeneratePDFForAct s e w taskID)) taskID =
         [a0\<lparr>act_document_path :=
              filepath_Join (StoragePath s) (act_filename taskID (now_name e))\<rparr>]"
    if pf: "\<not> act_path_update_fault e"
    by (rule GeneratePDFForAct_pointer [OF assms(1) assms(2) assms(3) q gen wf pf])
qed

text \<open>
  C7. \<^verbatim>\<open>GeneratePDFForAct\<close>, the act query answered: without an act for the task it
  fails with the act-not-found error and changes nothing. With the act's document
  pointer set and the file readable it returns exactly the stored bytes, under the
  pointer's base name, and the world is untouched: nothing is rendered or written.
  Otherwise it renders from the act and the task's results: a failure to load the
  results, a failure of the rendering (returned as it is) and a failure to write the file
  are each returned to the caller, the act table and the files staying as they were;
  when these steps succeed the fresh bytes are returned and are on disk under the
  storage path, and when also the pointer update is stored the act row points to the new
  file, so that a second call with a readable file system returns the identical bytes
  and filename and leaves the world as it is. What is rendered is fixed by the act and
  the results: when the results can be loaded and the document rendered and written, the
  returned document, stored under the name made of the task and the time of rendering,
  consists of the act's information, building and checklist sections, one table row per
  result of the task, the act's conclusion (the fixed fallback text when it is empty)
  and the date of signing.
\<close>

theorem GeneratePDFForAct_cache_or_render:
  "(\<not> act_query_fault e \<and> task_acts w taskID = [] \<longrightarrow>
      GeneratePDFForAct s e w taskID = (Inl ErrActNotFound, w))
   \<and> (\<not> act_query_fault e \<and> task_acts w taskID = [a0] \<longrightarrow>
      (act_document_path a0 \<noteq> [] \<and> os_ReadFile e w (act_document_path a0) = Some data \<longrightarrow>
         GeneratePDFForAct s e w taskID =
           (Inr (data, filepath_Base (act_document_path a0)), w))
      \<and> (act_document_path a0 = [] \<or> os_ReadFile e w (act_document_path a0) = None \<longrightarrow>
           (results_query_fault e \<longrightarrow>
              fst (GeneratePDFForAct s e w taskID) = Inl ErrFetchResults
              \<and> acts (snd (GeneratePDFForAct s e w taskID)) = acts w
              \<and> files (snd (GeneratePDFForAct s e w taskID)) = files w)
           \<and> (\<not> results_query_fault e
               \<and> generatePDF e (load_act_edges w a0) (task_results w taskID) = Inl err \<longrightarrow>
              fst (GeneratePDFForAct s e w taskID) = Inl err
              \<and> acts (snd (GeneratePDFForAct s e w taskID)) = acts w
              \<and> files (snd (GeneratePDFForAct s e w taskID)) = files w)
           \<and> (\<not> results_query_fault e
               \<and> generatePDF e (load_act_edges w a0) (task_results w taskID) = Inr (doc, fn) \<longrightarrow>
              (write_file_fault e \<longrightarrow>
                 fst (GeneratePDFForAct s e w taskID) = Inl ErrSavePDF
                 \<and> acts (snd (GeneratePDFForAct s e w taskID)) = acts w
                 \<and> files (snd (GeneratePDFForAct s e w taskID)) = files w)
              \<and> (\<not> write_file_fault e \<longrightarrow>
                 fst (GeneratePDFForAct s e w taskID) = Inr (doc, fn)
                 \<and> files (snd (GeneratePDFForAct s e w taskID))
                      (filepath_Join (StoragePath s) fn) = Some doc)
              \<and> (\<not> write_file_fault e \<and> \<not> act_path_update_fault e \<longrightarrow>
                 task_acts (snd (GeneratePDFForAct s e w taskID)) taskID =
                   [a0\<lparr>act_document_path := filepath_Join (StoragePath s) fn\<rparr>]
                 \<and> (\<not> act_query_fault e2 \<and> \<not> read_file_fault e2 \<longrightarrow>
                      GeneratePDFForAct s e2 (snd (GeneratePDFForAct s e w taskID)) taskID =
                        (Inr (doc, fn), snd (GeneratePDFForAct s e w taskID)))))
           \<and> (render_ready e \<and> tasks w taskID = Some t \<longrightarrow>
              (\<exists>d. fst (GeneratePDFForAct s e w taskID) =
                     Inr (d, act_filename taskID (now_name e))
                 \<and> files (snd (GeneratePDFForAct s e w taskID))
                      (filepath_Join (StoragePath s) (act_filename taskID (now_name e))) = Some d
                 \<and> doc_info d = info_section (load_act_edges w a0) t
                 \<and> doc_building d = building_section (load_act_edges w a0)
                 \<and> doc_checklist d = checklist_section (load_act_edges w a0)
                 \<and> doc_rows d = result_rows 0 (task_results w taskID)
                 \<and> doc_conclusion d =
                     (if act_conclusion a0 = [] then fallback_conclusion else act_conclusion a0)
                 \<and> doc_sign_date d = format_date (now_sign e))
              \<and> (\<not> act_path_update_fault e \<longrightarrow>
                   task_acts (snd (GeneratePDFForAct s e w taskID)) taskID =
                     [a0\<lparr>act_document_path :=
                          filepath_Join (StoragePath s)
                            (act_filename taskID (now_name e))\<rparr>]))))"
proof (intro conjI impI)
  assume "\<not> act_query_fault e \<and> task_acts w taskID = []"
  then show "GeneratePDFForAct s e w taskID = (Inl ErrActNotFound, w)"
    by (simp add: GeneratePDFForAct_not_found)
next
  assume "\<not> act_query_fault e \<and> task_acts w taskID = [a0]"
  then have h1: "\<not> act_query_fault e" and h2: "task_acts w taskID = [a0]" by simp_all
  {
    assume "act_document_path a0 \<noteq> [] \<and> os_ReadFile e w (act_document_path a0) = Some data"
    then have p: "act_document_path a0 \<noteq> []"
      and rd: "os_ReadFile e w (act_document_path a0) = Some data" by simp_all
    show "GeneratePDFForAct s e w taskID =
           (Inr (data, filepath_Base (act_document_path a0)), w)"
      by (rule GeneratePDFForAct_hit [OF h1 h2 p rd])
  }
  {
    assume m: "act_document_path a0 = [] \<or> os_ReadFile e w (act_document_path a0) = None"
    {
      assume f: "results_query_fault e"
      show "fst (GeneratePDFForAct s e w taskID) = Inl ErrFetchResults"
        by (rule GeneratePDFForAct_fetch_fault(1) [OF h1 h2 m f])
      show "acts (snd (GeneratePDFForAct s e w taskID)) = acts w"
        by (rule GeneratePDFForAct_fetch_fault(2) [OF h1 h2 m f])
      show "files (snd (GeneratePDFForAct s e w taskID)) = files w"
        by (rule GeneratePDFForAct_fetch_fault(3) [OF h1 h2 m f])
    }
    {
      assume "\<not> results_query_fault e
               \<and> generatePDF e (load_act_edges w a0) (task_results w taskID) = Inl err"
      then have q: "\<not> results_query_fault e"
        and g: "generatePDF e (load_act_edges w a0) (task_results w taskID) = Inl err"
        by simp_all
      show "fst (GeneratePDFForAct s e w taskID) = Inl err"
        by (rule GeneratePDFForAct_render_fault(1) [OF h1 h2 m q g])
      show "acts (snd (GeneratePDFForAct s e w taskID)) = acts w"
        by (rule GeneratePDFForAct_render_fault(2) [OF h1 h2 m q g])
      show "files (snd (GeneratePDFForAct s e w taskID)) = files w"
        by (rule GeneratePDFForAct_render_fault(3) [OF h1 h2 m q g])
    }
    {
      assume "\<not> results_query_fault e
               \<and> generatePDF e (load_act_edges w a0) (task_results w taskID) = Inr (doc, fn)"
      then have q: "\<not> results_query_fault e"
        and g: "generatePDF e (load_act_edges w a0) (task_results w taskID) = Inr (doc, fn)"
        by simp_all
      {
        assume wf: "write_file_fault e"
        show "fst (GeneratePDFForAct s e w taskID) = Inl ErrSavePDF"
          by (rule GeneratePDFForAct_save_fault(1) [OF h1 h2 m q g wf])
        show "acts (snd (GeneratePDFForAct s e w taskID)) = acts w"
          by (rule GeneratePDFForAct_save_fault(2) [OF h1 h2 m q g wf])
        show "files (snd (GeneratePDFForAct s e w taskID)) = files w"
          by (rule GeneratePDFForAct_save_fault(3) [OF h1 h2 m q g wf])
      }
      {
        assume wf: "\<not> write_file_fault e"
        show "fst (GeneratePDFForAct s e w taskID) = Inr (doc, fn)"
          by (rule GeneratePDFForAct_fresh(1) [OF h1 h2 m q g wf])
        show "files (snd (GeneratePDFForAct s e w taskID))
                      (filepath_Join (StoragePath s) fn) = Some doc"
          by (rule GeneratePDFForAct_fresh(2) [OF h1 h2 m q g wf])
      }
      {
        assume "\<not> write_file_fault e \<and> \<not> act_path_update_fault e"
        then have wf: "\<not> write_file_fault e" and pf: "\<not> act_path_update_fault e" by simp_all
        show "task_acts (snd (GeneratePDFForAct s e w taskID)) taskID =
                   [a0\<lparr>act_document_path := filepath_Join (StoragePath s) fn\<rparr>]"
          by (rule GeneratePDFForAct_pointer [OF h1 h2 m q g wf pf])
        {
          assume "\<not> act_query_fault e2 \<and> \<not> read_file_fault e2"
          then have a2: "\<not> act_query_fault e2" and r2: "\<not> read_file_fault e2" by simp_all
          show "GeneratePDFForAct s e2 (snd (GeneratePDFForAct s e w taskID)) taskID =
                        (Inr (doc, fn), snd (GeneratePDFForAct s e w taskID))"
            by (rule GeneratePDFForAct_again_same [OF h1 h2 m q g wf pf a2 r2])
        }
      }
    }
    {
      assume "render_ready e \<and> tasks w taskID = Some t"
      then have rr: "render_ready e" and tk: "tasks w taskID = Some t" by simp_all
      show "\<exists>d. fst (GeneratePDFForAct s e w taskID) =
                     Inr (d, act_filename taskID (now_name e))
                 \<and> files (snd (GeneratePDFForAct s e w taskID))
                      (filepath_Join (StoragePath s) (act_filename taskID (now_name e))) = Some d
                 \<and> doc_info d = info_section (load_act_edges w a0) t
                 \<and> doc_building d = building_section (load_act_edges w a0)
                 \<and> doc_checklist d = checklist_section (load_act_edges w a0)
                 \<and> doc_rows d = result_rows 0 (task_results w taskID)
                 \<and> doc_conclusion d =
                     (if act_conclusion a0 = [] then fallback_conclusion else act_conclusion a0)
                 \<and> doc_sign_date d = format_date (now_sign e)"
        by (rule GeneratePDFForAct_fresh_doc(1) [OF h1 h2 m rr tk])
      {
        assume pf: "\<not> act_path_update_fault e"
        show "task_acts (snd (GeneratePDFForAct s e w taskID)) taskID =
                     [a0\<lparr>act_document_path :=
                          filepath_Join (StoragePath s)
                            (act_filename taskID (now_name e))\<rparr>]"
          by (rule GeneratePDFForAct_fresh_doc(2) [OF h1 h2 m rr tk pf])
      }
    }
  }
qed

lemma T0_formats:
  "format_date T0 = ''09.03.2026''" "format_datetime T0 = ''09.03.2026 14:05''"
  "act_filename 1 T0 = ''act_1_20260309_140507.pdf''"
  by code_simp+

lemma show_int_samples: "show_int 1 = ''1''" "show_int 2 = ''2''" "show_int 1975 = ''1975''"
  by code_simp+

lemma Base_sample:
  "filepath_Base ''storage/acts/act_1_20260308_101500.pdf'' = ''act_1_20260308_101500.pdf''"
  by code_simp

lemma W_nodoc_facts:
  "task_acts W_nodoc 1 = [A0]" "act_document_path A0 = []" "task_results W_nodoc 1 = []"
  by (simp_all add: W_nodoc_def W_review_def W0_def task_acts_def A0_def A1_def task_results_def)

lemma E0_render_faults:
  "\<not> results_query_fault E0" "\<not> write_file_fault E0" "\<not> read_file_fault E0"
  "\<not> font_regular_fault E0" "\<not> font_bold_fault E0" "\<not> pdf_output_fault E0"
  "now_sign E0 = T0" "now_name E0 = T0"
  by (simp_all add: E0_def)

lemma W_nodoc_graph:
  "load_act_edges W_nodoc A0 =
     \<lparr>ag_act = A0, ag_task = Some (Task1\<lparr>task_status := StatusOnReview\<rparr>),
      ag_inspector = Some \<lparr>user_first_name = ''Ivan'', user_last_name = ''Petrov'',
                            user_email = ''ivan@example.org''\<rparr>,
      ag_building = Some \<lparr>building_address = ''Lenina 1'', building_construction_year = 1975,
                           building_district_id = 1, building_jkh_unit_id = 1\<rparr>,
      ag_district = Some ''Central'', ag_jkh_unit = Some ''Unit 1'',
      ag_checklist = Some \<lparr>checklist_title = ''Spring'', checklist_inspection_type = ''spring''\<rparr>\<rparr>"
  by (simp add: load_act_edges_def W_nodoc_def W_review_def W0_def A0_def A1_def Task1_def Let_def)

lemma zero_time_not_T0: "\<not> IsZero zero_time \<longleftrightarrow> False" "IsZero zero_time"
  by (simp_all add: IsZero_def)

lemma W_nodoc_render:
  "generatePDF E0 (load_act_edges W_nodoc A0) (task_results W_nodoc 1) =
     Inr (DocFresh, ''act_1_20260309_140507.pdf'')"
  unfolding W_nodoc_graph W_nodoc_facts(3)
  by (simp add: generatePDF_def E0_render_faults info_section_def building_section_def
      checklist_section_def A0_def A1_def Task1_def T0_formats show_int_samples IsZero_def
      DocFresh_def Let_def)


lemma W_doc_read:
  "act_document_path A1 \<noteq> []" "os_ReadFile E0 W_doc (act_document_path A1) = Some Doc1"
  "filepath_Base (act_document_path A1) = ''act_1_20260308_101500.pdf''"
  by (simp_all add: A1_def os_ReadFile_def E0_render_faults W_doc_def W_review_def Base_sample)

lemma E3_faults:
  "\<not> act_query_fault E3" "\<not> results_query_fault E3" "write_file_fault E3"
  by (simp_all add: E3_def E0_def)

lemma generatePDF_env:
  assumes "font_regular_fault e' = font_regular_fault e" and "font_bold_fault e' = font_bold_fault e"
    and "pdf_output_fault e' = pdf_output_fault e" and "now_sign e' = now_sign e"
    and "now_name e' = now_name e"
  shows "generatePDF e' act rs = generatePDF e act rs"
  unfolding generatePDF_def assms by (rule refl)

lemma E3_render:
  "generatePDF E3 (load_act_edges W_nodoc A0) (task_results W_nodoc 1) =
     generatePDF E0 (load_act_edges W_nodoc A0) (task_results W_nodoc 1)"
  by (rule generatePDF_env) (simp_all add: E3_def)

lemma T0_not_zero: "\<not> IsZero T0"
  by (simp add: IsZero_def T0_def zero_time_def)

lemma E0_approve_faults:
  "\<not> act_update_fault E0" "\<not> remove_file_fault E0" "now_approve E0 = T0" "render_ready E0"
  by (simp_all add: E0_def render_ready_def)

lemma W_rows_facts:
  "task_acts W_rows 1 = [A0]"
  "tasks W_rows 1 = Some (Task1\<lparr>task_status := StatusOnReview\<rparr>)"
  "load_act_edges W_rows A0 = load_act_edges W_nodoc A0"
  by (simp_all add: W_rows_def W_nodoc_def W_review_def W0_def task_acts_def A0_def A1_def
      load_act_edges_def Let_def)

lemma W_rows_results:
  "map rg_result (task_results W_rows 1) = [R_walls, R_roof]"
  "map result_order_index (task_results W_rows 1) = [2, 1]"
  "result_rows 0 (task_results W_rows 1) = doc_rows DocRows"
  "length (task_results W_rows 1) = 2"
  by (simp_all add: task_results_def W_rows_def W_nodoc_def W_review_def W0_def R_walls_def
      R_roof_def load_result_edges_def result_order_index_def Let_def show_int_samples
      DocRows_def)

lemma W_rows_render:
  "generatePDF E0 (load_act_edges W_rows A0) (task_results W_rows 1) =
     Inr (DocRows, ''act_1_20260309_140507.pdf'')"
  unfolding W_rows_facts(3) W_nodoc_graph
  by (simp add: generatePDF_def W_rows_results(3) E0_render_faults info_section_def
      building_section_def checklist_section_def A0_def A1_def Task1_def T0_formats
      show_int_samples IsZero_def DocRows_def DocFresh_def Let_def)

lemma W_rows_spec:
  "spec_rows W_rows 1 =
     [\<lparr>row_number = ''1'', row_element = ''Roof'',
       row_condition = condition_label ConditionSound, row_comment = []\<rparr>,
      \<lparr>row_number = ''2'', row_element = ''Walls'',
       row_condition = condition_label ConditionSatisfactory,
       row_comment = ''hairline cracks''\<rparr>]"
  by (simp add: spec_rows_def task_results_def W_rows_def W_nodoc_def W_review_def W0_def
      R_walls_def R_roof_def load_result_edges_def result_order_index_def Let_def
      show_int_samples)

lemma W_sorted_results:
  "map result_order_index (task_results W_sorted 1) = [1, 2]"
  "result_rows 0 (task_results W_sorted 1) =
     [\<lparr>row_number = ''1'', row_element = ''Roof'',
       row_condition = condition_label ConditionSound, row_comment = []\<rparr>,
      \<lparr>row_number = ''2'', row_element = ''Walls'',
       row_condition = condition_label ConditionSatisfactory,
       row_comment = ''hairline cracks''\<rparr>]"
  by (simp_all add: task_results_def W_sorted_def W_nodoc_def W_review_def W0_def R_walls_def
      R_roof_def load_result_edges_def result_order_index_def Let_def show_int_samples)

lemma W_doc_rows_facts:
  "task_acts W_doc_rows 1 = [A1]"
  "tasks W_doc_rows 1 = Some (Task1\<lparr>task_status := StatusOnReview\<rparr>)"
  "act_document_path A1 = ''storage/acts/act_1_20260308_101500.pdf''"
  by (simp_all add: W_doc_rows_def W_doc_def W_review_def W0_def task_acts_def A1_def)

lemma W_doc_rows_graph:
  "approved_graph E0 W_doc_rows A1 =
     \<lparr>ag_act = approve_fields T0 A1, ag_task = Some (Task1\<lparr>task_status := StatusOnReview\<rparr>),
      ag_inspector = Some \<lparr>user_first_name = ''Ivan'', user_last_name = ''Petrov'',
                            user_email = ''ivan@example.org''\<rparr>,
      ag_building = Some \<lparr>building_address = ''Lenina 1'', building_construction_year = 1975,
                           building_district_id = 1, building_jkh_unit_id = 1\<rparr>,
      ag_district = Some ''Central'', ag_jkh_unit = Some ''Unit 1'',
      ag_checklist = Some \<lparr>checklist_title = ''Spring'', checklist_inspection_type = ''spring''\<rparr>\<rparr>"
  by (simp add: approved_graph_def load_act_edges_def W_doc_rows_def W_doc_def W_review_def
      W0_def A1_def Task1_def Let_def E0_approve_faults(3))

lemma W_doc_rows_results:
  "result_rows 0 (task_results W_doc_rows 1) = doc_rows DocApproved"
  by (simp add: task_results_def W_doc_rows_def W_doc_def W_review_def W0_def R_walls_def
      R_roof_def load_result_edges_def Let_def show_int_samples DocApproved_def)

lemma W_doc_rows_render:
  "generatePDF E0 (approved_graph E0 W_doc_rows A1) (task_results W_doc_rows 1) =
     Inr (DocApproved, ''act_1_20260309_140507.pdf'')"
  unfolding W_doc_rows_graph
  by (simp add: generatePDF_def W_doc_rows_results E0_render_faults info_section_def
      building_section_def checklist_section_def approve_fields_def A1_def Task1_def
      T0_formats show_int_samples T0_not_zero approved_conclusion_nonempty DocApproved_def
      Let_def)

theorem GeneratePDFForAct_cache_or_render_witness:
  "GeneratePDFForAct S0 E0 W0 1 = (Inl ErrActNotFound, W0)
   \<and> GeneratePDFForAct S0 E0 W_doc 1 = (Inr (Doc1, ''act_1_20260308_101500.pdf''), W_doc)
   \<and> map rg_result (task_results W_rows 1) = [R_walls, R_roof]
   \<and> fst (GeneratePDFForAct S0 E0 W_rows 1) = Inr (DocRows, ''act_1_20260309_140507.pdf'')
   \<and> doc_rows DocRows = result_rows 0 (task_results W_rows 1)
   \<and> map row_element (doc_rows DocRows) = [''Walls'', ''Roof'']
   \<and> files (snd (GeneratePDFForAct S0 E0 W_rows 1)) ''storage/acts/act_1_20260309_140507.pdf''
       = Some DocRows
   \<and> task_acts (snd (GeneratePDFForAct S0 E0 W_rows 1)) 1 =
       [A0\<lparr>act_document_path := ''storage/acts/act_1_20260309_140507.pdf''\<rparr>]
   \<and> GeneratePDFForAct S0 E0 (snd (GeneratePDFForAct S0 E0 W_rows 1)) 1 =
       (Inr (DocRows, ''act_1_20260309_140507.pdf''), snd (GeneratePDFForAct S0 E0 W_rows 1))
   \<and> fst (GeneratePDFForAct S0 E3 W_nodoc 1) = Inl ErrSavePDF"
proof -
  have fp: "filepath_Join (StoragePath S0) ''act_1_20260309_140507.pdf'' =
      ''storage/acts/act_1_20260309_140507.pdf''"
    by (simp add: filepath_Join_def S0_def)
  have miss0: "act_document_path A0 = [] \<or> os_ReadFile E0 W_rows (act_document_path A0) = None"
    and miss3: "act_document_path A0 = [] \<or> os_ReadFile E3 W_nodoc (act_document_path A0) = None"
    by (simp_all add: W_nodoc_facts(2))
  note absent = GeneratePDFForAct_cache_or_render
    [where e = E0 and w = W0 and taskID = 1 and s = S0]
  note hit = GeneratePDFForAct_cache_or_render
    [where e = E0 and w = W_doc and taskID = 1 and s = S0 and ?a0.0 = A1 and data = Doc1]
  note fresh = GeneratePDFForAct_cache_or_render
    [where e = E0 and w = W_rows and taskID = 1 and s = S0 and ?a0.0 = A0 and doc = DocRows
       and fn = "''act_1_20260309_140507.pdf''" and ?e2.0 = E0
       and t = "Task1\<lparr>task_status := StatusOnReview\<rparr>"]
  note fail = GeneratePDFForAct_cache_or_render
    [where e = E3 and w = W_nodoc and taskID = 1 and s = S0 and ?a0.0 = A0 and doc = DocFresh
       and fn = "''act_1_20260309_140507.pdf''"]
  have c1: "GeneratePDFForAct S0 E0 W0 1 = (Inl ErrActNotFound, W0)"
    using absent E0_act_faults(1) W0_acts(1) by blast
  have "GeneratePDFForAct S0 E0 W_doc 1 = (Inr (Doc1, filepath_Base (act_document_path A1)), W_doc)"
    using hit E0_act_faults(1) W_doc_acts(1) W_doc_read(1) W_doc_read(2) by blast
  then have c2: "GeneratePDFForAct S0 E0 W_doc 1 = (Inr (Doc1, ''act_1_20260308_101500.pdf''), W_doc)"
    by (simp add: W_doc_read(3))
  have c3: "fst (GeneratePDFForAct S0 E0 W_rows 1) = Inr (DocRows, ''act_1_20260309_140507.pdf'')"
    using fresh E0_act_faults(1) W_rows_facts(1) miss0 E0_render_faults(1) W_rows_render
      E0_render_faults(2) by blast
  have "\<exists>d. fst (GeneratePDFForAct S0 E0 W_rows 1) = Inr (d, act_filename 1 (now_name E0))
      \<and> doc_rows d = result_rows 0 (task_results W_rows 1)"
    using fresh E0_act_faults(1) W_rows_facts(1) miss0 E0_approve_faults(4) W_rows_facts(2)
    by blast
  then have r1: "doc_rows DocRows = result_rows 0 (task_results W_rows 1)"
    unfolding c3 by simp
  have r2: "map row_element (doc_rows DocRows) = [''Walls'', ''Roof'']"
    by (simp add: DocRows_def)
  have "files (snd (GeneratePDFForAct S0 E0 W_rows 1))
      (filepath_Join (StoragePath S0) ''act_1_20260309_140507.pdf'') = Some DocRows"
    using fresh E0_act_faults(1) W_rows_facts(1) miss0 E0_render_faults(1) W_rows_render
      E0_render_faults(2) by blast
  then have c4: "files (snd (GeneratePDFForAct S0 E0 W_rows 1))
      ''storage/acts/act_1_20260309_140507.pdf'' = Some DocRows"
    by (simp add: fp)
  have "task_acts (snd (GeneratePDFForAct S0 E0 W_rows 1)) 1 =
      [A0\<lparr>act_document_path := filepath_Join (StoragePath S0) ''act_1_20260309_140507.pdf''\<rparr>]"
    using fresh E0_act_faults(1) W_rows_facts(1) miss0 E0_render_faults(1) W_rows_render
      E0_render_faults(2) E0_act_faults(4) by blast
  then have c5: "task_acts (snd (GeneratePDFForAct S0 E0 W_rows 1)) 1 =
      [A0\<lparr>act_document_path := ''storage/acts/act_1_20260309_140507.pdf''\<rparr>]"
    by (simp add: fp)
  have c6: "GeneratePDFForAct S0 E0 (snd (GeneratePDFForAct S0 E0 W_rows 1)) 1 =
       (Inr (DocRows, ''act_1_20260309_140507.pdf''), snd (GeneratePDFForAct S0 E0 W_rows 1))"
    using fresh E0_act_faults(1) W_rows_facts(1) miss0 E0_render_faults(1) W_rows_render
      E0_render_faults(2) E0_act_faults(4) E0_render_faults(3) by blast
  have g3: "generatePDF E3 (load_act_edges W_nodoc A0) (task_results W_nodoc 1) =
      Inr (DocFresh, ''act_1_20260309_140507.pdf'')"
    by (simp add: E3_render W_nodoc_render)
  have c7: "fst (GeneratePDFForAct S0 E3 W_nodoc 1) = Inl ErrSavePDF"
    using fail E3_faults(1) W_nodoc_facts(1) miss3 E3_faults(2) g3 E3_faults(3) by blast
  show ?thesis
    by (intro conjI c1 c2 W_rows_results(1) c3 r1 r2 c4 c5 c6 c7)
qed

theorem ApproveAct_commits_then_regenerates_witness:
  "task_acts W0 1 = [] \<and> ApproveAct S0 E0 W0 1 = (Inl ErrActNotFound, W0)
   \<and> task_acts W_doc 1 = [A1] \<and> results_query_fault E2
   \<and> fst (ApproveAct S0 E2 W_doc 1) = Inr ()
   \<and> task_acts (snd (ApproveAct S0 E2 W_doc 1)) 1 = [approve_fields T0 A1]
   \<and> last (logs (snd (ApproveAct S0 E2 W_doc 1))) = LogFetchResultsFailed
   \<and> files (snd (ApproveAct S0 E2 W_doc 1)) ''storage/acts/act_1_20260308_101500.pdf'' = None
   \<and> task_acts W_doc_rows 1 = [A1] \<and> render_ready E0
   \<and> fst (ApproveAct S0 E0 W_doc_rows 1) = Inr ()
   \<and> files (snd (ApproveAct S0 E0 W_doc_rows 1)) ''storage/acts/act_1_20260309_140507.pdf''
       = Some DocApproved
   \<and> doc_rows DocApproved = result_rows 0 (task_results W_doc_rows 1)
   \<and> map row_element (doc_rows DocApproved) = [''Walls'', ''Roof'']
   \<and> files (snd (ApproveAct S0 E0 W_doc_rows 1)) ''storage/acts/act_1_20260308_101500.pdf'' = None
   \<and> task_acts (snd (ApproveAct S0 E0 W_doc_rows 1)) 1 =
       [(approve_fields T0 A1)\<lparr>act_document_path := ''storage/acts/act_1_20260309_140507.pdf''\<rparr>]"
proof -
  have fp: "filepath_Join (StoragePath S0) ''act_1_20260309_140507.pdf'' =
      ''storage/acts/act_1_20260309_140507.pdf''"
    by (simp add: filepath_Join_def S0_def)
  have fn: "act_filename 1 (now_name E0) = ''act_1_20260309_140507.pdf''"
    by (simp only: E0_render_faults(8) T0_formats(3))
  note absent = ApproveAct_commits_then_regenerates
    [where e = E0 and w = W0 and taskID = 1 and s = S0]
  note present = ApproveAct_commits_then_regenerates
    [where e = E2 and w = W_doc and taskID = 1 and s = S0 and ?a0.0 = A1]
  note regen = ApproveAct_commits_then_regenerates
    [where e = E0 and w = W_doc_rows and taskID = 1 and s = S0 and ?a0.0 = A1
       and doc = DocApproved and fn = "''act_1_20260309_140507.pdf''"
       and t = "Task1\<lparr>task_status := StatusOnReview\<rparr>"]
  have nf: "ApproveAct S0 E0 W0 1 = (Inl ErrActNotFound, W0)"
    using absent E0_act_faults(1) W0_acts(1) by blast
  have ok: "fst (ApproveAct S0 E2 W_doc 1) = Inr ()"
    using present E2_faults(1) E2_faults(2) W_doc_acts(1) by blast
  have lg: "last (logs (snd (ApproveAct S0 E2 W_doc 1))) = LogFetchResultsFailed"
    using present E2_faults(1) E2_faults(2) E2_faults(3) W_doc_acts(1) by blast
  have row: "task_acts (snd (ApproveAct S0 E2 W_doc 1)) 1 = [approve_fields T0 A1]"
    unfolding W_doc_approved_failing_fetch
    by (simp add: task_acts_def approved_world_def W_doc_acts(2) E2_faults(5)
        approve_fields_def A1_def)
  have p: "act_document_path (ag_act (approved_graph E2 W_doc A1)) =
      ''storage/acts/act_1_20260308_101500.pdf''"
    by (simp add: A1_def)
  have gone: "files (snd (ApproveAct S0 E2 W_doc 1)) ''storage/acts/act_1_20260308_101500.pdf'' = None"
    unfolding W_doc_approved_failing_fetch
    using remove_draft_files [of "approved_graph E2 W_doc A1" E2 "approved_world E2 W_doc A1"]
      E2_faults(4) p
    by simp
  have ok2: "fst (ApproveAct S0 E0 W_doc_rows 1) = Inr ()"
    using regen E0_act_faults(1) E0_approve_faults(1) W_doc_rows_facts(1) by blast
  have "files (snd (ApproveAct S0 E0 W_doc_rows 1))
      (filepath_Join (StoragePath S0) ''act_1_20260309_140507.pdf'') = Some DocApproved"
    using regen E0_act_faults(1) E0_approve_faults(1) W_doc_rows_facts(1) E0_render_faults(1)
      W_doc_rows_render E0_render_faults(2) E0_act_faults(4) by blast
  then have stored: "files (snd (ApproveAct S0 E0 W_doc_rows 1))
      ''storage/acts/act_1_20260309_140507.pdf'' = Some DocApproved"
    by (simp only: fp)
  have "\<exists>d. files (snd (ApproveAct S0 E0 W_doc_rows 1))
        (filepath_Join (StoragePath S0) (act_filename 1 (now_name E0))) = Some d
      \<and> doc_rows d = result_rows 0 (task_results W_doc_rows 1)"
    using regen E0_act_faults(1) E0_approve_faults(1) W_doc_rows_facts(1) E0_approve_faults(4)
      E0_act_faults(4) W_doc_rows_facts(2) by blast
  then have r1: "doc_rows DocApproved = result_rows 0 (task_results W_doc_rows 1)"
    unfolding fn fp stored by simp
  have r2: "map row_element (doc_rows DocApproved) = [''Walls'', ''Roof'']"
    by (simp add: DocApproved_def)
  have "task_acts (snd (ApproveAct S0 E0 W_doc_rows 1)) 1 =
      [(approve_fields (now_approve E0) A1)
         \<lparr>act_document_path := filepath_Join (StoragePath S0) ''act_1_20260309_140507.pdf''\<rparr>]"
    using regen E0_act_faults(1) E0_approve_faults(1) W_doc_rows_facts(1) E0_render_faults(1)
      W_doc_rows_render E0_render_faults(2) E0_act_faults(4) by blast
  then have ptr: "task_acts (snd (ApproveAct S0 E0 W_doc_rows 1)) 1 =
      [(approve_fields T0 A1)\<lparr>act_document_path := ''storage/acts/act_1_20260309_140507.pdf''\<rparr>]"
    by (simp only: fp E0_approve_faults(3))
  have old: "files (snd (ApproveAct S0 E0 W_doc_rows 1)) (act_document_path A1) = None
      \<or> (\<exists>doc fn. generatePDF E0 (approved_graph E0 W_doc_rows A1) (task_results W_doc_rows 1)
                     = Inr (doc, fn)
            \<and> act_document_path A1 = filepath_Join (StoragePath S0) fn)"
    using regen E0_act_faults(1) E0_approve_faults(1) W_doc_rows_facts(1) W_doc_read(1)
      E0_approve_faults(2) by blast
  have "\<not> (\<exists>doc fn. generatePDF E0 (approved_graph E0 W_doc_rows A1) (task_results W_doc_rows 1)
                     = Inr (doc, fn)
            \<and> act_document_path A1 = filepath_Join (StoragePath S0) fn)"
    unfolding W_doc_rows_render
    by (simp add: W_doc_rows_facts(3) filepath_Join_def S0_def)
  then have "files (snd (ApproveAct S0 E0 W_doc_rows 1)) (act_document_path A1) = None"
    using old by blast
  then have gone2: "files (snd (ApproveAct S0 E0 W_doc_rows 1))
      ''storage/acts/act_1_20260308_101500.pdf'' = None"
    by (simp only: W_doc_rows_facts(3))
  show ?thesis
    by (intro conjI W0_acts(1) nf W_doc_acts(1) E2_faults(3) ok row lg gone
        W_doc_rows_facts(1) E0_approve_faults(4) ok2 stored r1 r2 gone2 ptr)
qed

section \<open>Submitting a task\<close>

lemma CreateOrUpdateAct_results:
  "CreateOrUpdateAct e (w\<lparr>results := rs\<rparr>) taskID c =
     (fst (CreateOrUpdateAct e w taskID c), (snd (CreateOrUpdateAct e w taskID c))\<lparr>results := rs\<rparr>)"
  by (auto simp: CreateOrUpdateAct_def act_Query_Only_def act_UpdateOne_Save_def
      act_Create_Save_def Let_def log_Printf_def split: sum.splits option.splits)

lemma on_review_effect_alt:
  "on_review_effect e w taskID =
     log_Printf
       (case fst (CreateOrUpdateAct e (snd (NewInspectionActService e w ''storage/acts''))
                    taskID submit_conclusion) of
          Inl err \<Rightarrow> LogCreateActFailed taskID
        | Inr act \<Rightarrow> LogActCreated taskID)
       (snd (CreateOrUpdateAct e (snd (NewInspectionActService e w ''storage/acts''))
               taskID submit_conclusion))"
  by (simp add: on_review_effect_def split: prod.splits sum.splits)

lemma on_review_effect_results:
  "on_review_effect e (w\<lparr>results := rs\<rparr>) taskID = (on_review_effect e w taskID)\<lparr>results := rs\<rparr>"
proof -
  have n: "snd (NewInspectionActService e (w\<lparr>results := rs\<rparr>) ''storage/acts'') =
      (snd (NewInspectionActService e w ''storage/acts''))\<lparr>results := rs\<rparr>"
    by (simp add: NewInspectionActService_def log_Printf_def)
  show ?thesis
    unfolding on_review_effect_alt n CreateOrUpdateAct_results
    by (simp add: log_Printf_def)
qed

lemma UpdateTaskStatus_submit_results:
  assumes "\<not> task_query_fault e" and "\<not> task_update_fault e"
    and "tasks w taskID = Some t" and "task_status t = StatusInProgress"
  shows "UpdateTaskStatus e (w\<lparr>results := rs\<rparr>) taskID StatusOnReview =
     (Inr (), (snd (UpdateTaskStatus e w taskID StatusOnReview))\<lparr>results := rs\<rparr>)"
proof -
  have allowed: "StatusOnReview \<in> spec_allowed_targets (task_status t)"
    using assms(4) by (simp add: spec_allowed_targets_def)
  have t': "tasks (w\<lparr>results := rs\<rparr>) taskID = Some t"
    using assms(3) by simp
  have comm: "w\<lparr>results := rs, tasks := (tasks w)(taskID \<mapsto>
        t\<lparr>task_status := StatusOnReview, task_updated_at := db_now e\<rparr>)\<rparr>
      = w\<lparr>tasks := (tasks w)(taskID \<mapsto>
        t\<lparr>task_status := StatusOnReview, task_updated_at := db_now e\<rparr>), results := rs\<rparr>"
    by simp
  show ?thesis
    unfolding UpdateTaskStatus_allowed [OF assms(1) assms(2) t' allowed]
      UpdateTaskStatus_allowed [OF assms(1) assms(2) assms(3) allowed]
    by (simp add: Let_def comm on_review_effect_results)
qed

lemma UpdateTaskStatus_submit_acts:
  assumes "\<not> task_query_fault e" and "\<not> task_update_fault e"
    and "tasks w taskID = Some t" and "StatusOnReview \<in> spec_allowed_targets (task_status t)"
  shows "acts (snd (UpdateTaskStatus e w taskID StatusOnReview)) =
      acts (snd (CreateOrUpdateAct e w taskID submit_conclusion))"
proof -
  let ?w1 = "w\<lparr>tasks := (tasks w)(taskID \<mapsto>
      t\<lparr>task_status := StatusOnReview, task_updated_at := db_now e\<rparr>)\<rparr>"
  have "snd (UpdateTaskStatus e w taskID StatusOnReview) = on_review_effect e ?w1 taskID"
    by (simp add: UpdateTaskStatus_allowed [OF assms] Let_def)
  then have "acts (snd (UpdateTaskStatus e w taskID StatusOnReview)) =
      acts (snd (CreateOrUpdateAct e ?w1 taskID submit_conclusion))"
    by (simp add: acts_on_review_effect)
  also have "\<dots> = acts (snd (CreateOrUpdateAct e w taskID submit_conclusion))"
    by (rule CreateOrUpdateAct_acts_frame) simp_all
  finally show ?thesis .
qed

lemma UpdateTaskStatus_submit_tasks:
  assumes "\<not> task_query_fault e" and "\<not> task_update_fault e"
    and "tasks w taskID = Some t" and "StatusOnReview \<in> spec_allowed_targets (task_status t)"
  shows "tasks (snd (UpdateTaskStatus e w taskID StatusOnReview)) =
      (tasks w)(taskID \<mapsto> t\<lparr>task_status := StatusOnReview, task_updated_at := db_now e\<rparr>)"
  by (simp add: UpdateTaskStatus_allowed [OF assms] Let_def)

text \<open>
  C10. Submitting needs no results. For every task in progress (the task lookup and the
  status update answered) and every content \<open>rs\<close> of the result table - the empty
  table among them - the transition to \<open>OnReview\<close> succeeds, and the handler
  \<^verbatim>\<open>SubmitTask\<close> answers 200 and leaves the database as that transition leaves it:
  the task row is under review, stamped with the time of the update, and the result table
  is still \<open>rs\<close>. The result table is neither read nor written on this path: the
  outcome for the table \<open>rs\<close> is the outcome for any other table with \<open>rs\<close> put back.
  With no results at all the act draft is still created, when the act table can be
  queried and written: after the handler has run, the task's only act row is the draft
  with the submit conclusion.
\<close>

theorem submit_ignores_results:
  assumes "\<not> task_query_fault e" and "\<not> task_update_fault e"
    and "tasks w taskID = Some t" and "task_status t = StatusInProgress"
  shows "fst (UpdateTaskStatus e (w\<lparr>results := rs\<rparr>) taskID StatusOnReview) = Inr ()
    \<and> fst (SubmitTask e (w\<lparr>results := rs\<rparr>) (Some taskID)) = 200
    \<and> tasks (snd (UpdateTaskStatus e (w\<lparr>results := rs\<rparr>) taskID StatusOnReview)) taskID =
        Some (t\<lparr>task_status := StatusOnReview, task_updated_at := db_now e\<rparr>)
    \<and> snd (UpdateTaskStatus e (w\<lparr>results := rs\<rparr>) taskID StatusOnReview) =
        (snd (UpdateTaskStatus e w taskID StatusOnReview))\<lparr>results := rs\<rparr>
    \<and> (\<not> act_query_fault e \<and> \<not> act_create_fault e \<and> task_acts w taskID = [] \<longrightarrow>
        task_acts (snd (UpdateTaskStatus e (w\<lparr>results := []\<rparr>) taskID StatusOnReview)) taskID =
          [draft_act e w taskID submit_conclusion])
    \<and> SubmitTask e (w\<lparr>results := rs\<rparr>) (Some taskID) =
        (200, snd (UpdateTaskStatus e (w\<lparr>results := rs\<rparr>) taskID StatusOnReview))
    \<and> tasks (snd (SubmitTask e (w\<lparr>results := rs\<rparr>) (Some taskID))) taskID =
        Some (t\<lparr>task_status := StatusOnReview, task_updated_at := db_now e\<rparr>)
    \<and> results (snd (SubmitTask e (w\<lparr>results := rs\<rparr>) (Some taskID))) = rs
    \<and> snd (SubmitTask e (w\<lparr>results := rs\<rparr>) (Some taskID)) =
        (snd (SubmitTask e w (Some taskID)))\<lparr>results := rs\<rparr>
    \<and> (\<not> act_query_fault e \<and> \<not> act_create_fault e \<and> task_acts w taskID = [] \<longrightarrow>
        task_acts (snd (SubmitTask e (w\<lparr>results := []\<rparr>) (Some taskID))) taskID =
          [draft_act e w taskID submit_conclusion])"
proof -
  note eq = UpdateTaskStatus_submit_results [OF assms]
  have allowed: "StatusOnReview \<in> spec_allowed_targets (task_status t)"
    using assms(4) by (simp add: spec_allowed_targets_def)
  have plain: "fst (UpdateTaskStatus e w taskID StatusOnReview) = Inr ()"
    by (simp add: UpdateTaskStatus_allowed [OF assms(1) assms(2) assms(3) allowed])
  have c1: "fst (UpdateTaskStatus e (w\<lparr>results := rs\<rparr>) taskID StatusOnReview) = Inr ()"
    by (simp add: eq)
  have c2: "fst (SubmitTask e (w\<lparr>results := rs\<rparr>) (Some taskID)) = 200"
    by (simp add: SubmitTask_def eq)
  have "tasks (snd (UpdateTaskStatus e w taskID StatusOnReview)) =
      (tasks w)(taskID \<mapsto> t\<lparr>task_status := StatusOnReview, task_updated_at := db_now e\<rparr>)"
    by (rule UpdateTaskStatus_submit_tasks [OF assms(1) assms(2) assms(3) allowed])
  then have c3: "tasks (snd (UpdateTaskStatus e (w\<lparr>results := rs\<rparr>) taskID StatusOnReview)) taskID =
        Some (t\<lparr>task_status := StatusOnReview, task_updated_at := db_now e\<rparr>)"
    by (simp add: eq)
  have c4: "snd (UpdateTaskStatus e (w\<lparr>results := rs\<rparr>) taskID StatusOnReview) =
        (snd (UpdateTaskStatus e w taskID StatusOnReview))\<lparr>results := rs\<rparr>"
    by (simp add: eq)
  have c5: "task_acts (snd (UpdateTaskStatus e (w\<lparr>results := []\<rparr>) taskID StatusOnReview)) taskID =
          [draft_act e w taskID submit_conclusion]"
    if h: "\<not> act_query_fault e \<and> \<not> act_create_fault e \<and> task_acts w taskID = []"
  proof -
    have "acts (snd (UpdateTaskStatus e w taskID StatusOnReview)) =
        acts (snd (CreateOrUpdateAct e w taskID submit_conclusion))"
      by (rule UpdateTaskStatus_submit_acts [OF assms(1) assms(2) assms(3) allowed])
    then have "task_acts (snd (UpdateTaskStatus e w taskID StatusOnReview)) taskID =
        task_acts (snd (CreateOrUpdateAct e w taskID submit_conclusion)) taskID"
      by (simp add: task_acts_def)
    also have "\<dots> = [draft_act e w taskID submit_conclusion]"
      using CreateOrUpdateAct_create [of e w taskID submit_conclusion] h
      by (simp add: task_acts_def draft_act_def)
    finally show ?thesis
      by (simp add: UpdateTaskStatus_submit_results [OF assms, of "[]"] task_acts_def)
  qed
  have s1: "SubmitTask e (w\<lparr>results := rs'\<rparr>) (Some taskID) =
        (200, snd (UpdateTaskStatus e (w\<lparr>results := rs'\<rparr>) taskID StatusOnReview))" for rs'
    by (simp add: SubmitTask_def UpdateTaskStatus_submit_results [OF assms, of rs'])
  have s0: "snd (SubmitTask e w (Some taskID)) = snd (UpdateTaskStatus e w taskID StatusOnReview)"
    using plain by (simp add: SubmitTask_def split: prod.splits sum.splits)
  have c6: "SubmitTask e (w\<lparr>results := rs\<rparr>) (Some taskID) =
        (200, snd (UpdateTaskStatus e (w\<lparr>results := rs\<rparr>) taskID StatusOnReview))"
    by (rule s1)
  have c7: "tasks (snd (SubmitTask e (w\<lparr>results := rs\<rparr>) (Some taskID))) taskID =
        Some (t\<lparr>task_status := StatusOnReview, task_updated_at := db_now e\<rparr>)"
    unfolding s1 using c3 by simp
  have c8: "results (snd (SubmitTask e (w\<lparr>results := rs\<rparr>) (Some taskID))) = rs"
    unfolding s1 by (simp add: eq)
  have c9: "snd (SubmitTask e (w\<lparr>results := rs\<rparr>) (Some taskID)) =
        (snd (SubmitTask e w (Some taskID)))\<lparr>results := rs\<rparr>"
    unfolding s1 s0 by (simp add: eq)
  have c10: "task_acts (snd (SubmitTask e (w\<lparr>results := []\<rparr>) (Some taskID))) taskID =
          [draft_act e w taskID submit_conclusion]"
    if h: "\<not> act_query_fault e \<and> \<not> act_create_fault e \<and> task_acts w taskID = []"
    unfolding s1 using c5 [OF h] by simp
  have i5: "\<not> act_query_fault e \<and> \<not> act_create_fault e \<and> task_acts w taskID = [] \<longrightarrow>
        task_acts (snd (UpdateTaskStatus e (w\<lparr>results := []\<rparr>) taskID StatusOnReview)) taskID =
          [draft_act e w taskID submit_conclusion]"
    using c5 by (rule impI)
  have i10: "\<not> act_query_fault e \<and> \<not> act_create_fault e \<and> task_acts w taskID = [] \<longrightarrow>
        task_acts (snd (SubmitTask e (w\<lparr>results := []\<rparr>) (Some taskID))) taskID =
          [draft_act e w taskID submit_conclusion]"
    using c10 by (rule impI)
  show ?thesis
    by (intro conjI c1 c2 c3 c4 i5 c6 c7 c8 c9 i10)
qed


lemma W0_no_results: "results W0 = []" "W0\<lparr>results := []\<rparr> = W0"
  by (simp_all add: W0_def)

theorem submit_ignores_results_witness:
  "results W0 = [] \<and> tasks W0 1 = Some Task1 \<and> task_status Task1 = StatusInProgress
   \<and> fst (UpdateTaskStatus E0 W0 1 StatusOnReview) = Inr ()
   \<and> fst (SubmitTask E0 W0 (Some 1)) = 200
   \<and> task_acts (snd (UpdateTaskStatus E0 W0 1 StatusOnReview)) 1 =
       [draft_act E0 W0 1 submit_conclusion]
   \<and> tasks (snd (SubmitTask E0 W0 (Some 1))) 1 =
       Some (Task1\<lparr>task_status := StatusOnReview, task_updated_at := T0\<rparr>)
   \<and> results (snd (SubmitTask E0 W0 (Some 1))) = []
   \<and> task_acts (snd (SubmitTask E0 W0 (Some 1))) 1 =
       [\<lparr>act_id = 1, act_task_id = 1, act_created_at = T0, act_approved_at = zero_time,
         act_status = status_created, act_conclusion = submit_conclusion,
         act_document_path = []\<rparr>]"
proof -
  have st: "task_status Task1 = StatusInProgress"
    by (simp add: Task1_def)
  have now: "db_now E0 = T0"
    by (simp add: E0_def)
  have dr: "draft_act E0 W0 1 submit_conclusion =
      \<lparr>act_id = 1, act_task_id = 1, act_created_at = T0, act_approved_at = zero_time,
       act_status = status_created, act_conclusion = submit_conclusion,
       act_document_path = []\<rparr>"
    by (simp add: draft_act_def W0_acts(3) now)
  note th = submit_ignores_results
    [OF E0_task_faults(1) E0_task_faults(2) W0_tasks(1) st, of "[]", unfolded W0_no_results(2)]
  have c1: "fst (UpdateTaskStatus E0 W0 1 StatusOnReview) = Inr ()"
    using th by blast
  have c2: "fst (SubmitTask E0 W0 (Some 1)) = 200"
    using th by blast
  have c3: "task_acts (snd (UpdateTaskStatus E0 W0 1 StatusOnReview)) 1 =
       [draft_act E0 W0 1 submit_conclusion]"
    using th E0_act_faults(1) E0_act_faults(2) W0_acts(1) by blast
  have "tasks (snd (SubmitTask E0 W0 (Some 1))) 1 =
       Some (Task1\<lparr>task_status := StatusOnReview, task_updated_at := db_now E0\<rparr>)"
    using th by blast
  then have c4: "tasks (snd (SubmitTask E0 W0 (Some 1))) 1 =
       Some (Task1\<lparr>task_status := StatusOnReview, task_updated_at := T0\<rparr>)"
    by (simp only: now)
  have c5: "results (snd (SubmitTask E0 W0 (Some 1))) = []"
    using th by blast
  have "task_acts (snd (SubmitTask E0 W0 (Some 1))) 1 = [draft_act E0 W0 1 submit_conclusion]"
    using th E0_act_faults(1) E0_act_faults(2) W0_acts(1) by blast
  then have c6: "task_acts (snd (SubmitTask E0 W0 (Some 1))) 1 =
       [\<lparr>act_id = 1, act_task_id = 1, act_created_at = T0, act_approved_at = zero_time,
         act_status = status_created, act_conclusion = submit_conclusion,
         act_document_path = []\<rparr>]"
    by (simp only: dr)
  show ?thesis
    by (intro conjI W0_no_results(1) W0_tasks(1) st c1 c2 c3 c4 c5 c6)
qed

section \<open>The artifact filename\<close>

lemma of_char_digit_char: "d < 10 \<Longrightarrow> (of_char (digit_char d) :: nat) = 48 + d"
  by (simp add: digit_char_def)

lemma dec_snoc: "dec (s @ [c]) = 10 * dec s + (of_char c - 48)"
  by (simp add: dec_def)

lemma dec_digits10: "dec (digits10 n) = n"
proof (induction n rule: digits10.induct)
  case (1 n)
  show ?case
  proof (cases "n < 10")
    case True
    then show ?thesis
      by (subst digits10.simps) (simp add: dec_def of_char_digit_char)
  next
    case False
    have m: "n mod 10 < 10" by simp
    have "dec (digits10 n) = 10 * dec (digits10 (n div 10)) + (of_char (digit_char (n mod 10)) - 48)"
      using False by (subst digits10.simps) (simp add: dec_snoc)
    also have "\<dots> = 10 * (n div 10) + n mod 10"
      using 1 False by (simp add: of_char_digit_char [OF m])
    finally show ?thesis by simp
  qed
qed


lemma dec_zeros: "dec (replicate k CHR ''0'' @ s) = dec s"
proof (induction k)
  case 0
  show ?case by simp
next
  case (Suc k)
  have "dec (replicate (Suc k) CHR ''0'' @ s) = dec (replicate k CHR ''0'' @ s)"
    by (simp add: dec_def)
  then show ?case by (simp only: Suc)
qed

lemma dec_zero_pad: "dec (zero_pad w n) = n"
  by (simp add: zero_pad_def dec_zeros dec_digits10)

lemma zero_pad_inj:
  assumes "zero_pad w m = zero_pad w n"
  shows "m = n"
proof -
  have "m = dec (zero_pad w m)" by (simp only: dec_zero_pad)
  also have "\<dots> = dec (zero_pad w n)" by (simp only: assms)
  also have "\<dots> = n" by (simp only: dec_zero_pad)
  finally show ?thesis .
qed

lemma length_digits10_small: "n < 100 \<Longrightarrow> length (digits10 n) \<le> 2"
proof -
  assume n: "n < 100"
  show ?thesis
  proof (cases "n < 10")
    case True
    then show ?thesis by (subst digits10.simps) simp
  next
    case False
    have "n div 10 < 10" using n by simp
    then have "length (digits10 (n div 10)) = 1"
      by (subst digits10.simps) simp
    then show ?thesis
      using False by (subst digits10.simps) simp
  qed
qed

lemma length_digits10_pos: "0 < length (digits10 n)"
  by (subst digits10.simps) simp

lemma length_zero_pad2: "n < 100 \<Longrightarrow> length (zero_pad 2 n) = 2"
  using length_digits10_small [of n] length_digits10_pos [of n]
  by (simp add: zero_pad_def)


lemma pad2_append_eq:
  assumes "a < 100" and "b < 100" and "zero_pad 2 a @ xs = zero_pad 2 b @ ys"
  shows "a = b \<and> xs = ys"
proof -
  have "length (zero_pad 2 a) = length (zero_pad 2 b)"
    by (simp only: length_zero_pad2 [OF assms(1)] length_zero_pad2 [OF assms(2)])
  then have "zero_pad 2 a = zero_pad 2 b \<and> xs = ys"
    using assms(3) append_eq_append_conv [of "zero_pad 2 a" "zero_pad 2 b" xs ys] by blast
  then show ?thesis
    using zero_pad_inj [of 2 a b] by blast
qed

lemma format_stamp_inj:
  assumes v1: "valid_time t1" and v2: "valid_time t2"
    and eq: "format_stamp t1 = format_stamp t2"
  shows "stamp_fields t1 = stamp_fields t2"
proof -
  let ?tail = "\<lambda>t. zero_pad 2 (ts_month t) @ zero_pad 2 (ts_day t) @ ''_''
     @ zero_pad 2 (ts_hour t) @ zero_pad 2 (ts_minute t) @ zero_pad 2 (ts_second t)"
  have b1: "ts_month t1 < 100" "ts_day t1 < 100" "ts_hour t1 < 100" "ts_minute t1 < 100"
    "ts_second t1 < 100"
    using v1 by (simp_all add: valid_time_def)
  have b2: "ts_month t2 < 100" "ts_day t2 < 100" "ts_hour t2 < 100" "ts_minute t2 < 100"
    "ts_second t2 < 100"
    using v2 by (simp_all add: valid_time_def)
  have l1: "length (?tail t1) = 11"
    by (simp add: length_zero_pad2 b1)
  have l2: "length (?tail t2) = 11"
    by (simp add: length_zero_pad2 b2)
  have "zero_pad 4 (ts_year t1) @ ?tail t1 = zero_pad 4 (ts_year t2) @ ?tail t2"
    using eq by (simp add: format_stamp_def)
  moreover have "length (?tail t1) = length (?tail t2)"
    by (simp only: l1 l2)
  ultimately have y: "zero_pad 4 (ts_year t1) = zero_pad 4 (ts_year t2)"
    and t: "?tail t1 = ?tail t2"
    using append_eq_append_conv [of "zero_pad 4 (ts_year t1)" "zero_pad 4 (ts_year t2)"
        "?tail t1" "?tail t2"]
    by blast+
  have year: "ts_year t1 = ts_year t2"
    using y by (rule zero_pad_inj)
  from pad2_append_eq [OF b1(1) b2(1) t]
  have month: "ts_month t1 = ts_month t2"
    and t3: "zero_pad 2 (ts_day t1) @ ''_'' @ zero_pad 2 (ts_hour t1) @ zero_pad 2 (ts_minute t1)
        @ zero_pad 2 (ts_second t1)
      = zero_pad 2 (ts_day t2) @ ''_'' @ zero_pad 2 (ts_hour t2) @ zero_pad 2 (ts_minute t2)
        @ zero_pad 2 (ts_second t2)"
    by blast+
  from pad2_append_eq [OF b1(2) b2(2) t3]
  have day: "ts_day t1 = ts_day t2"
    and t4: "''_'' @ zero_pad 2 (ts_hour t1) @ zero_pad 2 (ts_minute t1) @ zero_pad 2 (ts_second t1)
      = ''_'' @ zero_pad 2 (ts_hour t2) @ zero_pad 2 (ts_minute t2) @ zero_pad 2 (ts_second t2)"
    by blast+
  from t4 have t5: "zero_pad 2 (ts_hour t1) @ zero_pad 2 (ts_minute t1) @ zero_pad 2 (ts_second t1)
      = zero_pad 2 (ts_hour t2) @ zero_pad 2 (ts_minute t2) @ zero_pad 2 (ts_second t2)"
    by simp
  from pad2_append_eq [OF b1(3) b2(3) t5]
  have hour: "ts_hour t1 = ts_hour t2"
    and t6: "zero_pad 2 (ts_minute t1) @ zero_pad 2 (ts_second t1)
      = zero_pad 2 (ts_minute t2) @ zero_pad 2 (ts_second t2)"
    by blast+
  from pad2_append_eq [OF b1(4) b2(4) t6]
  have minute: "ts_minute t1 = ts_minute t2"
    and t7: "zero_pad 2 (ts_second t1) = zero_pad 2 (ts_second t2)"
    by blast+
  have second: "ts_second t1 = ts_second t2"
    using t7 by (rule zero_pad_inj)
  show ?thesis
    by (simp add: stamp_fields_def year month day hour minute second)
qed


lemma format_stamp_fields:
  assumes "stamp_fields t1 = stamp_fields t2"
  shows "format_stamp t1 = format_stamp t2"
proof -
  have "ts_year t1 = ts_year t2" "ts_month t1 = ts_month t2" "ts_day t1 = ts_day t2"
    "ts_hour t1 = ts_hour t2" "ts_minute t1 = ts_minute t2" "ts_second t1 = ts_second t2"
    using assms by (simp_all add: stamp_fields_def)
  then show ?thesis
    by (simp only: format_stamp_def)
qed

lemma act_filename_eq_iff:
  assumes "valid_time t1" and "valid_time t2"
  shows "(act_filename taskID t1 = act_filename taskID t2) = (stamp_fields t1 = stamp_fields t2)"
proof
  assume "act_filename taskID t1 = act_filename taskID t2"
  then have "(''act_'' @ show_int taskID @ ''_'') @ format_stamp t1 @ ''.pdf'' =
      (''act_'' @ show_int taskID @ ''_'') @ format_stamp t2 @ ''.pdf''"
    by (simp only: act_filename_def append_assoc)
  then have "format_stamp t1 @ ''.pdf'' = format_stamp t2 @ ''.pdf''"
    by (simp only: same_append_eq)
  then have "format_stamp t1 = format_stamp t2"
    by (simp only: append_same_eq)
  then show "stamp_fields t1 = stamp_fields t2"
    by (rule format_stamp_inj [OF assms])
next
  assume "stamp_fields t1 = stamp_fields t2"
  then have "format_stamp t1 = format_stamp t2"
    by (rule format_stamp_fields)
  then show "act_filename taskID t1 = act_filename taskID t2"
    by (simp only: act_filename_def)
qed

lemma rendered_filename_Some:
  assumes "rendered_filename (generatePDF e act rs) = Some fn"
  shows "fn = act_filename (act_task_id (ag_act act)) (now_name e)"
proof (cases "generatePDF e act rs")
  case (Inl err)
  then show ?thesis using assms by (simp add: rendered_filename_def)
next
  case (Inr r)
  obtain doc fn' where r: "r = (doc, fn')" by (cases r)
  have "fn' = fn" using assms Inr r by (simp add: rendered_filename_def)
  then have "generatePDF e act rs = Inr (doc, fn)" using Inr r by simp
  then show ?thesis by (rule generatePDF_filename)
qed

lemma rendered_filename_ok:
  assumes "ag_task act = Some t" and "\<not> font_regular_fault e" and "\<not> font_bold_fault e"
    and "\<not> pdf_output_fault e"
  shows "rendered_filename (generatePDF e act rs) =
     Some (act_filename (act_task_id (ag_act act)) (now_name e))"
  using assms by (simp add: rendered_filename_def generatePDF_def Let_def)

text \<open>
  C9, as amended. The filename is made of the task id and the time of rendering printed
  down to the second. For two successful renderings of the same task at valid clock
  readings, the filenames are equal exactly when the two readings agree in year, month,
  day, hour, minute and second: renderings in different seconds never share a filename,
  renderings within one second always do.
\<close>

theorem act_filename_unique_per_second:
  assumes "valid_time (now_name e1)" and "valid_time (now_name e2)"
    and "rendered_filename (generatePDF e1 act1 rs1) = Some fn1"
    and "rendered_filename (generatePDF e2 act2 rs2) = Some fn2"
    and "act_task_id (ag_act act1) = act_task_id (ag_act act2)"
  shows "(fn1 = fn2) = (stamp_fields (now_name e1) = stamp_fields (now_name e2))"
  unfolding rendered_filename_Some [OF assms(3)] rendered_filename_Some [OF assms(4)] assms(5)
  by (rule act_filename_eq_iff [OF assms(1) assms(2)])


lemma sample_times:
  "valid_time T0" "valid_time T2" "T0 \<noteq> T1" "stamp_fields T0 \<noteq> stamp_fields T2"
  "stamp_fields T1 = stamp_fields T0"
  by (simp_all add: valid_time_def T0_def T1_def T2_def stamp_fields_def)

lemma T12_filenames:
  "act_filename 1 T1 = ''act_1_20260309_140507.pdf''"
  "act_filename 1 T2 = ''act_1_20260309_140508.pdf''"
proof -
  have "format_stamp T1 = format_stamp T0"
    by (rule format_stamp_fields [OF sample_times(5)])
  then have "act_filename 1 T1 = act_filename 1 T0"
    by (simp only: act_filename_def)
  then show "act_filename 1 T1 = ''act_1_20260309_140507.pdf''"
    by (simp only: T0_formats(3))
  show "act_filename 1 T2 = ''act_1_20260309_140508.pdf''"
    by code_simp
qed

lemma W_nodoc_task:
  "ag_task (load_act_edges W_nodoc A0) = Some (Task1\<lparr>task_status := StatusOnReview\<rparr>)"
  "act_task_id (ag_act (load_act_edges W_nodoc A0)) = 1"
proof -
  show "ag_task (load_act_edges W_nodoc A0) = Some (Task1\<lparr>task_status := StatusOnReview\<rparr>)"
    unfolding W_nodoc_graph by simp
  show "act_task_id (ag_act (load_act_edges W_nodoc A0)) = 1"
    by (simp add: A0_def A1_def)
qed

lemma E45_facts:
  "\<not> font_regular_fault E4" "\<not> font_bold_fault E4" "\<not> pdf_output_fault E4" "now_name E4 = T1"
  "\<not> font_regular_fault E5" "\<not> font_bold_fault E5" "\<not> pdf_output_fault E5" "now_name E5 = T2"
  by (simp_all add: E4_def E5_def E0_def)

lemma sample_filenames:
  "rendered_filename (generatePDF E0 (load_act_edges W_nodoc A0) (task_results W_nodoc 1)) =
     Some ''act_1_20260309_140507.pdf''"
  "rendered_filename (generatePDF E4 (load_act_edges W_nodoc A0) (task_results W_nodoc 1)) =
     Some ''act_1_20260309_140507.pdf''"
  "rendered_filename (generatePDF E5 (load_act_edges W_nodoc A0) (task_results W_nodoc 1)) =
     Some ''act_1_20260309_140508.pdf''"
  unfolding rendered_filename_ok [OF W_nodoc_task(1) E0_render_faults(4) E0_render_faults(5)
      E0_render_faults(6)]
    rendered_filename_ok [OF W_nodoc_task(1) E45_facts(1) E45_facts(2) E45_facts(3)]
    rendered_filename_ok [OF W_nodoc_task(1) E45_facts(5) E45_facts(6) E45_facts(7)]
    W_nodoc_task(2) E0_render_faults(8) E45_facts(4) E45_facts(8) T0_formats(3) T12_filenames
  by (rule refl)+

text \<open>
  C9 as stated fails: two renderings of task 1, half a second apart, produce the same
  filename.
\<close>

theorem act_filename_unique_per_render_counterexample:
  "now_name E0 \<noteq> now_name E4
   \<and> rendered_filename (generatePDF E0 (load_act_edges W_nodoc A0) (task_results W_nodoc 1)) =
       Some ''act_1_20260309_140507.pdf''
   \<and> rendered_filename (generatePDF E4 (load_act_edges W_nodoc A0) (task_results W_nodoc 1)) =
       Some ''act_1_20260309_140507.pdf''"
proof -
  have "now_name E0 \<noteq> now_name E4"
    unfolding E0_render_faults(8) E45_facts(4) by (rule sample_times(3))
  then show ?thesis
    by (intro conjI sample_filenames(1) sample_filenames(2))
qed

theorem act_filename_unique_per_second_witness:
  "valid_time (now_name E0) \<and> valid_time (now_name E5)
   \<and> rendered_filename (generatePDF E0 (load_act_edges W_nodoc A0) (task_results W_nodoc 1)) =
       Some ''act_1_20260309_140507.pdf''
   \<and> rendered_filename (generatePDF E5 (load_act_edges W_nodoc A0) (task_results W_nodoc 1)) =
       Some ''act_1_20260309_140508.pdf''
   \<and> stamp_fields (now_name E0) \<noteq> stamp_fields (now_name E5)
   \<and> ''act_1_20260309_140507.pdf'' \<noteq> ''act_1_20260309_140508.pdf''"
proof -
  have v0: "valid_time (now_name E0)" and v5: "valid_time (now_name E5)"
    and d: "stamp_fields (now_name E0) \<noteq> stamp_fields (now_name E5)"
    unfolding E0_render_faults(8) E45_facts(8)
    by (rule sample_times(1), rule sample_times(2), rule sample_times(4))
  have "(''act_1_20260309_140507.pdf'' = ''act_1_20260309_140508.pdf'') =
      (stamp_fields (now_name E0) = stamp_fields (now_name E5))"
    by (rule act_filename_unique_per_second [OF v0 v5 sample_filenames(1) sample_filenames(3) refl])
  then have neq: "''act_1_20260309_140507.pdf'' \<noteq> ''act_1_20260309_140508.pdf''"
    using d by (simp only: simp_thms)
  show ?thesis
    by (intro conjI v0 v5 sample_filenames(1) sample_filenames(3) d neq)
qed

section \<open>The results table of the document\<close>

lemma result_rows_length [simp]: "length (result_rows k rs) = length rs"
  by (induction rs arbitrary: k) simp_all

lemma result_rows_nth:
  "i < length rs \<Longrightarrow> result_rows k rs ! i = table_row_of (k + i) (rs ! i)"
proof (induction rs arbitrary: k i)
  case Nil
  then show ?case by simp
next
  case (Cons r rs)
  show ?case
  proof (cases i)
    case 0
    then show ?thesis by (simp add: table_row_of_def)
  next
    case (Suc j)
    then have "j < length rs" using Cons.prems by simp
    then have "result_rows (k + 1) rs ! j = table_row_of (k + 1 + j) (rs ! j)"
      by (rule Cons.IH)
    then show ?thesis using Suc by simp
  qed
qed

lemma generatePDF_rows:
  "generatePDF e act rs = Inr (doc, fn) \<Longrightarrow> doc_rows doc = result_rows 0 rs"
  by (auto simp: generatePDF_def Let_def split: option.splits if_splits)

lemma results_Query_All_rows:
  "results_Query_All e w taskID = Inr rs \<Longrightarrow>
     map rg_result rs = filter (\<lambda>r. res_task_id r = taskID) (results w)"
  by (auto simp: results_Query_All_def load_result_edges_def Let_def o_def split: if_splits)

lemma GeneratePDFForAct_rendered:
  assumes "\<not> act_query_fault e" and "task_acts w taskID = [a0]"
    and "act_document_path a0 = [] \<or> os_ReadFile e w (act_document_path a0) = None"
    and "fst (GeneratePDFForAct s e w taskID) = Inr (doc, fn)"
  shows "generatePDF e (load_act_edges w a0) (task_results w taskID) = Inr (doc, fn)"
proof (cases "results_query_fault e")
  case True
  then show ?thesis
    using GeneratePDFForAct_fetch_fault(1) [OF assms(1-3) True, of s] assms(4) by simp
next
  case False
  show ?thesis
  proof (cases "generatePDF e (load_act_edges w a0) (task_results w taskID)")
    case (Inl err)
    then show ?thesis
      using GeneratePDFForAct_render_fault(1) [OF assms(1-3) False Inl, of s] assms(4) by simp
  next
    case (Inr r)
    obtain doc' fn' where r: "r = (doc', fn')" by (cases r)
    have gen: "generatePDF e (load_act_edges w a0) (task_results w taskID) = Inr (doc', fn')"
      using Inr r by simp
    show ?thesis
    proof (cases "write_file_fault e")
      case True
      then show ?thesis
        using GeneratePDFForAct_save_fault(1) [OF assms(1-3) False gen True, of s] assms(4)
        by simp
    next
      case wf: False
      have "fst (GeneratePDFForAct s e w taskID) = Inr (doc', fn')"
        by (rule GeneratePDFForAct_fresh(1) [OF assms(1-3) False gen wf])
      then show ?thesis using assms(4) gen by simp
    qed
  qed
qed

text \<open>
  C8, as amended. Every rendered document has one table row per result handed to the
  rendering, numbered from 1, each row showing that result's element name, condition
  label and comment, in the order of the list received. The results query returns the
  task's result rows in the order the store keeps them and applies no ordering, so the
  document that \<^verbatim>\<open>GeneratePDFForAct\<close> renders has one row per recorded result of
  the task, in storage order. The rows are in the order of the elements' order index
  when the stored results happen to be in that order.
\<close>

theorem rendered_rows_in_query_order:
  "(generatePDF e act rs = Inr (doc, fn) \<longrightarrow>
      length (doc_rows doc) = length rs
      \<and> (\<forall>i < length rs. doc_rows doc ! i = table_row_of i (rs ! i)))
   \<and> (results_Query_All e w taskID = Inr rs \<longrightarrow>
      map rg_result rs = filter (\<lambda>r. res_task_id r = taskID) (results w))
   \<and> (\<not> act_query_fault e \<and> task_acts w taskID = [a0]
       \<and> (act_document_path a0 = [] \<or> os_ReadFile e w (act_document_path a0) = None)
       \<and> fst (GeneratePDFForAct s e w taskID) = Inr (doc, fn) \<longrightarrow>
      doc_rows doc = result_rows 0 (task_results w taskID)
      \<and> map rg_result (task_results w taskID) =
          filter (\<lambda>r. res_task_id r = taskID) (results w)
      \<and> length (doc_rows doc) = length (filter (\<lambda>r. res_task_id r = taskID) (results w)))
   \<and> (sorted (map result_order_index (task_results w taskID)) \<longrightarrow>
      result_rows 0 (task_results w taskID) = spec_rows w taskID)"
proof (intro conjI impI allI)
  assume g: "generatePDF e act rs = Inr (doc, fn)"
  show "length (doc_rows doc) = length rs"
    by (simp add: generatePDF_rows [OF g])
  fix i assume "i < length rs"
  then show "doc_rows doc ! i = table_row_of i (rs ! i)"
    by (simp add: generatePDF_rows [OF g] result_rows_nth)
next
  assume "results_Query_All e w taskID = Inr rs"
  then show "map rg_result rs = filter (\<lambda>r. res_task_id r = taskID) (results w)"
    by (rule results_Query_All_rows)
next
  assume h: "\<not> act_query_fault e \<and> task_acts w taskID = [a0]
       \<and> (act_document_path a0 = [] \<or> os_ReadFile e w (act_document_path a0) = None)
       \<and> fst (GeneratePDFForAct s e w taskID) = Inr (doc, fn)"
  then have h1: "\<not> act_query_fault e" and h2: "task_acts w taskID = [a0]"
    and h3: "act_document_path a0 = [] \<or> os_ReadFile e w (act_document_path a0) = None"
    and h4: "fst (GeneratePDFForAct s e w taskID) = Inr (doc, fn)"
    by simp_all
  note g = GeneratePDFForAct_rendered [OF h1 h2 h3 h4]
  show "doc_rows doc = result_rows 0 (task_results w taskID)"
    by (rule generatePDF_rows [OF g])
  show "map rg_result (task_results w taskID) =
          filter (\<lambda>r. res_task_id r = taskID) (results w)"
    by (simp add: task_results_def load_result_edges_def Let_def o_def)
  show "length (doc_rows doc) = length (filter (\<lambda>r. res_task_id r = taskID) (results w))"
    by (simp add: generatePDF_rows [OF g] task_results_def)
next
  assume "sorted (map result_order_index (task_results w taskID))"
  then have "sort_key result_order_index (task_results w taskID) = task_results w taskID"
    by (rule sort_key_id_if_sorted)
  then show "result_rows 0 (task_results w taskID) = spec_rows w taskID"
    by (simp add: spec_rows_def)
qed

lemma W_rows_document:
  "fst (GeneratePDFForAct S0 E0 W_rows 1) = Inr (DocRows, ''act_1_20260309_140507.pdf'')"
proof -
  have miss: "act_document_path A0 = [] \<or> os_ReadFile E0 W_rows (act_document_path A0) = None"
    by (simp add: W_nodoc_facts(2))
  show ?thesis
    by (rule GeneratePDFForAct_fresh(1) [OF E0_act_faults(1) W_rows_facts(1) miss
          E0_render_faults(1) W_rows_render E0_render_faults(2)])
qed

text \<open>
  C8 as stated fails: the walls (order index 2) were recorded before the roof (order
  index 1), and the rendered table lists the walls first, where the order of the
  checklist would list the roof first.
\<close>

theorem rendered_rows_in_checklist_order_counterexample:
  "map rg_result (task_results W_rows 1) = [R_walls, R_roof]
   \<and> map result_order_index (task_results W_rows 1) = [2, 1]
   \<and> fst (GeneratePDFForAct S0 E0 W_rows 1) = Inr (DocRows, ''act_1_20260309_140507.pdf'')
   \<and> map row_element (doc_rows DocRows) = [''Walls'', ''Roof'']
   \<and> map row_element (spec_rows W_rows 1) = [''Roof'', ''Walls'']
   \<and> doc_rows DocRows \<noteq> spec_rows W_rows 1"
proof -
  have r: "map row_element (doc_rows DocRows) = [''Walls'', ''Roof'']"
    by (simp add: DocRows_def)
  have sp: "map row_element (spec_rows W_rows 1) = [''Roof'', ''Walls'']"
    unfolding W_rows_spec by simp
  have "map row_element (doc_rows DocRows) \<noteq> map row_element (spec_rows W_rows 1)"
    unfolding r sp by simp
  then have ne: "doc_rows DocRows \<noteq> spec_rows W_rows 1"
    by (rule contrapos_nn) simp
  show ?thesis
    by (intro conjI W_rows_results(1) W_rows_results(2) W_rows_document r sp ne)
qed

theorem rendered_rows_in_query_order_witness:
  "generatePDF E0 (load_act_edges W_rows A0) (task_results W_rows 1) =
     Inr (DocRows, ''act_1_20260309_140507.pdf'')
   \<and> length (doc_rows DocRows) = 2
   \<and> doc_rows DocRows ! 0 = table_row_of 0 (task_results W_rows 1 ! 0)
   \<and> doc_rows DocRows ! 1 = table_row_of 1 (task_results W_rows 1 ! 1)
   \<and> results_Query_All E0 W_rows 1 = Inr (task_results W_rows 1)
   \<and> filter (\<lambda>r. res_task_id r = 1) (results W_rows) = [R_walls, R_roof]
   \<and> fst (GeneratePDFForAct S0 E0 W_rows 1) = Inr (DocRows, ''act_1_20260309_140507.pdf'')
   \<and> doc_rows DocRows = result_rows 0 (task_results W_rows 1)
   \<and> sorted (map result_order_index (task_results W_sorted 1))
   \<and> result_rows 0 (task_results W_sorted 1) = spec_rows W_sorted 1"
proof -
  note th = rendered_rows_in_query_order
    [where e = E0 and act = "load_act_edges W_rows A0" and rs = "task_results W_rows 1"
       and doc = DocRows and fn = "''act_1_20260309_140507.pdf''" and w = W_rows
       and taskID = 1 and ?a0.0 = A0 and s = S0]
  note ordered = rendered_rows_in_query_order
    [where e = E0 and act = "load_act_edges W_sorted A0" and rs = "[]" and doc = DocFresh
       and fn = "[]" and w = W_sorted and taskID = 1 and ?a0.0 = A0 and s = S0]
  have miss: "act_document_path A0 = [] \<or> os_ReadFile E0 W_rows (act_document_path A0) = None"
    by (simp add: W_nodoc_facts(2))
  have q: "results_Query_All E0 W_rows 1 = Inr (task_results W_rows 1)"
    by (simp add: results_Query_All_def task_results_def E0_render_faults(1))
  have len: "length (doc_rows DocRows) = length (task_results W_rows 1)"
    and nth: "\<forall>i < length (task_results W_rows 1).
        doc_rows DocRows ! i = table_row_of i (task_results W_rows 1 ! i)"
    using th W_rows_render by blast+
  have l2: "length (doc_rows DocRows) = 2"
    using len by (simp only: W_rows_results(4))
  have n0: "doc_rows DocRows ! 0 = table_row_of 0 (task_results W_rows 1 ! 0)"
    and n1: "doc_rows DocRows ! 1 = table_row_of 1 (task_results W_rows 1 ! 1)"
    using nth by (simp_all add: W_rows_results(4))
  have "map rg_result (task_results W_rows 1) =
      filter (\<lambda>r. res_task_id r = 1) (results W_rows)"
    using th q by blast
  then have stored: "filter (\<lambda>r. res_task_id r = 1) (results W_rows) = [R_walls, R_roof]"
    using W_rows_results(1) by simp
  have rows: "doc_rows DocRows = result_rows 0 (task_results W_rows 1)"
    using th E0_act_faults(1) W_rows_facts(1) miss W_rows_document by blast
  have srt: "sorted (map result_order_index (task_results W_sorted 1))"
    unfolding W_sorted_results(1) by simp
  have eq: "result_rows 0 (task_results W_sorted 1) = spec_rows W_sorted 1"
    using ordered srt by blast
  show ?thesis
    by (intro conjI W_rows_render l2 n0 n1 q stored W_rows_document rows srt eq)
qed

end
